theory Spec2Isabelle
  imports Complex_Main
begin

section \<open>Scalars, vectors and rays\<close>

text \<open>
  \<^verbatim>\<open>Real\<close> is Thea's scalar type, \<^verbatim>\<open>float\<close> or \<^verbatim>\<open>double\<close>; its typedef is outside the
  sources. Both it and \<^verbatim>\<open>double\<close> are modelled by the real numbers, of which their values
  are a subset. The arithmetic of vectors is exact; the conversion \<^verbatim>\<open>(Real)\<close> of a
  \<^verbatim>\<open>double\<close>, which rounds when \<^verbatim>\<open>Real\<close> is \<^verbatim>\<open>float\<close>, is a parameter of the model
  (\<open>castReal\<close> below).
\<close>

type_synonym Real = real

type_synonym double = real

type_synonym Vector3 = "Real \<times> Real \<times> Real"

record Ray3 =
  origin :: Vector3
  direction :: Vector3

fun vsub :: "Vector3 \<Rightarrow> Vector3 \<Rightarrow> Vector3" where
  "vsub (a, b, c) (x, y, z) = (a - x, b - y, c - z)"

fun vadd :: "Vector3 \<Rightarrow> Vector3 \<Rightarrow> Vector3" where
  "vadd (a, b, c) (x, y, z) = (a + x, b + y, c + z)"

fun vscale :: "Real \<Rightarrow> Vector3 \<Rightarrow> Vector3" where
  "vscale k (x, y, z) = (k * x, k * y, k * z)"

fun dot :: "Vector3 \<Rightarrow> Vector3 \<Rightarrow> Real" where
  "dot (a, b, c) (x, y, z) = a * x + b * y + c * z"

definition norm3 :: "Vector3 \<Rightarrow> Real" where
  "norm3 v = sqrt (dot v v)"

text \<open>\<^verbatim>\<open>normalized()\<close> divides by the norm; on the zero vector HOL's \<open>x / 0 = 0\<close> stands
  for the NaN of the floating-point code.\<close>

definition normalized :: "Vector3 \<Rightarrow> Vector3" where
  "normalized v = vscale (1 / norm3 v) v"

definition getPoint :: "Ray3 \<Rightarrow> Real \<Rightarrow> Vector3" where
  "getPoint ray t = vadd (origin ray) (vscale t (direction ray))"

fun coord :: "nat \<Rightarrow> Vector3 \<Rightarrow> Real" where
  "coord ax (x, y, z) = (if ax = 0 then x else if ax = 1 then y else z)"

section \<open>Bounding volumes and primitives\<close>

text \<open>An axis-aligned box is a pair of corners, or the null box.\<close>

datatype AxisAlignedBox3 = NullBox | Box Vector3 Vector3

fun vmin :: "Vector3 \<Rightarrow> Vector3 \<Rightarrow> Vector3" where
  "vmin (a, b, c) (x, y, z) = (min a x, min b y, min c z)"

fun vmax :: "Vector3 \<Rightarrow> Vector3 \<Rightarrow> Vector3" where
  "vmax (a, b, c) (x, y, z) = (max a x, max b y, max c z)"

fun merge :: "AxisAlignedBox3 \<Rightarrow> AxisAlignedBox3 \<Rightarrow> AxisAlignedBox3" where
  "merge NullBox b = b"
| "merge a NullBox = a"
| "merge (Box lo hi) (Box lo' hi') = Box (vmin lo lo') (vmax hi hi')"

text \<open>
  The two kinds of primitive \<^verbatim>\<open>Model\<close> indexes: mesh vertices (the anchors of the vertex
  kd-tree) and mesh triangles (the elements of the face kd-tree). A triangle carries the
  payload \<^verbatim>\<open>pick\<close> reads back: its mesh and the index of its mesh face.
\<close>

record MeshVertex =
  vx_index :: int
  vx_position :: Vector3

record Triangle =
  tri_a :: Vector3
  tri_b :: Vector3
  tri_c :: Vector3
  tri_normal :: Vector3
  tri_mesh :: nat
  tri_face_index :: int

definition vertex_bounds :: "MeshVertex \<Rightarrow> AxisAlignedBox3" where
  "vertex_bounds v = Box (vx_position v) (vx_position v)"

definition vertex_centroid :: "MeshVertex \<Rightarrow> Vector3" where
  "vertex_centroid v = vx_position v"

definition triangle_bounds :: "Triangle \<Rightarrow> AxisAlignedBox3" where
  "triangle_bounds t =
     Box (vmin (tri_a t) (vmin (tri_b t) (tri_c t))) (vmax (tri_a t) (vmax (tri_b t) (tri_c t)))"

definition triangle_centroid :: "Triangle \<Rightarrow> Vector3" where
  "triangle_centroid t = vscale (1 / 3) (vadd (tri_a t) (vadd (tri_b t) (tri_c t)))"

section \<open>The kd-tree\<close>

text \<open>
  \<^verbatim>\<open>Algorithms/KDTreeN.hpp\<close> is not among the sources. Everything in this section is
  modelled from the specification (sections 3, 4.2 to 4.5); each definition says which
  sentences it follows.
\<close>

text \<open>A hierarchy node is a leaf with a bucket of primitive indices, or an internal node
  with split axis, split position and two children; both carry their bounding volume.\<close>

datatype Node =
  Leaf AxisAlignedBox3 "nat list"
| Inner AxisAlignedBox3 nat Real Node Node

fun node_bounds :: "Node \<Rightarrow> AxisAlignedBox3" where
  "node_bounds (Leaf bb is) = bb"
| "node_bounds (Inner bb ax pos lo hi) = bb"

fun node_indices :: "Node \<Rightarrow> nat list" where
  "node_indices (Leaf bb is) = is"
| "node_indices (Inner bb ax pos lo hi) = node_indices lo @ node_indices hi"

text \<open>An index instance: its primitives, its hierarchy (absent when empty or cleared) and
  an optional affine transform.\<close>

record ('e, 't) KDTreeN =
  kd_elems :: "'e list"
  kd_root :: "Node option"
  kd_trans :: "'t option"

definition kd_new :: "('e, 't) KDTreeN" where
  "kd_new = \<lparr>kd_elems = [], kd_root = None, kd_trans = None\<rparr>"

text \<open>Modelled from the spec: \<^verbatim>\<open>clear()\<close> discards the hierarchy and resets the index to
  empty; the transform is separate state that only \<^verbatim>\<open>setTransform\<close> and
  \<^verbatim>\<open>clearTransform\<close> store and remove.\<close>

definition kd_clear :: "('e, 't) KDTreeN \<Rightarrow> ('e, 't) KDTreeN" where
  "kd_clear kd = kd\<lparr>kd_elems := [], kd_root := None\<rparr>"

definition kd_add :: "'e list \<Rightarrow> ('e, 't) KDTreeN \<Rightarrow> ('e, 't) KDTreeN" where
  "kd_add es kd = kd\<lparr>kd_elems := kd_elems kd @ es\<rparr>"

text \<open>Modelled from the spec: \<^verbatim>\<open>setTransform(T)\<close> and \<^verbatim>\<open>clearTransform()\<close> store and remove
  an affine transform without touching the hierarchy.\<close>

definition kd_setTransform :: "'t \<Rightarrow> ('e, 't) KDTreeN \<Rightarrow> ('e, 't) KDTreeN" where
  "kd_setTransform t kd = kd\<lparr>kd_trans := Some t\<rparr>"

definition kd_clearTransform :: "('e, 't) KDTreeN \<Rightarrow> ('e, 't) KDTreeN" where
  "kd_clearTransform kd = kd\<lparr>kd_trans := None\<rparr>"

subsection \<open>Hierarchy builder\<close>

definition bounds_of :: "('e \<Rightarrow> AxisAlignedBox3) \<Rightarrow> 'e list \<Rightarrow> nat list \<Rightarrow> AxisAlignedBox3" where
  "bounds_of bnd es is = fold (\<lambda>i bb. merge bb (bnd (es ! i))) is NullBox"

definition extent :: "('e \<Rightarrow> Vector3) \<Rightarrow> 'e list \<Rightarrow> nat list \<Rightarrow> nat \<Rightarrow> Real" where
  "extent cen es is ax =
     (let ks = map (\<lambda>i. coord ax (cen (es ! i))) is
      in fold max ks (hd ks) - fold min ks (hd ks))"

definition split_axis :: "('e \<Rightarrow> Vector3) \<Rightarrow> 'e list \<Rightarrow> nat list \<Rightarrow> nat" where
  "split_axis cen es is =
     (let e0 = extent cen es is 0; e1 = extent cen es is 1; e2 = extent cen es is 2
      in if e1 \<le> e0 \<and> e2 \<le> e0 then 0 else if e2 \<le> e1 then 1 else 2)"

text \<open>
  Modelled from the spec (4.2): a set no larger than the leaf threshold becomes a leaf;
  otherwise the axis of greatest extent of the centroids is chosen, the primitives are
  ordered by centroid coordinate along it and cut at the median into two halves, and the
  parent's bounding volume is the merge of its children's. The sort is stable, so
  primitives with equal centroid coordinates are cut in index order. A bucket holds at
  least one primitive, whatever the threshold.
\<close>

function build ::
  "('e \<Rightarrow> AxisAlignedBox3) \<Rightarrow> ('e \<Rightarrow> Vector3) \<Rightarrow> nat \<Rightarrow> 'e list \<Rightarrow> nat list \<Rightarrow> Node" where
  "build bnd cen thr es is =
     (if length is \<le> max 1 thr then Leaf (bounds_of bnd es is) is
      else
        let ax = split_axis cen es is;
            srt = sort_key (\<lambda>i. coord ax (cen (es ! i))) is;
            h = length is div 2;
            lo = build bnd cen thr es (take h srt);
            hi = build bnd cen thr es (drop h srt)
        in Inner (merge (node_bounds lo) (node_bounds hi)) ax
             (coord ax (cen (es ! (srt ! h)))) lo hi)"
  by pat_completeness auto
termination
  by (relation "measure (\<lambda>(bnd, cen, thr, es, is). length is)") auto

text \<open>Modelled from the spec: \<^verbatim>\<open>init()\<close> builds the hierarchy over the primitives the index
  holds; zero primitives give the empty tree (no root).\<close>

definition kd_init ::
  "('e \<Rightarrow> AxisAlignedBox3) \<Rightarrow> ('e \<Rightarrow> Vector3) \<Rightarrow> nat \<Rightarrow> ('e, 't) KDTreeN \<Rightarrow> ('e, 't) KDTreeN" where
  "kd_init bnd cen thr kd =
     kd\<lparr>kd_root := (if kd_elems kd = [] then None
                     else Some (build bnd cen thr (kd_elems kd) [0..<length (kd_elems kd)]))\<rparr>"

declare build.simps [simp del]

text \<open>Modelled from the spec: \<^verbatim>\<open>init(begin, end)\<close> bulk-loads the primitives of the range
  into the emptied index and builds the hierarchy over them.\<close>

definition kd_init_from ::
  "('e \<Rightarrow> AxisAlignedBox3) \<Rightarrow> ('e \<Rightarrow> Vector3) \<Rightarrow> nat \<Rightarrow> 'e list \<Rightarrow> ('e, 't) KDTreeN
     \<Rightarrow> ('e, 't) KDTreeN" where
  "kd_init_from bnd cen thr es kd = kd_init bnd cen thr (kd_add es (kd_clear kd))"

subsection \<open>Capabilities supplied per query\<close>

text \<open>
  The metric (\<^verbatim>\<open>MetricL2\<close>), the ray tester (\<^verbatim>\<open>RayIntersectionTester\<close>) and the affine
  transform belong to Thea's math layer, which is not among the sources. They are
  parameters of the queries, as they are template arguments in the code: a metric gives
  the distance between a query and a primitive, with the closest point on each, and a
  lower bound on the distance between a query and a bounding volume; a ray tester gives
  the hit time of a ray on a primitive and the time at which a ray enters a bounding
  volume (each negative when the ray misses); the transform operations map a point or a ray into object space and a point back into world space.
\<close>

record ('q, 'e) Metric =
  closestPoints :: "'q \<Rightarrow> 'e \<Rightarrow> Real \<times> Vector3 \<times> Vector3"
  lowerBound :: "'q \<Rightarrow> AxisAlignedBox3 \<Rightarrow> Real"

record 'e RayTester =
  rayTime :: "Ray3 \<Rightarrow> 'e \<Rightarrow> Real"
  rayBoxTime :: "Ray3 \<Rightarrow> AxisAlignedBox3 \<Rightarrow> Real"

record 't TransformOps =
  pointToObject :: "'t \<Rightarrow> Vector3 \<Rightarrow> Vector3"
  pointToWorld :: "'t \<Rightarrow> Vector3 \<Rightarrow> Vector3"
  rayToObject :: "'t \<Rightarrow> Ray3 \<Rightarrow> Ray3"

definition distance :: "('q, 'e) Metric \<Rightarrow> 'q \<Rightarrow> 'e \<Rightarrow> Real" where
  "distance M q e = fst (closestPoints M q e)"

definition toObject :: "('t \<Rightarrow> 'q \<Rightarrow> 'q) \<Rightarrow> 't option \<Rightarrow> 'q \<Rightarrow> 'q" where
  "toObject f tr q = (case tr of None \<Rightarrow> q | Some t \<Rightarrow> f t q)"

definition toWorld :: "'t TransformOps \<Rightarrow> 't option \<Rightarrow> Vector3 \<Rightarrow> Vector3" where
  "toWorld X tr p = (case tr of None \<Rightarrow> p | Some t \<Rightarrow> pointToWorld X t p)"

subsection \<open>Query engine\<close>

text \<open>
  The running best of a traversal: the primitive found so far, if any, and the current
  limit on distance or time (\<open>None\<close>: no limit yet). A bound or maximum time that is
  negative means that none was given: \<^verbatim>\<open>Model::pick\<close> passes \<open>-1\<close> for an unbounded
  closest-pair query.
\<close>

type_synonym Best = "nat option \<times> Real option"

definition initial_best :: "Real \<Rightarrow> Best" where
  "initial_best bound = (None, if bound < 0 then None else Some bound)"

text \<open>A candidate is taken when it lies within the bound and nothing was found yet, or
  when it is strictly better than what was found: on equal values the first one met in
  traversal order stays.\<close>

fun improves :: "Real \<Rightarrow> Best \<Rightarrow> bool" where
  "improves d (found, None) = True"
| "improves d (None, Some b) = (d \<le> b)"
| "improves d (Some j, Some b) = (d < b)"

fun exceeds :: "Real \<Rightarrow> Best \<Rightarrow> bool" where
  "exceeds l (found, None) = False"
| "exceeds l (found, Some b) = (b < l)"

definition nn_test :: "('q, 'e) Metric \<Rightarrow> 'e list \<Rightarrow> 'q \<Rightarrow> nat \<Rightarrow> Best \<Rightarrow> Best" where
  "nn_test M es q i best =
     (let d = distance M q (es ! i) in if improves d best then (Some i, Some d) else best)"

text \<open>Modelled from the spec (4.3, closestElement): depth first; a subtree whose lower
  bound exceeds the running best is pruned; the closer child is searched first; at a
  leaf every primitive is tested.\<close>

fun nn_node :: "('q, 'e) Metric \<Rightarrow> 'e list \<Rightarrow> 'q \<Rightarrow> Node \<Rightarrow> Best \<Rightarrow> Best" where
  "nn_node M es q (Leaf bb is) best =
     (if exceeds (lowerBound M q bb) best then best else fold (nn_test M es q) is best)"
| "nn_node M es q (Inner bb ax pos lo hi) best =
     (if exceeds (lowerBound M q bb) best then best
      else if lowerBound M q (node_bounds lo) \<le> lowerBound M q (node_bounds hi)
      then nn_node M es q hi (nn_node M es q lo best)
      else nn_node M es q lo (nn_node M es q hi best))"

text \<open>The result of \<^verbatim>\<open>closestElement\<close>: the primitive's index or \<open>-1\<close>, and the two
  outputs (distance, closest point), written only when a primitive is found.\<close>

definition closestElement ::
  "'t TransformOps \<Rightarrow> (Vector3, 'e) Metric \<Rightarrow> ('e, 't) KDTreeN \<Rightarrow> Vector3 \<Rightarrow> Real
     \<Rightarrow> int \<times> Real option \<times> Vector3 option" where
  "closestElement X M kd query dist_bound =
     (case kd_root kd of
        None \<Rightarrow> (- 1, None, None)
      | Some n \<Rightarrow>
          let q = toObject (pointToObject X) (kd_trans kd) query
          in case fst (nn_node M (kd_elems kd) q n (initial_best dist_bound)) of
               None \<Rightarrow> (- 1, None, None)
             | Some i \<Rightarrow>
                 let (d, qp, tp) = closestPoints M q (kd_elems kd ! i)
                 in (int i, Some d, Some (toWorld X (kd_trans kd) tp)))"

definition ray_prune :: "'e RayTester \<Rightarrow> Ray3 \<Rightarrow> AxisAlignedBox3 \<Rightarrow> Best \<Rightarrow> bool" where
  "ray_prune T r bb best = (rayBoxTime T r bb < 0 \<or> exceeds (rayBoxTime T r bb) best)"

definition ray_test :: "'e RayTester \<Rightarrow> 'e list \<Rightarrow> Ray3 \<Rightarrow> nat \<Rightarrow> Best \<Rightarrow> Best" where
  "ray_test T es r i best =
     (let t = rayTime T r (es ! i)
      in if 0 \<le> t \<and> improves t best then (Some i, Some t) else best)"

text \<open>Modelled from the spec (4.3, ray queries): a subtree whose bounding volume the ray
  does not meet within the running best time is pruned; at a leaf every primitive is
  tested and the minimum time is kept.\<close>

fun ray_node :: "'e RayTester \<Rightarrow> 'e list \<Rightarrow> Ray3 \<Rightarrow> Node \<Rightarrow> Best \<Rightarrow> Best" where
  "ray_node T es r (Leaf bb is) best =
     (if ray_prune T r bb best then best else fold (ray_test T es r) is best)"
| "ray_node T es r (Inner bb ax pos lo hi) best =
     (if ray_prune T r bb best then best else ray_node T es r hi (ray_node T es r lo best))"

record RayStructureIntersection3 =
  isec_valid :: bool
  isec_time :: Real
  isec_element :: int

definition no_intersection :: RayStructureIntersection3 where
  "no_intersection = \<lparr>isec_valid = False, isec_time = - 1, isec_element = - 1\<rparr>"

definition rayStructureIntersection ::
  "'t TransformOps \<Rightarrow> 'e RayTester \<Rightarrow> ('e, 't) KDTreeN \<Rightarrow> Ray3 \<Rightarrow> Real
     \<Rightarrow> RayStructureIntersection3" where
  "rayStructureIntersection X T kd ray max_time =
     (case kd_root kd of
        None \<Rightarrow> no_intersection
      | Some n \<Rightarrow>
          (case ray_node T (kd_elems kd) (toObject (rayToObject X) (kd_trans kd) ray) n
                  (initial_best max_time) of
             (Some i, Some t) \<Rightarrow> \<lparr>isec_valid = True, isec_time = t, isec_element = int i\<rparr>
           | _ \<Rightarrow> no_intersection))"

definition kd_rayIntersectionTime ::
  "'t TransformOps \<Rightarrow> 'e RayTester \<Rightarrow> ('e, 't) KDTreeN \<Rightarrow> Ray3 \<Rightarrow> Real \<Rightarrow> Real" where
  "kd_rayIntersectionTime X T kd ray max_time =
     isec_time (rayStructureIntersection X T kd ray max_time)"

text \<open>Modelled from the spec: \<^verbatim>\<open>rayIntersects\<close> stops at the first hit found.\<close>

fun hit_node :: "'e RayTester \<Rightarrow> 'e list \<Rightarrow> Ray3 \<Rightarrow> Best \<Rightarrow> Node \<Rightarrow> bool" where
  "hit_node T es r best (Leaf bb is) =
     (\<not> ray_prune T r bb best \<and>
      list_ex (\<lambda>i. 0 \<le> rayTime T r (es ! i) \<and> improves (rayTime T r (es ! i)) best) is)"
| "hit_node T es r best (Inner bb ax pos lo hi) =
     (\<not> ray_prune T r bb best \<and> (hit_node T es r best lo \<or> hit_node T es r best hi))"

definition kd_rayIntersects ::
  "'t TransformOps \<Rightarrow> 'e RayTester \<Rightarrow> ('e, 't) KDTreeN \<Rightarrow> Ray3 \<Rightarrow> Real \<Rightarrow> bool" where
  "kd_rayIntersects X T kd ray max_time =
     (case kd_root kd of
        None \<Rightarrow> False
      | Some n \<Rightarrow>
          hit_node T (kd_elems kd) (toObject (rayToObject X) (kd_trans kd) ray)
            (initial_best max_time) n)"

record NeighborPair =
  pair_valid :: bool
  pair_query_point :: Vector3
  pair_target_point :: Vector3
  pair_target_index :: int
  pair_distance :: Real

definition no_pair :: NeighborPair where
  "no_pair = \<lparr>pair_valid = False, pair_query_point = (0, 0, 0), pair_target_point = (0, 0, 0),
     pair_target_index = - 1, pair_distance = - 1\<rparr>"

text \<open>Modelled from the spec (4.3, closestPair): the primitive closest to the ray, found
  as in \<^verbatim>\<open>closestElement\<close> with the ray metric; with \<open>onlyIfNoHit\<close> the result is invalid
  as soon as the ray hits a primitive exactly.\<close>

definition closestPair ::
  "'t TransformOps \<Rightarrow> (Ray3, 'e) Metric \<Rightarrow> 'e RayTester \<Rightarrow> ('e, 't) KDTreeN \<Rightarrow> Ray3 \<Rightarrow> Real \<Rightarrow> bool
     \<Rightarrow> NeighborPair" where
  "closestPair X M T kd ray max_distance onlyIfNoHit =
     (if onlyIfNoHit \<and> kd_rayIntersects X T kd ray (- 1) then no_pair
      else
        case kd_root kd of
          None \<Rightarrow> no_pair
        | Some n \<Rightarrow>
            let r = toObject (rayToObject X) (kd_trans kd) ray
            in case fst (nn_node M (kd_elems kd) r n (initial_best max_distance)) of
                 None \<Rightarrow> no_pair
               | Some i \<Rightarrow>
                   let (d, qp, tp) = closestPoints M r (kd_elems kd ! i)
                   in \<lparr>pair_valid = True,
                       pair_query_point = toWorld X (kd_trans kd) qp,
                       pair_target_point = toWorld X (kd_trans kd) tp,
                       pair_target_index = int i, pair_distance = d\<rparr>)"

section \<open>The model (Tools/Browse3D/Model.cpp)\<close>

text \<open>
  \<^verbatim>\<open>MeshGroup\<close> and \<^verbatim>\<open>PointCloud\<close> are declared outside the sources. The model keeps what
  \<^verbatim>\<open>Model.cpp\<close> observes of them: the name, the answer of \<^verbatim>\<open>isEmpty()\<close>, the vertices
  that \<^verbatim>\<open>forEachMeshUntil\<close> visits and the triangles that \<^verbatim>\<open>kdtree->add\<close> takes.
\<close>

record MeshGroup =
  mg_name :: string
  mg_isEmpty :: bool
  mg_vertices :: "MeshVertex list"
  mg_triangles :: "Triangle list"

record PointCloud =
  pc_name :: string
  pc_isEmpty :: bool

record Sample =
  sample_type :: string
  sample_label :: string
  sample_mesh :: "nat option"
  sample_face_index :: int
  sample_position :: Vector3

datatype wxEvent =
  EVT_MODEL_PATH_CHANGED
| EVT_MODEL_GEOMETRY_CHANGED
| EVT_MODEL_NEEDS_REDRAW
| EVT_MODEL_NEEDS_SYNC_SAMPLES
| EVT_MODEL_NEEDS_SYNC_SEGMENTS

text \<open>
  The template arguments and header constants the member functions use, none of them
  among the sources: the transform operations, \<^verbatim>\<open>MetricL2\<close> on the three pairs of
  query and primitive that occur, \<^verbatim>\<open>RayIntersectionTester\<close>, the leaf threshold of
  \<^verbatim>\<open>init()\<close>, the default \<^verbatim>\<open>max_time\<close> of \<^verbatim>\<open>rayIntersection\<close> declared in
  \<^verbatim>\<open>Model.hpp\<close>, and the conversion \<^verbatim>\<open>(Real)\<close> of a \<^verbatim>\<open>double\<close>.
\<close>

record 't Env =
  xform :: "'t TransformOps"
  metricL2_vertex :: "(Vector3, MeshVertex) Metric"
  metricL2_triangle :: "(Vector3, Triangle) Metric"
  metricL2_ray :: "(Ray3, Triangle) Metric"
  rayTester :: "Triangle RayTester"
  max_elems_per_leaf :: nat
  default_max_time :: Real
  castReal :: "double \<Rightarrow> Real"

text \<open>
  The members of \<^verbatim>\<open>Model\<close> that the query functions read or write. A null
  \<^verbatim>\<open>MeshGroupPtr\<close> or \<^verbatim>\<open>PointCloudPtr\<close> is \<open>None\<close>; \<open>transform\<close> is the state of the base
  class \<^verbatim>\<open>TransformableBaseT\<close> (\<^verbatim>\<open>hasTransform()\<close> is \<open>transform \<noteq> None\<close>). \<open>console\<close>
  and \<open>posted_events\<close> record the lines written to \<^verbatim>\<open>THEA_CONSOLE\<close> and the events given
  to \<^verbatim>\<open>wxPostEvent\<close>. The two counters are not members of the class: they count how
  often each kd-tree was rebuilt, so that statements about rebuilds can be made.
\<close>

record 't Model =
  mesh_group :: "MeshGroup option"
  point_cloud :: "PointCloud option"
  transform :: "'t option"
  valid_pick :: bool
  picked_sample :: Sample
  valid_kdtree :: bool
  kdtree :: "(Triangle, 't) KDTreeN"
  valid_vertex_kdtree :: bool
  vertex_kdtree :: "(MeshVertex, 't) KDTreeN"
  console :: "string list"
  posted_events :: "wxEvent list"
  kdtree_rebuilds :: nat
  vertex_kdtree_rebuilds :: nat

text \<open>What a crash of the C++ code is in the model.\<close>

datatype Fault = NullDereference | IndexOutOfRange

text \<open>The constructor's initialiser list, with the assignment to \<^verbatim>\<open>picked_sample.type\<close>
  (loading the initial mesh is file input and not modelled).\<close>

definition Model_new :: "'t Model" where
  "Model_new =
     \<lparr>mesh_group = None, point_cloud = None, transform = None, valid_pick = False,
      picked_sample = \<lparr>sample_type = ''Picked'', sample_label = [], sample_mesh = None,
        sample_face_index = 0, sample_position = (0, 0, 0)\<rparr>,
      valid_kdtree = True, kdtree = kd_new,
      valid_vertex_kdtree = True, vertex_kdtree = kd_new,
      console = [], posted_events = [], kdtree_rebuilds = 0, vertex_kdtree_rebuilds = 0\<rparr>"

definition getName :: "'t Model \<Rightarrow> string" where
  "getName s =
     (case mesh_group s of
        Some mg \<Rightarrow> mg_name mg
      | None \<Rightarrow> (case point_cloud s of Some pc \<Rightarrow> pc_name pc | None \<Rightarrow> ''Untitled''))"

definition isEmpty :: "'t Model \<Rightarrow> bool" where
  "isEmpty s =
     ((case mesh_group s of None \<Rightarrow> True | Some mg \<Rightarrow> mg_isEmpty mg) \<and>
      (case point_cloud s of None \<Rightarrow> True | Some pc \<Rightarrow> pc_isEmpty pc))"

definition setTransform :: "'t \<Rightarrow> 't Model \<Rightarrow> 't Model" where
  "setTransform tr s =
     (let s1 = s\<lparr>transform := Some tr\<rparr>;
          s2 = (if valid_kdtree s1 then s1\<lparr>kdtree := kd_setTransform tr (kdtree s1)\<rparr> else s1)
      in if valid_vertex_kdtree s2
         then s2\<lparr>vertex_kdtree := kd_setTransform tr (vertex_kdtree s2)\<rparr> else s2)"

definition clearTransform :: "'t Model \<Rightarrow> 't Model" where
  "clearTransform s =
     (let s1 = s\<lparr>transform := None\<rparr>;
          s2 = (if valid_kdtree s1 then s1\<lparr>kdtree := kd_clearTransform (kdtree s1)\<rparr> else s1)
      in if valid_vertex_kdtree s2
         then s2\<lparr>vertex_kdtree := kd_clearTransform (vertex_kdtree s2)\<rparr> else s2)"

definition invalidateKDTree :: "'t Model \<Rightarrow> 't Model" where
  "invalidateKDTree s = s\<lparr>valid_kdtree := False\<rparr>"

definition invalidateVertexKDTree :: "'t Model \<Rightarrow> 't Model" where
  "invalidateVertexKDTree s = s\<lparr>valid_vertex_kdtree := False\<rparr>"

definition invalidateAll :: "'t Model \<Rightarrow> 't Model" where
  "invalidateAll s = invalidateKDTree (invalidateVertexKDTree s)"

definition updateKDTree :: "'t Env \<Rightarrow> 't Model \<Rightarrow> 't Model" where
  "updateKDTree E s =
     (if valid_kdtree s then s
      else
        let s1 = s\<lparr>kdtree := kd_clear (kdtree s), kdtree_rebuilds := Suc (kdtree_rebuilds s)\<rparr>;
            s2 = (case mesh_group s1 of
                    None \<Rightarrow> s1
                  | Some mg \<Rightarrow>
                      let k1 = kd_add (mg_triangles mg) (kdtree s1);
                          k2 = kd_init triangle_bounds triangle_centroid (max_elems_per_leaf E) k1;
                          k3 = (case transform s1 of None \<Rightarrow> k2 | Some t \<Rightarrow> kd_setTransform t k2)
                      in s1\<lparr>kdtree := k3, console := console s1 @ [getName s1 @ '': Updated kd-tree'']\<rparr>)
        in s2\<lparr>valid_kdtree := True\<rparr>)"

text \<open>\<^verbatim>\<open>mesh_group->forEachMeshUntil\<close> dereferences the pointer without a check.\<close>

definition updateVertexKDTree :: "'t Env \<Rightarrow> 't Model \<Rightarrow> Fault + 't Model" where
  "updateVertexKDTree E s =
     (if valid_vertex_kdtree s then Inr s
      else
        let s1 = s\<lparr>vertex_kdtree := kd_clear (vertex_kdtree s),
                   vertex_kdtree_rebuilds := Suc (vertex_kdtree_rebuilds s)\<rparr>
        in case mesh_group s1 of
             None \<Rightarrow> Inl NullDereference
           | Some mg \<Rightarrow>
               let verts = mg_vertices mg;
                   k1 = kd_init_from vertex_bounds vertex_centroid (max_elems_per_leaf E) verts
                          (vertex_kdtree s1);
                   k2 = (case transform s1 of None \<Rightarrow> k1 | Some t \<Rightarrow> kd_setTransform t k1)
               in Inr (s1\<lparr>vertex_kdtree := k2, valid_vertex_kdtree := True\<rparr>))"

text \<open>Modelled from the spec: every query entry method first checks validity, so the
  default of \<^verbatim>\<open>recompute_if_invalid\<close>, declared in \<^verbatim>\<open>Model.hpp\<close>, is true.\<close>

definition recompute_if_invalid_default :: bool where
  "recompute_if_invalid_default = True"

definition getKDTree :: "'t Env \<Rightarrow> bool \<Rightarrow> 't Model \<Rightarrow> 't Model" where
  "getKDTree E recompute_if_invalid s = (if recompute_if_invalid then updateKDTree E s else s)"

definition getVertexKDTree :: "'t Env \<Rightarrow> bool \<Rightarrow> 't Model \<Rightarrow> Fault + 't Model" where
  "getVertexKDTree E recompute_if_invalid s =
     (if recompute_if_invalid then updateVertexKDTree E s else Inr s)"

definition rayIntersects :: "'t Env \<Rightarrow> Ray3 \<Rightarrow> Real \<Rightarrow> 't Model \<Rightarrow> bool \<times> 't Model" where
  "rayIntersects E ray max_time s =
     (let s1 = getKDTree E recompute_if_invalid_default s
      in (kd_rayIntersects (xform E) (rayTester E) (kdtree s1) ray max_time, s1))"

definition rayIntersectionTime :: "'t Env \<Rightarrow> Ray3 \<Rightarrow> Real \<Rightarrow> 't Model \<Rightarrow> Real \<times> 't Model" where
  "rayIntersectionTime E ray max_time s =
     (let s1 = getKDTree E recompute_if_invalid_default s
      in (kd_rayIntersectionTime (xform E) (rayTester E) (kdtree s1) ray max_time, s1))"

definition rayIntersection ::
  "'t Env \<Rightarrow> Ray3 \<Rightarrow> Real \<Rightarrow> 't Model \<Rightarrow> RayStructureIntersection3 \<times> 't Model" where
  "rayIntersection E ray max_time s =
     (let s1 = getKDTree E recompute_if_invalid_default s
      in (rayStructureIntersection (xform E) (rayTester E) (kdtree s1) ray max_time, s1))"

text \<open>The return value and the three output parameters of \<^verbatim>\<open>closestPoint\<close>; \<open>None\<close> is
  an output the function did not write.\<close>

record ClosestPointResult =
  cp_index :: int
  cp_min_dist :: "Real option"
  cp_closest_pt :: "Vector3 option"
  cp_closest_pt_normal :: "Vector3 option"

definition cp_none :: ClosestPointResult where
  "cp_none = \<lparr>cp_index = - 1, cp_min_dist = None, cp_closest_pt = None,
     cp_closest_pt_normal = None\<rparr>"

text \<open>The first block of \<^verbatim>\<open>closestPoint\<close>: the bound for the face query, tightened by a
  query on the vertex kd-tree when \<open>accelerate_with_vertices\<close> is set. The kd-tree writes
  the distance it found to a \<^verbatim>\<open>double\<close>, which is converted to \<^verbatim>\<open>Real\<close>.\<close>

definition tightenBound ::
  "'t Env \<Rightarrow> Vector3 \<Rightarrow> Real \<Rightarrow> bool \<Rightarrow> 't Model \<Rightarrow> Fault + (Real \<times> 't Model)" where
  "tightenBound E query distance_bound accelerate_with_vertices s =
     (if accelerate_with_vertices then
        (case updateVertexKDTree E s of
           Inl f \<Rightarrow> Inl f
         | Inr s1 \<Rightarrow>
             let (vertex_index, out_dist, out_pt) =
                   closestElement (xform E) (metricL2_vertex E) (vertex_kdtree s1) query distance_bound;
                 fast_distance_bound = (case out_dist of None \<Rightarrow> 0 | Some d \<Rightarrow> d) :: double
             in Inr (if 0 \<le> vertex_index then castReal E fast_distance_bound else distance_bound,
                     s1))
      else Inr (distance_bound, s))"

definition closestPoint ::
  "'t Env \<Rightarrow> Vector3 \<Rightarrow> Real \<Rightarrow> bool \<Rightarrow> 't Model \<Rightarrow> Fault + (ClosestPointResult \<times> 't Model)" where
  "closestPoint E query distance_bound accelerate_with_vertices s =
     (if \<not> isEmpty s then
        (case tightenBound E query distance_bound accelerate_with_vertices s of
           Inl f \<Rightarrow> Inl f
         | Inr (bound, s1) \<Rightarrow>
             let s2 = updateKDTree E s1;
                 (index, out_dist, closest_pt) =
                   closestElement (xform E) (metricL2_triangle E) (kdtree s2) query bound;
                 d = (case out_dist of None \<Rightarrow> 0 | Some x \<Rightarrow> x) :: double
             in if 0 \<le> index then
                  (if nat index < length (kd_elems (kdtree s2)) then
                     Inr (\<lparr>cp_index = index, cp_min_dist = Some (castReal E d),
                           cp_closest_pt = closest_pt,
                           cp_closest_pt_normal = Some (tri_normal (kd_elems (kdtree s2) ! nat index))\<rparr>,
                          s2)
                   else Inl IndexOutOfRange)
                else Inr (cp_none, s2))
      else Inr (cp_none, s))"

definition pick :: "'t Env \<Rightarrow> Ray3 \<Rightarrow> 't Model \<Rightarrow> Fault + (Real \<times> 't Model)" where
  "pick E ray s0 =
     (let (isec, s) = rayIntersection E ray (default_max_time E) s0;
          (index, t, s1) =
            (if isec_valid isec then
               (isec_element isec, isec_time isec,
                s\<lparr>picked_sample := (picked_sample s)\<lparr>sample_position := getPoint ray (isec_time isec)\<rparr>\<rparr>)
             else
               let cp = closestPair (xform E) (metricL2_ray E) (rayTester E) (kdtree s) ray (- 1) True
               in if pair_valid cp then
                    let t = dot (vsub (pair_query_point cp) (origin ray)) (normalized (direction ray))
                    in if 0 \<le> t then
                         (pair_target_index cp, t,
                          s\<lparr>picked_sample := (picked_sample s)\<lparr>sample_position := pair_target_point cp\<rparr>\<rparr>)
                       else (- 1, t, s)
                  else (- 1, - 1, s))
      in if 0 \<le> index then
           (if nat index < length (kd_elems (kdtree s1)) then
              let triple = kd_elems (kdtree s1) ! nat index
              in Inr (t, s1\<lparr>picked_sample := (picked_sample s1)\<lparr>sample_mesh := Some (tri_mesh triple),
                                 sample_face_index := tri_face_index triple\<rparr>,
                          valid_pick := True,
                          posted_events := posted_events s1 @ [EVT_MODEL_NEEDS_REDRAW]\<rparr>)
            else Inl IndexOutOfRange)
         else Inr (t, s1))"

definition invalidatePick :: "'t Model \<Rightarrow> 't Model" where
  "invalidatePick s =
     s\<lparr>valid_pick := False, posted_events := posted_events s @ [EVT_MODEL_NEEDS_REDRAW]\<rparr>"

section \<open>A Euclidean instance\<close>

text \<open>
  One concrete choice of the capabilities, on which the statements below are exercised:
  transforms are translations, distances are Euclidean (point to point, point to
  triangle, point to box), rays are tested against triangles and boxes (slab method),
  and the ray metric measures a ray against the corners of a triangle with the trivial
  lower bound. \<^verbatim>\<open>Real\<close> is \<^verbatim>\<open>double\<close>: the conversion is the identity.
\<close>

fun cross :: "Vector3 \<Rightarrow> Vector3 \<Rightarrow> Vector3" where
  "cross (a, b, c) (x, y, z) = (b * z - c * y, c * x - a * z, a * y - b * x)"

definition translation_ops :: "Vector3 TransformOps" where
  "translation_ops =
     \<lparr>pointToObject = (\<lambda>t p. vsub p t), pointToWorld = (\<lambda>t p. vadd p t),
      rayToObject = (\<lambda>t r. r\<lparr>origin := vsub (origin r) t\<rparr>)\<rparr>"

definition excess :: "Real \<Rightarrow> Real \<Rightarrow> Real \<Rightarrow> Real" where
  "excess lo hi x = max 0 (max (lo - x) (x - hi))"

fun point_box_distance :: "Vector3 \<Rightarrow> AxisAlignedBox3 \<Rightarrow> Real" where
  "point_box_distance q NullBox = 0"
| "point_box_distance (x, y, z) (Box (a, b, c) (d, e, f)) =
     norm3 (excess a d x, excess b e y, excess c f z)"

definition euclid_vertex :: "(Vector3, MeshVertex) Metric" where
  "euclid_vertex =
     \<lparr>closestPoints = (\<lambda>q v. (norm3 (vsub q (vx_position v)), q, vx_position v)),
      lowerBound = point_box_distance\<rparr>"

definition closest_on_triangle :: "Vector3 \<Rightarrow> Vector3 \<Rightarrow> Vector3 \<Rightarrow> Vector3 \<Rightarrow> Vector3" where
  "closest_on_triangle p a b c =
     (let ab = vsub b a; ac = vsub c a; ap = vsub p a;
          d1 = dot ab ap; d2 = dot ac ap
      in if d1 \<le> 0 \<and> d2 \<le> 0 then a
         else
           let bp = vsub p b; d3 = dot ab bp; d4 = dot ac bp
           in if 0 \<le> d3 \<and> d4 \<le> d3 then b
              else if d1 * d4 - d3 * d2 \<le> 0 \<and> 0 \<le> d1 \<and> d3 \<le> 0
              then vadd a (vscale (d1 / (d1 - d3)) ab)
              else
                let cp = vsub p c; d5 = dot ab cp; d6 = dot ac cp
                in if 0 \<le> d6 \<and> d5 \<le> d6 then c
                   else if d5 * d2 - d1 * d6 \<le> 0 \<and> 0 \<le> d2 \<and> d6 \<le> 0
                   then vadd a (vscale (d2 / (d2 - d6)) ac)
                   else if d3 * d6 - d5 * d4 \<le> 0 \<and> 0 \<le> d4 - d3 \<and> 0 \<le> d5 - d6
                   then vadd b (vscale ((d4 - d3) / ((d4 - d3) + (d5 - d6))) (vsub c b))
                   else
                     let va = d3 * d6 - d5 * d4; vb = d5 * d2 - d1 * d6; vc = d1 * d4 - d3 * d2;
                         v = vb / (va + vb + vc); w = vc / (va + vb + vc)
                     in vadd a (vadd (vscale v ab) (vscale w ac)))"

definition euclid_triangle :: "(Vector3, Triangle) Metric" where
  "euclid_triangle =
     \<lparr>closestPoints = (\<lambda>q t. let c = closest_on_triangle q (tri_a t) (tri_b t) (tri_c t)
                             in (norm3 (vsub q c), q, c)),
      lowerBound = point_box_distance\<rparr>"

definition ray_param :: "Ray3 \<Rightarrow> Vector3 \<Rightarrow> Real" where
  "ray_param r p = max 0 (dot (vsub p (origin r)) (direction r) / dot (direction r) (direction r))"

definition ray_point_distance :: "Ray3 \<Rightarrow> Vector3 \<Rightarrow> Real" where
  "ray_point_distance r p = norm3 (vsub p (getPoint r (ray_param r p)))"

definition corner_ray_metric :: "(Ray3, Triangle) Metric" where
  "corner_ray_metric =
     \<lparr>closestPoints = (\<lambda>r t.
        let da = ray_point_distance r (tri_a t); db = ray_point_distance r (tri_b t);
            dc = ray_point_distance r (tri_c t);
            p = (if da \<le> db \<and> da \<le> dc then tri_a t else if db \<le> dc then tri_b t else tri_c t)
        in (ray_point_distance r p, getPoint r (ray_param r p), p)),
      lowerBound = (\<lambda>r bb. 0)\<rparr>"

definition ray_triangle_time :: "Ray3 \<Rightarrow> Triangle \<Rightarrow> Real" where
  "ray_triangle_time r t =
     (let e1 = vsub (tri_b t) (tri_a t); e2 = vsub (tri_c t) (tri_a t);
          h = cross (direction r) e2; det = dot e1 h
      in if det = 0 then - 1
         else
           let s = vsub (origin r) (tri_a t); u = dot s h / det
           in if u < 0 \<or> 1 < u then - 1
              else
                let q = cross s e1; v = dot (direction r) q / det
                in if v < 0 \<or> 1 < u + v then - 1
                   else let tm = dot e2 q / det in if tm < 0 then - 1 else tm)"

definition slab :: "Real \<Rightarrow> Real \<Rightarrow> Real \<Rightarrow> Real \<Rightarrow> (Real list \<times> Real list) option" where
  "slab p d lo hi =
     (if d = 0 then (if lo \<le> p \<and> p \<le> hi then Some ([], []) else None)
      else Some ([min ((lo - p) / d) ((hi - p) / d)], [max ((lo - p) / d) ((hi - p) / d)]))"

fun ray_box_time :: "Ray3 \<Rightarrow> AxisAlignedBox3 \<Rightarrow> Real" where
  "ray_box_time r NullBox = - 1"
| "ray_box_time r (Box lo hi) =
     (case (slab (coord 0 (origin r)) (coord 0 (direction r)) (coord 0 lo) (coord 0 hi),
            slab (coord 1 (origin r)) (coord 1 (direction r)) (coord 1 lo) (coord 1 hi),
            slab (coord 2 (origin r)) (coord 2 (direction r)) (coord 2 lo) (coord 2 hi)) of
        (Some (l0, u0), Some (l1, u1), Some (l2, u2)) \<Rightarrow>
          let enter = fold max (l0 @ l1 @ l2) 0
          in if list_all (\<lambda>u. enter \<le> u) (u0 @ u1 @ u2) then enter else - 1
      | _ \<Rightarrow> - 1)"

definition triangle_tester :: "Triangle RayTester" where
  "triangle_tester = \<lparr>rayTime = ray_triangle_time, rayBoxTime = ray_box_time\<rparr>"

definition euclid :: "Vector3 Env" where
  "euclid =
     \<lparr>xform = translation_ops, metricL2_vertex = euclid_vertex, metricL2_triangle = euclid_triangle,
      metricL2_ray = corner_ray_metric, rayTester = triangle_tester, max_elems_per_leaf = 1,
      default_max_time = - 1, castReal = (\<lambda>d. d)\<rparr>"

text \<open>The same capabilities with a \<^verbatim>\<open>Real\<close> coarser than \<^verbatim>\<open>double\<close>: the conversion is \<open>f\<close>.
  \<open>floor3\<close> and \<open>ceiling3\<close> round to a multiple of 3, down and up.\<close>

definition rounding :: "(double \<Rightarrow> Real) \<Rightarrow> Vector3 Env" where
  "rounding f = euclid\<lparr>castReal := f\<rparr>"

definition floor3 :: "double \<Rightarrow> Real" where
  "floor3 d = 3 * of_int \<lfloor>d / 3\<rfloor>"

definition ceiling3 :: "double \<Rightarrow> Real" where
  "ceiling3 d = 3 * of_int \<lceil>d / 3\<rceil>"

definition tri :: "Vector3 \<Rightarrow> Vector3 \<Rightarrow> Vector3 \<Rightarrow> nat \<Rightarrow> int \<Rightarrow> Triangle" where
  "tri a b c m f = \<lparr>tri_a = a, tri_b = b, tri_c = c,
     tri_normal = normalized (cross (vsub b a) (vsub c a)), tri_mesh = m, tri_face_index = f\<rparr>"

definition square_mesh :: MeshGroup where
  "square_mesh =
     \<lparr>mg_name = ''square'', mg_isEmpty = False,
      mg_vertices = [\<lparr>vx_index = 0, vx_position = (0, 0, 0)\<rparr>, \<lparr>vx_index = 1, vx_position = (1, 0, 0)\<rparr>,
                     \<lparr>vx_index = 2, vx_position = (1, 1, 0)\<rparr>, \<lparr>vx_index = 3, vx_position = (0, 1, 0)\<rparr>],
      mg_triangles = [tri (0, 0, 0) (1, 0, 0) (1, 1, 0) 0 0, tri (0, 0, 0) (1, 1, 0) (0, 1, 0) 0 1]\<rparr>"

definition square_model :: "Vector3 Model" where
  "square_model = invalidateAll (Model_new\<lparr>mesh_group := Some square_mesh\<rparr>)"

text \<open>
  Example models: a point cloud alone (what loading a \<^verbatim>\<open>.pts\<close> file leaves); two
  triangles in the plane \<open>x = 8\<close> with their five vertices; one of these triangles with
  its vertices and a further vertex, at \<open>(1, 0, 0)\<close>, that belongs to no face; two
  triangles that share the edge closest to the origin; a single triangle that a ray along
  the x axis misses. The coordinates are chosen so that the distances that occur are
  rational.
\<close>

definition cloud_model :: "Vector3 Model" where
  "cloud_model =
     invalidateAll (Model_new\<lparr>point_cloud := Some \<lparr>pc_name = ''cloud'', pc_isEmpty = False\<rparr>\<rparr>)"

definition wall_mesh :: MeshGroup where
  "wall_mesh =
     \<lparr>mg_name = ''wall'', mg_isEmpty = False,
      mg_vertices = [\<lparr>vx_index = 0, vx_position = (8, 0, 0)\<rparr>, \<lparr>vx_index = 1, vx_position = (8, 6, 0)\<rparr>,
                     \<lparr>vx_index = 2, vx_position = (8, 0, 6)\<rparr>, \<lparr>vx_index = 3, vx_position = (8, 15, 0)\<rparr>,
                     \<lparr>vx_index = 4, vx_position = (8, 6, 24)\<rparr>],
      mg_triangles = [tri (8, 0, 0) (8, 6, 0) (8, 0, 6) 0 0, tri (8, 6, 0) (8, 15, 0) (8, 6, 24) 0 1]\<rparr>"

definition wall_model :: "Vector3 Model" where
  "wall_model = invalidateAll (Model_new\<lparr>mesh_group := Some wall_mesh\<rparr>)"

definition stray_mesh :: MeshGroup where
  "stray_mesh =
     \<lparr>mg_name = ''stray'', mg_isEmpty = False,
      mg_vertices = [\<lparr>vx_index = 0, vx_position = (1, 0, 0)\<rparr>, \<lparr>vx_index = 1, vx_position = (8, 0, 0)\<rparr>,
                     \<lparr>vx_index = 2, vx_position = (8, 6, 0)\<rparr>, \<lparr>vx_index = 3, vx_position = (8, 0, 6)\<rparr>],
      mg_triangles = [tri (8, 0, 0) (8, 6, 0) (8, 0, 6) 0 0]\<rparr>"

definition stray_model :: "Vector3 Model" where
  "stray_model = invalidateAll (Model_new\<lparr>mesh_group := Some stray_mesh\<rparr>)"

definition fold_mesh :: MeshGroup where
  "fold_mesh =
     \<lparr>mg_name = ''fold'', mg_isEmpty = False,
      mg_vertices = [\<lparr>vx_index = 0, vx_position = (8, 0, 0)\<rparr>, \<lparr>vx_index = 1, vx_position = (8, 6, 0)\<rparr>,
                     \<lparr>vx_index = 2, vx_position = (8, 0, 6)\<rparr>, \<lparr>vx_index = 3, vx_position = (8, - 6, 0)\<rparr>],
      mg_triangles = [tri (8, 0, 0) (8, 6, 0) (8, 0, 6) 0 0, tri (8, 0, 0) (8, 0, 6) (8, - 6, 0) 0 1]\<rparr>"

definition fold_model :: "Vector3 Model" where
  "fold_model = invalidateAll (Model_new\<lparr>mesh_group := Some fold_mesh\<rparr>)"

definition far_mesh :: MeshGroup where
  "far_mesh =
     \<lparr>mg_name = ''far'', mg_isEmpty = False,
      mg_vertices = [\<lparr>vx_index = 0, vx_position = (8, 3, 4)\<rparr>, \<lparr>vx_index = 1, vx_position = (8, 5, 12)\<rparr>,
                     \<lparr>vx_index = 2, vx_position = (8, 8, 15)\<rparr>],
      mg_triangles = [tri (8, 3, 4) (8, 5, 12) (8, 8, 15) 0 7]\<rparr>"

definition far_model :: "Vector3 Model" where
  "far_model = invalidateAll (Model_new\<lparr>mesh_group := Some far_mesh\<rparr>)"

text \<open>The ray of the specification's scenario, from \<open>(0.5, 0.5, 5)\<close> towards \<open>(0, 0, -1)\<close>,
  and the ray from the origin along the x axis.\<close>

definition down_ray :: Ray3 where
  "down_ray = \<lparr>origin = (1 / 2, 1 / 2, 5), direction = (0, 0, - 1)\<rparr>"

definition axis_ray :: Ray3 where
  "axis_ray = \<lparr>origin = (0, 0, 0), direction = (1, 0, 0)\<rparr>"

text \<open>The state after a pick on \<open>far_model\<close> along the x axis, and that state after
  \<^verbatim>\<open>clear()\<close>, which empties the geometry in place and invalidates both kd-trees.\<close>

definition picked_far :: "Vector3 Model" where
  "picked_far = (case pick euclid axis_ray far_model of Inr (t, s) \<Rightarrow> s | Inl e \<Rightarrow> far_model)"

definition no_geometry :: "MeshGroup \<Rightarrow> MeshGroup" where
  "no_geometry mg = mg\<lparr>mg_isEmpty := True, mg_vertices := [], mg_triangles := []\<rparr>"

definition cleared_far :: "Vector3 Model" where
  "cleared_far =
     invalidateAll (picked_far\<lparr>mesh_group := map_option no_geometry (mesh_group picked_far),
                                point_cloud := map_option id (point_cloud picked_far)\<rparr>)"

section \<open>Notions used in the statements\<close>

subsection \<open>Transforms\<close>

text \<open>The state with every stored transform erased.\<close>

definition strip_transform :: "'t Model \<Rightarrow> 't Model" where
  "strip_transform s =
     s\<lparr>transform := None, kdtree := (kdtree s)\<lparr>kd_trans := None\<rparr>,
       vertex_kdtree := (vertex_kdtree s)\<lparr>kd_trans := None\<rparr>\<rparr>"

text \<open>A kd-tree whose validity flag is set stores the model's transform.\<close>

definition transforms_agree :: "'t Model \<Rightarrow> bool" where
  "transforms_agree s =
     ((valid_kdtree s \<longrightarrow> kd_trans (kdtree s) = transform s) \<and>
      (valid_vertex_kdtree s \<longrightarrow> kd_trans (vertex_kdtree s) = transform s))"

subsection \<open>Rebuilds\<close>

text \<open>Between \<open>s\<close> and \<open>s'\<close> the face kd-tree (the vertex kd-tree) was rebuilt if and only
  if its flag was not set, and the flag is set afterwards.\<close>

definition rebuilt :: "'t Model \<Rightarrow> 't Model \<Rightarrow> bool" where
  "rebuilt s s' =
     (valid_kdtree s' \<and>
      kdtree_rebuilds s' = kdtree_rebuilds s + (if valid_kdtree s then 0 else 1))"

definition vertex_rebuilt :: "'t Model \<Rightarrow> 't Model \<Rightarrow> bool" where
  "vertex_rebuilt s s' =
     (valid_vertex_kdtree s' \<and>
      vertex_kdtree_rebuilds s' =
        vertex_kdtree_rebuilds s + (if valid_vertex_kdtree s then 0 else 1))"

subsection \<open>Hierarchies and capabilities\<close>

text \<open>The order in which \<open>nn_node\<close> meets the primitives when nothing is pruned.\<close>

fun traversal_order :: "('q, 'e) Metric \<Rightarrow> 'q \<Rightarrow> Node \<Rightarrow> nat list" where
  "traversal_order M q (Leaf bb is) = is"
| "traversal_order M q (Inner bb ax pos lo hi) =
     (if lowerBound M q (node_bounds lo) \<le> lowerBound M q (node_bounds hi)
      then traversal_order M q lo @ traversal_order M q hi
      else traversal_order M q hi @ traversal_order M q lo)"

text \<open>
  The contract between a capability and a hierarchy, for the query at hand: the lower
  bound a metric gives for a node's bounding volume does not exceed the distance to any
  primitive below the node; a ray that hits a primitive below a node enters the node's
  bounding volume, and no later than it hits the primitive.
\<close>

fun consistent :: "('q, 'e) Metric \<Rightarrow> 'e list \<Rightarrow> 'q \<Rightarrow> Node \<Rightarrow> bool" where
  "consistent M es q (Leaf bb is) =
     list_all (\<lambda>i. lowerBound M q bb \<le> distance M q (es ! i)) is"
| "consistent M es q (Inner bb ax pos lo hi) =
     (list_all (\<lambda>i. lowerBound M q bb \<le> distance M q (es ! i)) (node_indices lo @ node_indices hi) \<and>
      consistent M es q lo \<and> consistent M es q hi)"

fun ray_consistent :: "'e RayTester \<Rightarrow> 'e list \<Rightarrow> Ray3 \<Rightarrow> Node \<Rightarrow> bool" where
  "ray_consistent T es r (Leaf bb is) =
     list_all (\<lambda>i. 0 \<le> rayTime T r (es ! i) \<longrightarrow>
                    0 \<le> rayBoxTime T r bb \<and> rayBoxTime T r bb \<le> rayTime T r (es ! i)) is"
| "ray_consistent T es r (Inner bb ax pos lo hi) =
     (list_all (\<lambda>i. 0 \<le> rayTime T r (es ! i) \<longrightarrow>
                    0 \<le> rayBoxTime T r bb \<and> rayBoxTime T r bb \<le> rayTime T r (es ! i))
        (node_indices lo @ node_indices hi) \<and>
      ray_consistent T es r lo \<and> ray_consistent T es r hi)"

definition kd_consistent ::
  "('t \<Rightarrow> 'q \<Rightarrow> 'q) \<Rightarrow> ('q, 'e) Metric \<Rightarrow> ('e, 't) KDTreeN \<Rightarrow> 'q \<Rightarrow> bool" where
  "kd_consistent f M kd query =
     (case kd_root kd of
        None \<Rightarrow> True
      | Some n \<Rightarrow> consistent M (kd_elems kd) (toObject f (kd_trans kd) query) n)"

definition kd_ray_consistent ::
  "'t TransformOps \<Rightarrow> 'e RayTester \<Rightarrow> ('e, 't) KDTreeN \<Rightarrow> Ray3 \<Rightarrow> bool" where
  "kd_ray_consistent X T kd ray =
     (case kd_root kd of
        None \<Rightarrow> True
      | Some n \<Rightarrow> ray_consistent T (kd_elems kd) (toObject (rayToObject X) (kd_trans kd) ray) n)"

text \<open>The hierarchy of an index holds exactly the indices of its primitives.\<close>

definition kd_wf :: "('e, 't) KDTreeN \<Rightarrow> bool" where
  "kd_wf kd =
     (case kd_root kd of
        None \<Rightarrow> kd_elems kd = []
      | Some n \<Rightarrow> set (node_indices n) = set [0..<length (kd_elems kd)])"

subsection \<open>Brute force\<close>

text \<open>The common shape of the two leaf tests.\<close>

definition candidate :: "(nat \<Rightarrow> Real) \<Rightarrow> (nat \<Rightarrow> bool) \<Rightarrow> nat \<Rightarrow> Best \<Rightarrow> Best" where
  "candidate key ok i best =
     (if ok i \<and> improves (key i) best then (Some i, Some (key i)) else best)"

text \<open>The brute-force scan: every primitive is tested, in index order.\<close>

definition linear_scan :: "('q, 'e) Metric \<Rightarrow> 'e list \<Rightarrow> 'q \<Rightarrow> Real \<Rightarrow> Best" where
  "linear_scan M es q bound = fold (nn_test M es q) [0..<length es] (initial_best bound)"

text \<open>For the face kd-tree of a model: the distance from a query point to the \<open>j\<close>-th
  triangle, the brute-force scan over all triangles, and the hit time of a ray on the
  \<open>j\<close>-th triangle, each in the object space of the index.\<close>

definition face_distance :: "'t Env \<Rightarrow> (Triangle, 't) KDTreeN \<Rightarrow> Vector3 \<Rightarrow> nat \<Rightarrow> Real" where
  "face_distance E kd query j =
     distance (metricL2_triangle E) (toObject (pointToObject (xform E)) (kd_trans kd) query)
       (kd_elems kd ! j)"

definition face_scan :: "'t Env \<Rightarrow> (Triangle, 't) KDTreeN \<Rightarrow> Vector3 \<Rightarrow> Real \<Rightarrow> Best" where
  "face_scan E kd query bound =
     linear_scan (metricL2_triangle E) (kd_elems kd)
       (toObject (pointToObject (xform E)) (kd_trans kd) query) bound"

definition hit_time :: "'t Env \<Rightarrow> (Triangle, 't) KDTreeN \<Rightarrow> Ray3 \<Rightarrow> nat \<Rightarrow> Real" where
  "hit_time E kd ray j =
     rayTime (rayTester E) (toObject (rayToObject (xform E)) (kd_trans kd) ray) (kd_elems kd ! j)"

text \<open>A hit time lies within \<open>[0, max_time]\<close>; a negative \<open>max_time\<close> is no limit.\<close>

definition in_time :: "Real \<Rightarrow> Real \<Rightarrow> bool" where
  "in_time max_time t = (0 \<le> t \<and> (max_time < 0 \<or> t \<le> max_time))"

text \<open>The distance from the query to an anchor, in the object space of the vertex index,
  and that distance converted to \<^verbatim>\<open>Real\<close>: the bound \<^verbatim>\<open>closestPoint\<close> passes on when the anchor
  is the one found.\<close>

definition anchor_distance :: "'t Env \<Rightarrow> (MeshVertex, 't) KDTreeN \<Rightarrow> Vector3 \<Rightarrow> MeshVertex \<Rightarrow> double" where
  "anchor_distance E vkd query v =
     distance (metricL2_vertex E) (toObject (pointToObject (xform E)) (kd_trans vkd) query) v"

definition anchor_bound :: "'t Env \<Rightarrow> (MeshVertex, 't) KDTreeN \<Rightarrow> Vector3 \<Rightarrow> MeshVertex \<Rightarrow> Real" where
  "anchor_bound E vkd query v = castReal E (anchor_distance E vkd query v)"

text \<open>For every anchor of the vertex index the converted distance is not negative, is
  within the given bound if the distance is, and some primitive of the face index is at
  most that far from the query (as it is when every vertex belongs to a face and the
  conversion does not round down).\<close>

definition anchored ::
  "'t Env \<Rightarrow> (MeshVertex, 't) KDTreeN \<Rightarrow> (Triangle, 't) KDTreeN \<Rightarrow> Vector3 \<Rightarrow> Real \<Rightarrow> bool" where
  "anchored E vkd kd query bound =
     list_all
       (\<lambda>v. 0 \<le> anchor_bound E vkd query v \<and>
            (0 \<le> bound \<and> anchor_distance E vkd query v \<le> bound \<longrightarrow>
               anchor_bound E vkd query v \<le> bound) \<and>
            list_ex
              (\<lambda>f. distance (metricL2_triangle E) (toObject (pointToObject (xform E)) (kd_trans kd) query) f
                     \<le> anchor_bound E vkd query v)
              (kd_elems kd))
       (kd_elems vkd)"

text \<open>The result of \<^verbatim>\<open>closestElement\<close> read off a running best, and the second block of
  \<^verbatim>\<open>closestPoint\<close> as a function of the index and the bound.\<close>

definition element_result ::
  "'t TransformOps \<Rightarrow> (Vector3, 'e) Metric \<Rightarrow> ('e, 't) KDTreeN \<Rightarrow> Vector3 \<Rightarrow> Best
     \<Rightarrow> int \<times> Real option \<times> Vector3 option" where
  "element_result X M kd query best =
     (case fst best of
        None \<Rightarrow> (- 1, None, None)
      | Some i \<Rightarrow>
          (int i,
           Some (distance M (toObject (pointToObject X) (kd_trans kd) query) (kd_elems kd ! i)),
           Some (toWorld X (kd_trans kd)
             (snd (snd (closestPoints M (toObject (pointToObject X) (kd_trans kd) query)
                (kd_elems kd ! i)))))))"

definition face_answer ::
  "'t Env \<Rightarrow> (Triangle, 't) KDTreeN \<Rightarrow> Vector3 \<Rightarrow> Real \<Rightarrow> Fault + ClosestPointResult" where
  "face_answer E kd query b =
     (let (index, out_dist, closest_pt) = closestElement (xform E) (metricL2_triangle E) kd query b;
          d = (case out_dist of None \<Rightarrow> 0 | Some x \<Rightarrow> x)
      in if 0 \<le> index then
           (if nat index < length (kd_elems kd) then
              Inr \<lparr>cp_index = index, cp_min_dist = Some (castReal E d), cp_closest_pt = closest_pt,
                   cp_closest_pt_normal = Some (tri_normal (kd_elems kd ! nat index))\<rparr>
            else Inl IndexOutOfRange)
         else Inr cp_none)"

subsection \<open>Picking\<close>

text \<open>The three values \<^verbatim>\<open>pick\<close> computes on its way: the exact intersection, the pair the
  closest-pair query returns on the index as the exact query left it, and the projection
  of the pair's query point onto the ray.\<close>

definition exact_hit :: "'t Env \<Rightarrow> Ray3 \<Rightarrow> 't Model \<Rightarrow> RayStructureIntersection3" where
  "exact_hit E ray s = fst (rayIntersection E ray (default_max_time E) s)"

definition near_miss :: "'t Env \<Rightarrow> Ray3 \<Rightarrow> 't Model \<Rightarrow> NeighborPair" where
  "near_miss E ray s =
     closestPair (xform E) (metricL2_ray E) (rayTester E) (kdtree (updateKDTree E s)) ray (- 1) True"

definition projection :: "Ray3 \<Rightarrow> NeighborPair \<Rightarrow> Real" where
  "projection ray cp = dot (vsub (pair_query_point cp) (origin ray)) (normalized (direction ray))"

text \<open>\<^verbatim>\<open>pick\<close> with the closest-pair query of the face kd-tree as a parameter: the body of
  \<open>pick\<close>, in which the call \<^verbatim>\<open>kdtree->closestPair<MetricL2>(ray, -1, true)\<close> is a call of
  \<open>query\<close> with the kd-tree and these three arguments. Statements use it to say on which
  answers of the closest-pair query the result of \<^verbatim>\<open>pick\<close> depends.\<close>

definition pick_with ::
  "((Triangle, 't) KDTreeN \<Rightarrow> Ray3 \<Rightarrow> Real \<Rightarrow> bool \<Rightarrow> NeighborPair) \<Rightarrow> 't Env \<Rightarrow> Ray3 \<Rightarrow> 't Model
     \<Rightarrow> Fault + (Real \<times> 't Model)" where
  "pick_with query E ray s0 =
     (let (isec, s) = rayIntersection E ray (default_max_time E) s0;
          (index, t, s1) =
            (if isec_valid isec then
               (isec_element isec, isec_time isec,
                s\<lparr>picked_sample := (picked_sample s)\<lparr>sample_position := getPoint ray (isec_time isec)\<rparr>\<rparr>)
             else
               let cp = query (kdtree s) ray (- 1) True
               in if pair_valid cp then
                    let t = dot (vsub (pair_query_point cp) (origin ray)) (normalized (direction ray))
                    in if 0 \<le> t then
                         (pair_target_index cp, t,
                          s\<lparr>picked_sample := (picked_sample s)\<lparr>sample_position := pair_target_point cp\<rparr>\<rparr>)
                       else (- 1, t, s)
                  else (- 1, - 1, s))
      in if 0 \<le> index then
           (if nat index < length (kd_elems (kdtree s1)) then
              let triple = kd_elems (kdtree s1) ! nat index
              in Inr (t, s1\<lparr>picked_sample := (picked_sample s1)\<lparr>sample_mesh := Some (tri_mesh triple),
                                 sample_face_index := tri_face_index triple\<rparr>,
                          valid_pick := True,
                          posted_events := posted_events s1 @ [EVT_MODEL_NEEDS_REDRAW]\<rparr>)
            else Inl IndexOutOfRange)
         else Inr (t, s1))"

subsection \<open>Reachable states\<close>

text \<open>
  The states a model can be in: the constructor's state, and what the member functions
  make of a reachable state. \<^verbatim>\<open>load\<close> is modelled by its effect on the members: for a
  \<^verbatim>\<open>.pts\<close> file it calls \<^verbatim>\<open>clear()\<close> (which empties the geometry in place and invalidates
  both kd-trees) and installs a new point cloud; for a mesh file it invalidates both
  kd-trees, installs the new mesh group and empties the point cloud in place. What is
  read from the file, and what emptying or editing makes of the geometry, is arbitrary
  (\<open>pc\<close>, \<open>mg\<close>, \<open>f\<close>, \<open>g\<close>), and so is what is written to the console and which events
  are posted on the way. No member function resets either pointer to null.
\<close>

inductive reachable :: "'t Env \<Rightarrow> 't Model \<Rightarrow> bool" for E :: "'t Env" where
  r_new: "reachable E Model_new"
| r_load_points:
    "reachable E s \<Longrightarrow>
       reachable E ((invalidateAll s)\<lparr>mesh_group := map_option f (mesh_group s), point_cloud := Some pc\<rparr>)"
| r_load_mesh:
    "reachable E s \<Longrightarrow>
       reachable E ((invalidateAll s)\<lparr>mesh_group := Some mg, point_cloud := map_option g (point_cloud s)\<rparr>)"
| r_clear:
    "reachable E s \<Longrightarrow>
       reachable E (invalidateAll (s\<lparr>mesh_group := map_option f (mesh_group s),
                                      point_cloud := map_option g (point_cloud s)\<rparr>))"
| r_edit:
    "reachable E s \<Longrightarrow>
       reachable E (s\<lparr>mesh_group := map_option f (mesh_group s),
                       point_cloud := map_option g (point_cloud s)\<rparr>)"
| r_setTransform: "reachable E s \<Longrightarrow> reachable E (setTransform tr s)"
| r_clearTransform: "reachable E s \<Longrightarrow> reachable E (clearTransform s)"
| r_invalidateAll: "reachable E s \<Longrightarrow> reachable E (invalidateAll s)"
| r_invalidateKDTree: "reachable E s \<Longrightarrow> reachable E (invalidateKDTree s)"
| r_invalidateVertexKDTree: "reachable E s \<Longrightarrow> reachable E (invalidateVertexKDTree s)"
| r_updateKDTree: "reachable E s \<Longrightarrow> reachable E (updateKDTree E s)"
| r_updateVertexKDTree: "reachable E s \<Longrightarrow> updateVertexKDTree E s = Inr s' \<Longrightarrow> reachable E s'"
| r_closestPoint:
    "reachable E s \<Longrightarrow> closestPoint E query bound acc s = Inr (r, s') \<Longrightarrow> reachable E s'"
| r_pick: "reachable E s \<Longrightarrow> pick E ray s = Inr (t, s') \<Longrightarrow> reachable E s'"
| r_invalidatePick: "reachable E s \<Longrightarrow> reachable E (invalidatePick s)"
| r_output: "reachable E s \<Longrightarrow> reachable E (s\<lparr>console := c, posted_events := ev\<rparr>)"

text \<open>What holds in every reachable state: with no mesh group but a point cloud the
  vertex kd-tree is not valid, and both hierarchies hold the indices of their
  primitives.\<close>

definition sound_state :: "'t Model \<Rightarrow> bool" where
  "sound_state s =
     ((mesh_group s = None \<and> point_cloud s \<noteq> None \<longrightarrow> \<not> valid_vertex_kdtree s) \<and>
      kd_wf (kdtree s) \<and> kd_wf (vertex_kdtree s))"

section \<open>Lemmas\<close>

subsection \<open>Evaluation rules\<close>

lemmas model_ops =
  setTransform_def clearTransform_def kd_setTransform_def kd_clearTransform_def
  invalidateAll_def invalidateKDTree_def invalidateVertexKDTree_def

lemmas ray_queries =
  rayIntersects_def rayIntersectionTime_def rayIntersection_def getKDTree_def
  recompute_if_invalid_default_def

lemmas example_models =
  square_model_def wall_model_def stray_model_def fold_model_def far_model_def cloud_model_def
  Model_new_def kd_new_def

lemmas build_eval =
  kd_clear_def kd_add_def kd_init_def kd_init_from_def build.simps split_axis_def extent_def
  bounds_of_def triangle_centroid_def triangle_bounds_def vertex_centroid_def vertex_bounds_def
  Let_def

lemma euclid_fields:
  "xform euclid = translation_ops" "metricL2_vertex euclid = euclid_vertex"
  "metricL2_triangle euclid = euclid_triangle" "metricL2_ray euclid = corner_ray_metric"
  "rayTester euclid = triangle_tester" "max_elems_per_leaf euclid = 1"
  "default_max_time euclid = - 1"
  by (simp_all add: euclid_def)

lemma euclid_cast: "castReal euclid d = d"
  by (simp add: euclid_def)

lemma tri_fields:
  "tri_a (tri a b c m f) = a" "tri_b (tri a b c m f) = b" "tri_c (tri a b c m f) = c"
  "tri_mesh (tri a b c m f) = m" "tri_face_index (tri a b c m f) = f"
  by (simp_all add: tri_def)

lemma updateKDTree_fresh:
  assumes "\<not> valid_kdtree s" and "mesh_group s = Some mg"
  shows "kdtree (updateKDTree E s) =
           \<lparr>kd_elems = mg_triangles mg,
            kd_root = (if mg_triangles mg = [] then None
                       else Some (build triangle_bounds triangle_centroid (max_elems_per_leaf E)
                                    (mg_triangles mg) [0..<length (mg_triangles mg)])),
            kd_trans = (case transform s of None \<Rightarrow> kd_trans (kdtree s) | Some t \<Rightarrow> Some t)\<rparr>"
  using assms
  by (cases "kdtree s")
     (simp add: updateKDTree_def kd_clear_def kd_add_def kd_init_def kd_setTransform_def Let_def
        split: option.splits)

lemma updateVertexKDTree_fresh:
  assumes "\<not> valid_vertex_kdtree s" and "mesh_group s = Some mg"
  shows "\<exists>s1. updateVertexKDTree E s = Inr s1 \<and>
           vertex_kdtree s1 =
             \<lparr>kd_elems = mg_vertices mg,
              kd_root = (if mg_vertices mg = [] then None
                         else Some (build vertex_bounds vertex_centroid (max_elems_per_leaf E)
                                      (mg_vertices mg) [0..<length (mg_vertices mg)])),
              kd_trans = (case transform s of None \<Rightarrow> kd_trans (vertex_kdtree s)
                          | Some t \<Rightarrow> Some t)\<rparr>"
  using assms
  by (cases "vertex_kdtree s")
     (simp add: updateVertexKDTree_def kd_clear_def kd_add_def kd_init_def kd_init_from_def
        kd_setTransform_def Let_def split: option.splits)

subsection \<open>The builder covers its primitives\<close>

lemma set_build: "set (node_indices (build bnd cen thr es is)) = set is"
proof (induction bnd cen thr es "is" rule: build.induct)
  case (1 bnd cen thr es "is")
  show ?case
  proof (cases "length is \<le> max 1 thr")
    case True
    then show ?thesis by (simp add: build.simps)
  next
    case False
    let ?ax = "split_axis cen es is"
    let ?srt = "sort_key (\<lambda>i. coord ?ax (cen (es ! i))) is"
    let ?h = "length is div 2"
    have lo: "set (node_indices (build bnd cen thr es (take ?h ?srt))) = set (take ?h ?srt)"
      using "1.IH"(1) [OF False refl refl refl] .
    have hi: "set (node_indices (build bnd cen thr es (drop ?h ?srt))) = set (drop ?h ?srt)"
      using "1.IH"(2) [OF False refl refl refl refl] .
    have "set (take ?h ?srt) \<union> set (drop ?h ?srt) = set ?srt"
      by (metis append_take_drop_id set_append)
    then show ?thesis
      using False lo hi by (simp add: build.simps [of bnd cen thr es "is"] Let_def)
  qed
qed

lemma kd_wf_init: "kd_wf (kd_init bnd cen thr kd)"
  by (simp add: kd_wf_def kd_init_def set_build)

lemma kd_wf_trans [simp]: "kd_wf (kd\<lparr>kd_trans := t\<rparr>) = kd_wf kd"
  by (simp add: kd_wf_def split: option.splits)

lemma kd_wf_clear [simp]: "kd_wf (kd_clear kd)"
  by (simp add: kd_wf_def kd_clear_def)

lemma kd_wf_updateKDTree:
  "valid_kdtree s \<longrightarrow> kd_wf (kdtree s) \<Longrightarrow> kd_wf (kdtree (updateKDTree E s))"
  by (simp add: updateKDTree_def Let_def kd_wf_init kd_setTransform_def split: option.splits)

lemma kd_wf_updateVertexKDTree:
  "valid_vertex_kdtree s \<longrightarrow> kd_wf (vertex_kdtree s) \<Longrightarrow> updateVertexKDTree E s = Inr s' \<Longrightarrow>
     kd_wf (vertex_kdtree s')"
  by (auto simp add: updateVertexKDTree_def Let_def kd_init_from_def kd_wf_init kd_setTransform_def
      split: if_splits option.splits)

subsection \<open>Scans with a running best\<close>

lemma nn_test_candidate:
  "nn_test M es q = candidate (\<lambda>i. distance M q (es ! i)) (\<lambda>i. True)"
  by (rule ext, rule ext) (simp add: nn_test_def candidate_def Let_def)

lemma ray_test_candidate:
  "ray_test T es r = candidate (\<lambda>i. rayTime T r (es ! i)) (\<lambda>i. 0 \<le> rayTime T r (es ! i))"
  by (rule ext, rule ext) (simp add: ray_test_def candidate_def Let_def)

lemma improves_less: "improves d' best \<Longrightarrow> d < d' \<Longrightarrow> improves d best"
  by (cases "(d', best)" rule: improves.cases) auto

lemma exceeds_not_improves: "exceeds l best \<Longrightarrow> l \<le> d \<Longrightarrow> \<not> improves d best"
  by (cases "(d, best)" rule: improves.cases) auto

lemma improves_initial: "improves t (initial_best m) = (m < 0 \<or> t \<le> m)"
  by (simp add: initial_best_def)

lemma improves_le_initial:
  "improves d' (initial_best b) \<Longrightarrow> d \<le> d' \<Longrightarrow> improves d (initial_best b)"
  by (auto simp add: initial_best_def split: if_splits)

lemma fst_initial_best [simp]: "fst (initial_best b) = None"
  by (simp add: initial_best_def)

lemma scan_unchanged:
  "\<forall>j\<in>set xs. ok j \<longrightarrow> \<not> improves (key j) best \<Longrightarrow> fold (candidate key ok) xs best = best"
  by (induction xs) (auto simp add: candidate_def)

lemma scan_shape:
  "fold (candidate key ok) xs best = best \<or>
   (\<exists>i\<in>set xs. ok i \<and> fold (candidate key ok) xs best = (Some i, Some (key i)) \<and>
      improves (key i) best)"
proof (induction xs arbitrary: best)
  case Nil
  then show ?case by simp
next
  case (Cons x xs)
  show ?case
  proof (cases "ok x \<and> improves (key x) best")
    case False
    then have "candidate key ok x best = best" by (auto simp add: candidate_def)
    then show ?thesis using Cons.IH [of best] by auto
  next
    case True
    let ?b1 = "(Some x, Some (key x))"
    have s: "candidate key ok x best = ?b1" using True by (simp add: candidate_def)
    from Cons.IH [of ?b1] show ?thesis
    proof
      assume "fold (candidate key ok) xs ?b1 = ?b1"
      then show ?thesis using s True by auto
    next
      assume "\<exists>i\<in>set xs. ok i \<and> fold (candidate key ok) xs ?b1 = (Some i, Some (key i)) \<and>
                improves (key i) ?b1"
      then obtain i where i: "i \<in> set xs" "ok i"
        "fold (candidate key ok) xs ?b1 = (Some i, Some (key i))" "key i < key x" by auto
      have "improves (key i) best" using improves_less [of "key x" best "key i"] True i(4) by blast
      then show ?thesis using i s by auto
    qed
  qed
qed

lemma scan_mono: "improves d (fold (candidate key ok) xs best) \<Longrightarrow> improves d best"
  using scan_shape [of key ok xs best] by (auto intro: improves_less)

lemma scan_optimal:
  "j \<in> set xs \<Longrightarrow> ok j \<Longrightarrow> \<not> improves (key j) (fold (candidate key ok) xs best)"
proof (induction xs arbitrary: best)
  case Nil
  then show ?case by simp
next
  case (Cons x xs)
  show ?case
  proof (cases "j = x")
    case True
    have "\<not> improves (key x) (candidate key ok x best)"
      using Cons.prems(2) True by (simp add: candidate_def)
    then have "\<not> improves (key x) (fold (candidate key ok) xs (candidate key ok x best))"
      using scan_mono [of "key x" key ok xs "candidate key ok x best"] by blast
    then show ?thesis using True by simp
  next
    case False
    then show ?thesis using Cons by auto
  qed
qed

lemma scan_tight:
  "\<forall>d. d \<le> b1 \<longrightarrow> improves d best2 \<Longrightarrow>
   fold (candidate key ok) xs (None, Some b1) = (Some i, l) \<Longrightarrow>
   fold (candidate key ok) xs best2 = (Some i, l)"
proof (induction xs arbitrary: best2)
  case Nil
  then show ?case by simp
next
  case (Cons x xs)
  show ?case
  proof (cases "ok x \<and> key x \<le> b1")
    case True
    then have "improves (key x) best2" using Cons.prems(1) by blast
    then have "candidate key ok x best2 = candidate key ok x (None, Some b1)"
      using True by (simp add: candidate_def)
    then show ?thesis using Cons.prems(2) by simp
  next
    case False
    then have s1: "candidate key ok x (None, Some b1) = (None, Some b1)"
      by (auto simp add: candidate_def)
    have "\<forall>d. d \<le> b1 \<longrightarrow> improves d (candidate key ok x best2)"
      using Cons.prems(1) False by (auto simp add: candidate_def)
    from Cons.IH [OF this] Cons.prems(2) s1 show ?thesis by simp
  qed
qed

lemma scan_same_set:
  assumes "set xs = set ys"
  shows "snd (fold (candidate key ok) xs best) = snd (fold (candidate key ok) ys best) \<and>
         (fst (fold (candidate key ok) xs best) = None) = (fst (fold (candidate key ok) ys best) = None)"
proof -
  let ?fx = "fold (candidate key ok) xs best" and ?fy = "fold (candidate key ok) ys best"
  consider (same) "?fx = best" "?fy = best"
    | (x) i where "?fx = best" "i \<in> set ys" "ok i" "improves (key i) best"
    | (y) i where "?fy = best" "i \<in> set xs" "ok i" "improves (key i) best"
    | (both) i j where "i \<in> set xs" "ok i" "?fx = (Some i, Some (key i))"
        "j \<in> set ys" "ok j" "?fy = (Some j, Some (key j))"
    using scan_shape [of key ok xs best] scan_shape [of key ok ys best] by blast
  then show ?thesis
  proof cases
    case same
    then show ?thesis by simp
  next
    case x
    then show ?thesis using scan_optimal [of i xs ok key best] assms by auto
  next
    case y
    then show ?thesis using scan_optimal [of i ys ok key best] assms by auto
  next
    case both
    have "\<not> key j < key i" using scan_optimal [of j xs ok key best] both assms by auto
    moreover have "\<not> key i < key j" using scan_optimal [of i ys ok key best] both assms by auto
    ultimately show ?thesis using both by auto
  qed
qed

subsection \<open>Pruning does not change the result\<close>

lemma set_traversal_order: "set (traversal_order M q n) = set (node_indices n)"
  by (induction n) auto

lemma consistent_lower:
  "consistent M es q n \<Longrightarrow> j \<in> set (node_indices n) \<Longrightarrow>
     lowerBound M q (node_bounds n) \<le> distance M q (es ! j)"
  by (cases n) (auto simp add: list_all_iff)

lemma nn_node_fold:
  "consistent M es q n \<Longrightarrow>
     nn_node M es q n best = fold (nn_test M es q) (traversal_order M q n) best"
proof (induction n arbitrary: best)
  case (Leaf bb "is")
  show ?case
  proof (cases "exceeds (lowerBound M q bb) best")
    case True
    have "\<forall>j\<in>set is. \<not> improves (distance M q (es ! j)) best"
      using Leaf True exceeds_not_improves [of "lowerBound M q bb" best]
      by (fastforce simp add: list_all_iff)
    then show ?thesis using True by (simp add: nn_test_candidate scan_unchanged)
  next
    case False
    then show ?thesis by simp
  qed
next
  case (Inner bb ax pos lo hi)
  have clo: "consistent M es q lo" and chi: "consistent M es q hi"
    using Inner.prems by simp_all
  show ?case
  proof (cases "exceeds (lowerBound M q bb) best")
    case True
    have "\<forall>j\<in>set (traversal_order M q (Inner bb ax pos lo hi)).
            \<not> improves (distance M q (es ! j)) best"
      using consistent_lower [OF Inner.prems] True
        exceeds_not_improves [of "lowerBound M q bb" best]
      by (fastforce simp add: set_traversal_order simp del: traversal_order.simps consistent.simps)
    then show ?thesis using True
      by (simp add: nn_test_candidate scan_unchanged del: traversal_order.simps)
  next
    case False
    then show ?thesis by (simp add: Inner.IH(1) [OF clo] Inner.IH(2) [OF chi])
  qed
qed

lemma nn_node_shape:
  "nn_node M es q n best = best \<or>
   (\<exists>i\<in>set (node_indices n). nn_node M es q n best = (Some i, Some (distance M q (es ! i))) \<and>
      improves (distance M q (es ! i)) best)"
proof (induction n arbitrary: best)
  case (Leaf bb "is")
  show ?case
    using scan_shape [of "\<lambda>i. distance M q (es ! i)" "\<lambda>i. True" "is" best]
    by (auto simp add: nn_test_candidate)
next
  case (Inner bb ax pos lo hi)
  have step: "nn_node M es q a (nn_node M es q b c) = c \<or>
     (\<exists>i\<in>set (node_indices a) \<union> set (node_indices b).
        nn_node M es q a (nn_node M es q b c) = (Some i, Some (distance M q (es ! i))) \<and>
        improves (distance M q (es ! i)) c)" if "a = lo \<and> b = hi \<or> a = hi \<and> b = lo" for a b c
  proof -
    have A: "\<And>x. nn_node M es q a x = x \<or>
      (\<exists>i\<in>set (node_indices a). nn_node M es q a x = (Some i, Some (distance M q (es ! i))) \<and>
        improves (distance M q (es ! i)) x)"
      using that Inner.IH by blast
    have B: "nn_node M es q b c = c \<or>
      (\<exists>i\<in>set (node_indices b). nn_node M es q b c = (Some i, Some (distance M q (es ! i))) \<and>
        improves (distance M q (es ! i)) c)"
      using that Inner.IH by blast
    from B show "nn_node M es q a (nn_node M es q b c) = c \<or>
     (\<exists>i\<in>set (node_indices a) \<union> set (node_indices b).
        nn_node M es q a (nn_node M es q b c) = (Some i, Some (distance M q (es ! i))) \<and>
        improves (distance M q (es ! i)) c)"
    proof
      assume "nn_node M es q b c = c"
      then show ?thesis using A [of c] by auto
    next
      assume "\<exists>i\<in>set (node_indices b). nn_node M es q b c = (Some i, Some (distance M q (es ! i))) \<and>
        improves (distance M q (es ! i)) c"
      then obtain i where i: "i \<in> set (node_indices b)"
        "nn_node M es q b c = (Some i, Some (distance M q (es ! i)))"
        "improves (distance M q (es ! i)) c" by blast
      from A [of "nn_node M es q b c"] show ?thesis
      proof
        assume "nn_node M es q a (nn_node M es q b c) = nn_node M es q b c"
        then show ?thesis using i by auto
      next
        assume "\<exists>j\<in>set (node_indices a).
          nn_node M es q a (nn_node M es q b c) = (Some j, Some (distance M q (es ! j))) \<and>
          improves (distance M q (es ! j)) (nn_node M es q b c)"
        then obtain j where j: "j \<in> set (node_indices a)"
          "nn_node M es q a (nn_node M es q b c) = (Some j, Some (distance M q (es ! j)))"
          "distance M q (es ! j) < distance M q (es ! i)" using i(2) by auto
        have "improves (distance M q (es ! j)) c" using improves_less [OF i(3) j(3)] .
        then show ?thesis using j by auto
      qed
    qed
  qed
  show ?case
    using step [of hi lo best] step [of lo hi best] by (auto simp add: Un_commute)
qed

lemma ray_consistent_box:
  "ray_consistent T es r n \<Longrightarrow> j \<in> set (node_indices n) \<Longrightarrow> 0 \<le> rayTime T r (es ! j) \<Longrightarrow>
     0 \<le> rayBoxTime T r (node_bounds n) \<and> rayBoxTime T r (node_bounds n) \<le> rayTime T r (es ! j)"
  by (cases n) (auto simp add: list_all_iff)

lemma ray_prune_unchanged:
  assumes "ray_consistent T es r n" and "ray_prune T r (node_bounds n) best"
  shows "fold (ray_test T es r) (node_indices n) best = best"
proof -
  have "\<forall>j\<in>set (node_indices n). 0 \<le> rayTime T r (es ! j) \<longrightarrow>
          \<not> improves (rayTime T r (es ! j)) best"
  proof (intro ballI impI)
    fix j assume j: "j \<in> set (node_indices n)" "0 \<le> rayTime T r (es ! j)"
    from ray_consistent_box [OF assms(1) j]
    have b: "0 \<le> rayBoxTime T r (node_bounds n)"
      "rayBoxTime T r (node_bounds n) \<le> rayTime T r (es ! j)" by simp_all
    then have "exceeds (rayBoxTime T r (node_bounds n)) best"
      using assms(2) by (simp add: ray_prune_def)
    then show "\<not> improves (rayTime T r (es ! j)) best"
      using exceeds_not_improves b(2) by blast
  qed
  then show ?thesis by (simp add: ray_test_candidate scan_unchanged)
qed

lemma ray_node_fold:
  "ray_consistent T es r n \<Longrightarrow>
     ray_node T es r n best = fold (ray_test T es r) (node_indices n) best"
proof (induction n arbitrary: best)
  case (Leaf bb "is")
  show ?case
    using ray_prune_unchanged [OF Leaf, of best] by (cases "ray_prune T r bb best") simp_all
next
  case (Inner bb ax pos lo hi)
  have clo: "ray_consistent T es r lo" and chi: "ray_consistent T es r hi"
    using Inner.prems by simp_all
  show ?case
    using ray_prune_unchanged [OF Inner.prems, of best]
    by (cases "ray_prune T r bb best") (simp_all add: Inner.IH(1) [OF clo] Inner.IH(2) [OF chi])
qed

lemma ray_root_result:
  assumes "ray_consistent T es r n" and "set (node_indices n) = set [0..<length es]"
  shows "(case ray_node T es r n (initial_best m) of
            (Some i, Some t) \<Rightarrow> i < length es \<and> t = rayTime T r (es ! i) \<and> in_time m t \<and>
               (\<forall>j<length es. 0 \<le> rayTime T r (es ! j) \<longrightarrow> t \<le> rayTime T r (es ! j))
          | _ \<Rightarrow> \<forall>j<length es. \<not> in_time m (rayTime T r (es ! j)))"
proof -
  let ?key = "\<lambda>i. rayTime T r (es ! i)" and ?ok = "\<lambda>i. 0 \<le> rayTime T r (es ! i)"
  let ?res = "fold (candidate ?key ?ok) (node_indices n) (initial_best m)"
  have eq: "ray_node T es r n (initial_best m) = ?res"
    using ray_node_fold [OF assms(1)] by (simp add: ray_test_candidate)
  have opt: "\<And>j. j < length es \<Longrightarrow> 0 \<le> ?key j \<Longrightarrow> \<not> improves (?key j) ?res"
    using scan_optimal [of _ "node_indices n" ?ok ?key "initial_best m"] assms(2) by simp
  from scan_shape [of ?key ?ok "node_indices n" "initial_best m"]
  show ?thesis
  proof
    assume u: "?res = initial_best m"
    have "\<forall>j<length es. \<not> in_time m (?key j)"
      using opt u by (auto simp add: in_time_def improves_initial)
    then show ?thesis using eq u by (simp add: initial_best_def)
  next
    assume "\<exists>i\<in>set (node_indices n). ?ok i \<and> ?res = (Some i, Some (?key i)) \<and>
              improves (?key i) (initial_best m)"
    then obtain i where i: "i \<in> set (node_indices n)" "0 \<le> ?key i"
      "?res = (Some i, Some (?key i))" "improves (?key i) (initial_best m)" by blast
    have "i < length es" using i(1) assms(2) by simp
    moreover have "in_time m (?key i)" using i(2,4) by (simp add: in_time_def improves_initial)
    moreover have "\<forall>j<length es. 0 \<le> ?key j \<longrightarrow> ?key i \<le> ?key j"
      using opt i(3) by fastforce
    ultimately show ?thesis using eq i(3) by simp
  qed
qed

subsection \<open>The kd-tree queries\<close>

lemma closestElement_index:
  assumes "kd_wf kd"
  shows "fst (closestElement X M kd query bound) = - 1 \<or>
         (0 \<le> fst (closestElement X M kd query bound) \<and>
          nat (fst (closestElement X M kd query bound)) < length (kd_elems kd))"
proof (cases "kd_root kd")
  case None
  then show ?thesis by (simp add: closestElement_def)
next
  case (Some n)
  let ?q = "toObject (pointToObject X) (kd_trans kd) query"
  have w: "set (node_indices n) = set [0..<length (kd_elems kd)]"
    using assms Some by (simp add: kd_wf_def)
  from nn_node_shape [of M "kd_elems kd" ?q n "initial_best bound"]
  show ?thesis
  proof
    assume "nn_node M (kd_elems kd) ?q n (initial_best bound) = initial_best bound"
    then show ?thesis using Some by (simp add: closestElement_def initial_best_def Let_def)
  next
    assume "\<exists>i\<in>set (node_indices n).
      nn_node M (kd_elems kd) ?q n (initial_best bound) =
        (Some i, Some (distance M ?q (kd_elems kd ! i))) \<and>
      improves (distance M ?q (kd_elems kd ! i)) (initial_best bound)"
    then obtain i where i: "i < length (kd_elems kd)"
      "nn_node M (kd_elems kd) ?q n (initial_best bound) =
        (Some i, Some (distance M ?q (kd_elems kd ! i)))" using w by auto
    then show ?thesis using Some
      by (simp add: closestElement_def Let_def split: prod.splits)
  qed
qed

lemma closestElement_fold:
  assumes "kd_root kd = Some n"
    and "consistent M (kd_elems kd) (toObject (pointToObject X) (kd_trans kd) query) n"
  shows "closestElement X M kd query bound =
           element_result X M kd query
             (fold (candidate (\<lambda>i. distance M (toObject (pointToObject X) (kd_trans kd) query)
                                     (kd_elems kd ! i)) (\<lambda>i. True))
                (traversal_order M (toObject (pointToObject X) (kd_trans kd) query) n)
                (initial_best bound))"
  using assms nn_node_fold [OF assms(2), of "initial_best bound"]
  by (simp add: closestElement_def element_result_def nn_test_candidate distance_def Let_def
      split: option.splits prod.splits)

lemma closestElement_found:
  assumes "kd_wf kd" and "0 \<le> fst (closestElement X M kd query bound)"
  shows "\<exists>i<length (kd_elems kd).
           fst (snd (closestElement X M kd query bound)) =
             Some (distance M (toObject (pointToObject X) (kd_trans kd) query) (kd_elems kd ! i)) \<and>
           improves (distance M (toObject (pointToObject X) (kd_trans kd) query) (kd_elems kd ! i))
             (initial_best bound)"
proof (cases "kd_root kd")
  case None
  then show ?thesis using assms(2) by (simp add: closestElement_def)
next
  case (Some n)
  let ?q = "toObject (pointToObject X) (kd_trans kd) query"
  have w: "set (node_indices n) = set [0..<length (kd_elems kd)]"
    using assms(1) Some by (simp add: kd_wf_def)
  from nn_node_shape [of M "kd_elems kd" ?q n "initial_best bound"]
  show ?thesis
  proof
    assume "nn_node M (kd_elems kd) ?q n (initial_best bound) = initial_best bound"
    then show ?thesis using Some assms(2) by (simp add: closestElement_def initial_best_def Let_def)
  next
    assume "\<exists>i\<in>set (node_indices n).
      nn_node M (kd_elems kd) ?q n (initial_best bound) =
        (Some i, Some (distance M ?q (kd_elems kd ! i))) \<and>
      improves (distance M ?q (kd_elems kd ! i)) (initial_best bound)"
    then obtain i where i: "i < length (kd_elems kd)"
      "nn_node M (kd_elems kd) ?q n (initial_best bound) =
        (Some i, Some (distance M ?q (kd_elems kd ! i)))"
      "improves (distance M ?q (kd_elems kd ! i)) (initial_best bound)" using w by auto
    then show ?thesis using Some
      by (auto simp add: closestElement_def Let_def distance_def split: prod.splits)
  qed
qed

lemma tight_bound_same:
  assumes wf: "kd_wf kd"
    and cons: "kd_consistent (pointToObject X) M kd query"
    and within: "improves dv (initial_best bound)"
    and nonneg: "0 \<le> dv"
    and near: "\<exists>j<length (kd_elems kd).
                 distance M (toObject (pointToObject X) (kd_trans kd) query) (kd_elems kd ! j) \<le> dv"
  shows "closestElement X M kd query dv = closestElement X M kd query bound"
proof (cases "kd_root kd")
  case None
  then show ?thesis by (simp add: closestElement_def)
next
  case (Some n)
  let ?q = "toObject (pointToObject X) (kd_trans kd) query"
  let ?key = "\<lambda>i. distance M ?q (kd_elems kd ! i)"
  let ?F = "fold (candidate ?key (\<lambda>i. True)) (traversal_order M ?q n)"
  have c: "consistent M (kd_elems kd) ?q n" using cons Some by (simp add: kd_consistent_def)
  have w: "set (traversal_order M ?q n) = set [0..<length (kd_elems kd)]"
    using wf Some by (simp add: kd_wf_def set_traversal_order)
  have i0: "initial_best dv = (None, Some dv)" using nonneg by (simp add: initial_best_def)
  obtain j where j: "j < length (kd_elems kd)" "?key j \<le> dv" using near by blast
  have "\<not> improves (?key j) (?F (None, Some dv))"
    using scan_optimal [of j "traversal_order M ?q n" "\<lambda>i. True" ?key "(None, Some dv)"] j(1) w
    by simp
  then have "?F (None, Some dv) \<noteq> (None, Some dv)" using j(2) by auto
  then obtain i where i: "?F (None, Some dv) = (Some i, Some (?key i))"
    using scan_shape [of ?key "\<lambda>i. True" "traversal_order M ?q n" "(None, Some dv)"] by auto
  have "\<forall>d. d \<le> dv \<longrightarrow> improves d (initial_best bound)"
    using improves_le_initial [OF within] by blast
  from scan_tight [OF this i] have "?F (initial_best bound) = ?F (initial_best dv)"
    using i i0 by simp
  then show ?thesis
    by (simp add: closestElement_fold [OF Some c])
qed

lemma closestElement_scan:
  assumes wf: "kd_wf kd" and cons: "kd_consistent (pointToObject X) M kd query"
  shows "case linear_scan M (kd_elems kd) (toObject (pointToObject X) (kd_trans kd) query) bound of
           (None, l) \<Rightarrow> closestElement X M kd query bound = (- 1, None, None)
         | (Some i, l) \<Rightarrow>
             0 \<le> fst (closestElement X M kd query bound) \<and>
             nat (fst (closestElement X M kd query bound)) < length (kd_elems kd) \<and>
             fst (snd (closestElement X M kd query bound)) = l \<and>
             l = Some (distance M (toObject (pointToObject X) (kd_trans kd) query)
                        (kd_elems kd ! nat (fst (closestElement X M kd query bound)))) \<and>
             ((\<forall>j<length (kd_elems kd).
                  distance M (toObject (pointToObject X) (kd_trans kd) query) (kd_elems kd ! j) =
                  distance M (toObject (pointToObject X) (kd_trans kd) query) (kd_elems kd ! i)
                  \<longrightarrow> j = i)
               \<longrightarrow> fst (closestElement X M kd query bound) = int i)"
proof (cases "kd_root kd")
  case None
  then have "kd_elems kd = []" using wf by (simp add: kd_wf_def)
  then show ?thesis using None by (simp add: closestElement_def linear_scan_def initial_best_def)
next
  case (Some n)
  let ?q = "toObject (pointToObject X) (kd_trans kd) query"
  let ?es = "kd_elems kd"
  let ?key = "\<lambda>i. distance M ?q (?es ! i)"
  let ?c = "candidate ?key (\<lambda>i. True)"
  let ?F = "fold ?c (traversal_order M ?q n) (initial_best bound)"
  let ?S = "fold ?c [0..<length ?es] (initial_best bound)"
  have c: "consistent M ?es ?q n" using cons Some by (simp add: kd_consistent_def)
  have w: "set (traversal_order M ?q n) = set [0..<length ?es]"
    using wf Some by (simp add: kd_wf_def set_traversal_order)
  have S: "linear_scan M ?es ?q bound = ?S" by (simp add: linear_scan_def nn_test_candidate)
  have ce: "closestElement X M kd query bound = element_result X M kd query ?F"
    by (rule closestElement_fold [OF Some c])
  from scan_same_set [OF w, of ?key "\<lambda>i. True" "initial_best bound"]
  have same: "snd ?F = snd ?S" "(fst ?F = None) = (fst ?S = None)" by simp_all
  show ?thesis
  proof (cases "fst ?S")
    case None
    then have "fst ?F = None" using same by simp
    moreover obtain l where "?S = (None, l)" using None by (cases ?S) auto
    ultimately show ?thesis using S ce by (simp add: element_result_def)
  next
    case (Some i)
    then have "?S \<noteq> initial_best bound" by auto
    then have Si: "?S = (Some i, Some (?key i))"
      using scan_shape [of ?key "\<lambda>i. True" "[0..<length ?es]" "initial_best bound"] Some by auto
    have "fst ?F \<noteq> None" using Some same by simp
    then have "?F \<noteq> initial_best bound" by auto
    then obtain i' where i': "i' \<in> set (traversal_order M ?q n)" "?F = (Some i', Some (?key i'))"
      using scan_shape [of ?key "\<lambda>i. True" "traversal_order M ?q n" "initial_best bound"] by auto
    have lt: "i' < length ?es" using i'(1) w by simp
    have k: "?key i' = ?key i" using same(1) Si i'(2) by simp
    show ?thesis using S Si ce i'(2) lt k
      by (auto simp add: element_result_def)
  qed
qed

lemma ray_node_index:
  "ray_node T es r n best = best \<or>
   (\<exists>i\<in>set (node_indices n). \<exists>t. ray_node T es r n best = (Some i, Some t))"
proof (induction n arbitrary: best)
  case (Leaf bb "is")
  show ?case
    using scan_shape [of "\<lambda>i. rayTime T r (es ! i)" "\<lambda>i. 0 \<le> rayTime T r (es ! i)" "is" best]
    by (auto simp add: ray_test_candidate)
next
  case (Inner bb ax pos lo hi)
  from Inner.IH(1) [of best] Inner.IH(2) [of "ray_node T es r lo best"] show ?case by auto
qed

lemma isec_element_range:
  assumes "kd_wf kd" and "isec_valid (rayStructureIntersection X T kd ray max_time)"
  shows "0 \<le> isec_element (rayStructureIntersection X T kd ray max_time) \<and>
         nat (isec_element (rayStructureIntersection X T kd ray max_time)) < length (kd_elems kd)"
proof (cases "kd_root kd")
  case None
  then show ?thesis using assms(2) by (simp add: rayStructureIntersection_def no_intersection_def)
next
  case (Some n)
  let ?r = "toObject (rayToObject X) (kd_trans kd) ray"
  have w: "set (node_indices n) = set [0..<length (kd_elems kd)]"
    using assms(1) Some by (simp add: kd_wf_def)
  from ray_node_index [of T "kd_elems kd" ?r n "initial_best max_time"] show ?thesis
  proof
    assume "ray_node T (kd_elems kd) ?r n (initial_best max_time) = initial_best max_time"
    then show ?thesis using Some assms(2)
      by (simp add: rayStructureIntersection_def no_intersection_def initial_best_def)
  next
    assume "\<exists>i\<in>set (node_indices n). \<exists>t.
      ray_node T (kd_elems kd) ?r n (initial_best max_time) = (Some i, Some t)"
    then obtain i t where "i < length (kd_elems kd)"
      "ray_node T (kd_elems kd) ?r n (initial_best max_time) = (Some i, Some t)" using w by auto
    then show ?thesis using Some by (simp add: rayStructureIntersection_def)
  qed
qed

lemma pair_index_range:
  assumes "kd_wf kd" and "pair_valid (closestPair X M T kd ray d flag)"
  shows "0 \<le> pair_target_index (closestPair X M T kd ray d flag) \<and>
         nat (pair_target_index (closestPair X M T kd ray d flag)) < length (kd_elems kd)"
proof (cases "kd_root kd")
  case None
  then show ?thesis using assms(2) by (auto simp add: closestPair_def no_pair_def split: if_splits)
next
  case (Some n)
  let ?r = "toObject (rayToObject X) (kd_trans kd) ray"
  have w: "set (node_indices n) = set [0..<length (kd_elems kd)]"
    using assms(1) Some by (simp add: kd_wf_def)
  from nn_node_shape [of M "kd_elems kd" ?r n "initial_best d"] show ?thesis
  proof
    assume "nn_node M (kd_elems kd) ?r n (initial_best d) = initial_best d"
    then show ?thesis using Some assms(2)
      by (simp add: closestPair_def no_pair_def Let_def split: if_splits)
  next
    assume "\<exists>i\<in>set (node_indices n).
      nn_node M (kd_elems kd) ?r n (initial_best d) =
        (Some i, Some (distance M ?r (kd_elems kd ! i))) \<and>
      improves (distance M ?r (kd_elems kd ! i)) (initial_best d)"
    then obtain i where "i < length (kd_elems kd)"
      "nn_node M (kd_elems kd) ?r n (initial_best d) =
        (Some i, Some (distance M ?r (kd_elems kd ! i)))" using w by auto
    then show ?thesis using Some assms(2)
      by (simp add: closestPair_def no_pair_def Let_def split: if_splits prod.splits)
  qed
qed

subsection \<open>What the member functions leave unchanged\<close>

lemma rebuilt_updateKDTree: "rebuilt s (updateKDTree E s)"
  by (simp add: rebuilt_def updateKDTree_def Let_def split: option.splits)

lemma updateVertexKDTree_frame:
  assumes "updateVertexKDTree E s = Inr s1"
  shows "valid_kdtree s1 = valid_kdtree s" "kdtree s1 = kdtree s" "mesh_group s1 = mesh_group s"
    "point_cloud s1 = point_cloud s" "transform s1 = transform s"
    "kdtree_rebuilds s1 = kdtree_rebuilds s" "valid_pick s1 = valid_pick s"
    "picked_sample s1 = picked_sample s" "valid_vertex_kdtree s1"
    "console s1 = console s" "posted_events s1 = posted_events s"
  using assms
  by (auto simp add: updateVertexKDTree_def Let_def split: if_splits option.splits)

lemma updateVertexKDTree_returns:
  "updateVertexKDTree E s = Inr s' \<Longrightarrow> valid_vertex_kdtree s \<or> mesh_group s \<noteq> None"
  by (auto simp add: updateVertexKDTree_def Let_def split: if_splits option.splits)

lemma updateVertexKDTree_mesh:
  "mesh_group s \<noteq> None \<Longrightarrow> \<exists>s1. updateVertexKDTree E s = Inr s1"
  by (auto simp add: updateVertexKDTree_def Let_def)

lemma updateKDTree_after_vertex:
  assumes "updateVertexKDTree E s = Inr s1"
  shows "rebuilt s (updateKDTree E s1)"
  using rebuilt_updateKDTree [of s1 E] updateVertexKDTree_frame [OF assms]
  by (simp add: rebuilt_def)

lemma kdtree_after_vertex:
  assumes "updateVertexKDTree E s = Inr s1"
  shows "kdtree (updateKDTree E s1) = kdtree (updateKDTree E s)"
  using updateVertexKDTree_frame [OF assms]
  by (simp add: updateKDTree_def Let_def split: option.splits)

lemma isEmpty_after_vertex:
  assumes "updateVertexKDTree E s = Inr s1"
  shows "isEmpty s1 = isEmpty s"
  using updateVertexKDTree_frame [OF assms] by (simp add: isEmpty_def)

lemma updateKDTree_pick_frame:
  "valid_pick (updateKDTree E s) = valid_pick s" "picked_sample (updateKDTree E s) = picked_sample s"
  "posted_events (updateKDTree E s) = posted_events s"
  "mesh_group (updateKDTree E s) = mesh_group s" "point_cloud (updateKDTree E s) = point_cloud s"
  "transform (updateKDTree E s) = transform s"
  "valid_vertex_kdtree (updateKDTree E s) = valid_vertex_kdtree s"
  "vertex_kdtree (updateKDTree E s) = vertex_kdtree s"
  "vertex_kdtree_rebuilds (updateKDTree E s) = vertex_kdtree_rebuilds s"
  by (simp_all add: updateKDTree_def Let_def split: option.splits)

lemma updateKDTree_env:
  "max_elems_per_leaf E' = max_elems_per_leaf E \<Longrightarrow> updateKDTree E' s = updateKDTree E s"
  by (simp add: updateKDTree_def cong: option.case_cong)

lemma updateVertexKDTree_env:
  "max_elems_per_leaf E' = max_elems_per_leaf E \<Longrightarrow>
     updateVertexKDTree E' s = updateVertexKDTree E s"
  by (simp add: updateVertexKDTree_def cong: option.case_cong)

lemma pick_pick_with:
  "pick E ray s = pick_with (closestPair (xform E) (metricL2_ray E) (rayTester E)) E ray s"
  by (simp add: pick_def pick_with_def)

lemma rayIntersection_state:
  "rayIntersection E ray max_time s =
     (rayStructureIntersection (xform E) (rayTester E) (kdtree (updateKDTree E s)) ray max_time,
      updateKDTree E s)"
  by (simp add: ray_queries Let_def)

lemma no_mesh_pick:
  assumes "mesh_group s = None" and "\<not> valid_kdtree s"
  shows "\<not> isec_valid (exact_hit E ray s) \<and> \<not> pair_valid (near_miss E ray s)"
proof -
  have "kd_root (kdtree (updateKDTree E s)) = None"
    using assms by (simp add: updateKDTree_def kd_clear_def)
  then show ?thesis
    by (simp add: exact_hit_def near_miss_def rayIntersection_state rayStructureIntersection_def
        closestPair_def kd_rayIntersects_def no_intersection_def no_pair_def)
qed

lemma empty_index_pick:
  assumes "kd_root (kdtree (updateKDTree E s)) = None"
  shows "\<not> isec_valid (exact_hit E ray s) \<and> \<not> pair_valid (near_miss E ray s)"
  using assms
  by (simp add: exact_hit_def near_miss_def rayIntersection_state rayStructureIntersection_def
      closestPair_def kd_rayIntersects_def no_intersection_def no_pair_def)

lemma pick_frame:
  assumes "pick E ray s = Inr (t, s')"
  shows "mesh_group s' = mesh_group s" "point_cloud s' = point_cloud s"
    "valid_vertex_kdtree s' = valid_vertex_kdtree s" "kdtree s' = kdtree (updateKDTree E s)"
    "vertex_kdtree s' = vertex_kdtree s"
  using assms
  by (auto simp add: pick_def rayIntersection_state updateKDTree_pick_frame Let_def
      split: if_splits prod.splits)

lemma funpow_invalidate_Suc:
  "(invalidateKDTree ^^ Suc n) s = s\<lparr>valid_kdtree := False\<rparr>"
  by (induction n) (simp_all add: invalidateKDTree_def)

lemma funpow_invalidate:
  "0 < n \<Longrightarrow> (invalidateKDTree ^^ n) s = s\<lparr>valid_kdtree := False\<rparr>"
  using funpow_invalidate_Suc [of "n - 1" s] by simp

lemma tightenBound_plain: "tightenBound E query bound False s = Inr (bound, s)"
  by (simp add: tightenBound_def)

lemma tightenBound_vertex:
  assumes "updateVertexKDTree E s = Inr s1"
  shows "tightenBound E query bound True s =
           Inr (if 0 \<le> fst (closestElement (xform E) (metricL2_vertex E) (vertex_kdtree s1) query bound)
                then castReal E
                       (case fst (snd (closestElement (xform E) (metricL2_vertex E) (vertex_kdtree s1)
                                         query bound)) of None \<Rightarrow> 0 | Some d \<Rightarrow> d)
                else bound, s1)"
  using assms by (simp add: tightenBound_def Let_def split: prod.splits)

lemma closestPoint_face_answer:
  assumes "\<not> isEmpty s" and "tightenBound E query bound acc s = Inr (b, sx)"
  shows "closestPoint E query bound acc s =
           map_sum id (\<lambda>r. (r, updateKDTree E sx))
             (face_answer E (kdtree (updateKDTree E sx)) query b)"
  using assms by (simp add: closestPoint_def face_answer_def Let_def split: prod.splits)

lemma face_query_returns:
  assumes "kd_wf (kdtree (updateKDTree E s1))" and "\<not> isEmpty s"
    and "tightenBound E query bound acc s = Inr (b, s1)"
  shows "\<exists>r. closestPoint E query bound acc s = Inr (r, updateKDTree E s1)"
  using closestElement_index [OF assms(1), of "xform E" "metricL2_triangle E" query b] assms(2,3)
  by (auto simp add: closestPoint_def Let_def split: prod.splits)

lemma closestPoint_state:
  assumes "\<not> isEmpty s" and "closestPoint E query bound acc s = Inr (r, s')"
  shows "rebuilt s s'"
proof (cases acc)
  case False
  then show ?thesis using assms rebuilt_updateKDTree [of s E]
    by (auto simp add: closestPoint_def tightenBound_def Let_def split: if_splits prod.splits)
next
  case True
  then obtain s1 where s1: "updateVertexKDTree E s = Inr s1"
    using assms by (auto simp add: closestPoint_def tightenBound_def split: sum.splits)
  then show ?thesis using True assms updateKDTree_after_vertex [OF s1]
    by (auto simp add: closestPoint_def tightenBound_def Let_def split: if_splits prod.splits)
qed

lemma vertex_rebuilt_update:
  "updateVertexKDTree E s = Inr s1 \<Longrightarrow> vertex_rebuilt s s1"
  by (auto simp add: vertex_rebuilt_def updateVertexKDTree_def Let_def
      split: if_splits option.splits)

lemma closestPoint_vertex_state:
  assumes "\<not> isEmpty s" and "closestPoint E query bound True s = Inr (r, s')"
  shows "vertex_rebuilt s s'"
proof -
  obtain s1 where s1: "updateVertexKDTree E s = Inr s1"
    using assms by (auto simp add: closestPoint_def tightenBound_def split: sum.splits)
  then have "s' = updateKDTree E s1"
    using assms
    by (auto simp add: closestPoint_def tightenBound_def Let_def split: if_splits prod.splits)
  then show ?thesis
    using vertex_rebuilt_update [OF s1] by (simp add: vertex_rebuilt_def updateKDTree_pick_frame)
qed

lemma set_then_clear: "clearTransform (setTransform tr s) = clearTransform s"
  by (simp add: model_ops Let_def)

lemma clear_after_set:
  "transform s = None \<Longrightarrow> transforms_agree s \<Longrightarrow> clearTransform (setTransform tr s) = s"
  by (cases s) (auto simp add: model_ops transforms_agree_def Let_def)

subsection \<open>Reachable states are sound\<close>

lemma sound_update:
  "sound_state s \<Longrightarrow> sound_state (updateKDTree E s)"
  using kd_wf_updateKDTree [of s E]
  by (simp add: sound_state_def updateKDTree_pick_frame)

lemma sound_updateVertex:
  assumes "sound_state s" and "updateVertexKDTree E s = Inr s'"
  shows "sound_state s'"
  using kd_wf_updateVertexKDTree [OF _ assms(2)] updateVertexKDTree_frame [OF assms(2)]
    updateVertexKDTree_returns [OF assms(2)] assms(1)
  by (auto simp add: sound_state_def)

lemma sound_closestPoint:
  assumes "sound_state s" and "closestPoint E query bound acc s = Inr (r, s')"
  shows "sound_state s'"
proof -
  have "s' = s \<or> s' = updateKDTree E s \<or>
        (\<exists>s1. updateVertexKDTree E s = Inr s1 \<and> s' = updateKDTree E s1)"
    using assms(2)
    by (auto simp add: closestPoint_def tightenBound_def Let_def
        split: if_splits prod.splits sum.splits)
  then show ?thesis using assms(1) sound_update sound_updateVertex by blast
qed

lemma sound_pick:
  assumes "sound_state s" and "pick E ray s = Inr (t, s')"
  shows "sound_state s'"
proof -
  have "mesh_group s' = mesh_group s \<and> point_cloud s' = point_cloud s \<and>
        valid_vertex_kdtree s' = valid_vertex_kdtree s \<and>
        kdtree s' = kdtree (updateKDTree E s) \<and> vertex_kdtree s' = vertex_kdtree s"
    using assms(2)
    by (auto simp add: pick_def rayIntersection_state updateKDTree_pick_frame Let_def
        split: if_splits prod.splits)
  then show ?thesis using sound_update [OF assms(1), of E]
    by (simp add: sound_state_def updateKDTree_pick_frame)
qed

lemma closestPoint_returns:
  assumes "sound_state s" and "acc \<longrightarrow> mesh_group s \<noteq> None"
  shows "\<exists>r s'. closestPoint E query bound acc s = Inr (r, s')"
proof (cases "isEmpty s")
  case True
  then show ?thesis by (simp add: closestPoint_def)
next
  case False
  have "\<exists>b s1. tightenBound E query bound acc s = Inr (b, s1) \<and> sound_state s1"
  proof (cases acc)
    case False
    then show ?thesis using assms(1) by (simp add: tightenBound_def)
  next
    case True
    then obtain s1 where s1: "updateVertexKDTree E s = Inr s1"
      using assms(2) updateVertexKDTree_mesh by blast
    then show ?thesis
      using True sound_updateVertex [OF assms(1) s1] by (simp add: tightenBound_vertex)
  qed
  then obtain b s1 where t: "tightenBound E query bound acc s = Inr (b, s1)"
    and s: "sound_state s1" by blast
  have "kd_wf (kdtree (updateKDTree E s1))"
    using sound_update [OF s, of E] by (simp add: sound_state_def)
  from face_query_returns [OF this False t] show ?thesis by blast
qed

lemma reachable_sound: "reachable E s \<Longrightarrow> sound_state s"
proof (induction rule: reachable.induct)
  case r_new
  show ?case by (simp add: sound_state_def Model_new_def kd_new_def kd_wf_def)
next
  case (r_closestPoint s query bound acc r s')
  then show ?case using sound_closestPoint by blast
next
  case (r_pick s ray t s')
  then show ?case using sound_pick by blast
next
  case (r_updateKDTree s)
  then show ?case using sound_update by blast
next
  case (r_updateVertexKDTree s s')
  then show ?case using sound_updateVertex by blast
qed (auto simp add: sound_state_def model_ops invalidatePick_def Let_def)

section \<open>The examples evaluated\<close>

lemma rounding_fields:
  "xform (rounding f) = xform euclid" "metricL2_vertex (rounding f) = metricL2_vertex euclid"
  "metricL2_triangle (rounding f) = metricL2_triangle euclid" "castReal (rounding f) = f"
  by (simp_all add: rounding_def)

lemma rounding_updateKDTree: "updateKDTree (rounding f) s = updateKDTree euclid s"
  by (rule updateKDTree_env) (simp add: rounding_def)

lemma rounding_updateVertexKDTree: "updateVertexKDTree (rounding f) s = updateVertexKDTree euclid s"
  by (rule updateVertexKDTree_env) (simp add: rounding_def)

lemma rounded:
  "floor3 8 = 6" "ceiling3 8 = 9" "ceiling3 10 = 12" "ceiling3 17 = 18" "ceiling3 26 = 27"
  by (simp_all add: floor3_def ceiling3_def)

lemma square_agree:
  "transform (updateKDTree euclid square_model) = None \<and>
   transforms_agree (updateKDTree euclid square_model)"
  by (simp add: transforms_agree_def updateKDTree_def example_models model_ops build_eval
      kd_setTransform_def)

lemma hit_square0: "ray_triangle_time down_ray (tri (0, 0, 0) (1, 0, 0) (1, 1, 0) m f) = 5"
  by (simp add: ray_triangle_time_def down_ray_def tri_fields Let_def)

lemma hit_square1: "ray_triangle_time down_ray (tri (0, 0, 0) (1, 1, 0) (0, 1, 0) m f) = 5"
  by (simp add: ray_triangle_time_def down_ray_def tri_fields Let_def)

lemma box_square: "ray_box_time down_ray (Box (0, 0, 0) (1, 1, 0)) = 5"
  by (simp add: slab_def down_ray_def Let_def)

lemma square_tree:
  "kdtree (updateKDTree euclid square_model) =
     \<lparr>kd_elems = [tri (0, 0, 0) (1, 0, 0) (1, 1, 0) 0 0, tri (0, 0, 0) (1, 1, 0) (0, 1, 0) 0 1],
      kd_root = Some (Inner (Box (0, 0, 0) (1, 1, 0)) 0 (2 / 3)
                  (Leaf (Box (0, 0, 0) (1, 1, 0)) [1]) (Leaf (Box (0, 0, 0) (1, 1, 0)) [0])),
      kd_trans = None\<rparr>"
proof -
  have "\<not> valid_kdtree square_model" "mesh_group square_model = Some square_mesh"
    "transform square_model = None" "kd_trans (kdtree square_model) = None"
    by (simp_all add: example_models model_ops)
  from updateKDTree_fresh [OF this(1,2), of euclid] this(3,4) show ?thesis
    by (simp add: square_mesh_def euclid_fields tri_fields build_eval)
qed

lemma square_ray_consistent:
  "kd_ray_consistent (xform euclid) (rayTester euclid) (kdtree (updateKDTree euclid square_model))
     down_ray"
  by (simp add: square_tree kd_ray_consistent_def euclid_fields triangle_tester_def toObject_def
      hit_square0 hit_square1 box_square del: ray_box_time.simps)

lemma square_hits:
  "hit_time euclid (kdtree (updateKDTree euclid square_model)) down_ray 0 = 5 \<and>
   hit_time euclid (kdtree (updateKDTree euclid square_model)) down_ray 1 = 5 \<and>
   length (kd_elems (kdtree (updateKDTree euclid square_model))) = 2"
  by (simp add: square_tree hit_time_def euclid_fields triangle_tester_def toObject_def
      hit_square0 hit_square1)

lemma square_exact:
  "rayStructureIntersection translation_ops triangle_tester
     (kdtree (updateKDTree euclid square_model)) down_ray (- 1) =
     \<lparr>isec_valid = True, isec_time = 5, isec_element = 1\<rparr>"
  by (simp add: square_tree rayStructureIntersection_def euclid_fields triangle_tester_def
      toObject_def initial_best_def ray_prune_def ray_test_def hit_square0 hit_square1 box_square
      del: ray_box_time.simps)

lemma wall_tree:
  "kdtree (updateKDTree euclid wall_model) =
     \<lparr>kd_elems = [tri (8, 0, 0) (8, 6, 0) (8, 0, 6) 0 0, tri (8, 6, 0) (8, 15, 0) (8, 6, 24) 0 1],
      kd_root = Some (Inner (Box (8, 0, 0) (8, 15, 24)) 1 9
                  (Leaf (Box (8, 0, 0) (8, 6, 6)) [0]) (Leaf (Box (8, 6, 0) (8, 15, 24)) [1])),
      kd_trans = None\<rparr>"
proof -
  have "\<not> valid_kdtree wall_model" "mesh_group wall_model = Some wall_mesh"
    "transform wall_model = None" "kd_trans (kdtree wall_model) = None"
    by (simp_all add: example_models model_ops)
  from updateKDTree_fresh [OF this(1,2), of euclid] this(3,4) show ?thesis
    by (simp add: wall_mesh_def euclid_fields tri_fields build_eval)
qed

lemma wall_distances:
  "distance euclid_triangle (0, 0, 0) (tri (8, 0, 0) (8, 6, 0) (8, 0, 6) m f) = 8"
  "distance euclid_triangle (0, 0, 0) (tri (8, 6, 0) (8, 15, 0) (8, 6, 24) m f) = 10"
  "lowerBound euclid_triangle (0, 0, 0) (Box (8, 0, 0) (8, 15, 24)) = 8"
  "lowerBound euclid_triangle (0, 0, 0) (Box (8, 0, 0) (8, 6, 6)) = 8"
  "lowerBound euclid_triangle (0, 0, 0) (Box (8, 6, 0) (8, 15, 24)) = 10"
  by (simp_all add: distance_def euclid_triangle_def closest_on_triangle_def tri_fields norm3_def
      excess_def Let_def)

lemma wall_vertex_distances:
  "distance euclid_vertex (0, 0, 0) \<lparr>vx_index = i0, vx_position = (8, 0, 0)\<rparr> = 8"
  "distance euclid_vertex (0, 0, 0) \<lparr>vx_index = i1, vx_position = (8, 6, 0)\<rparr> = 10"
  "distance euclid_vertex (0, 0, 0) \<lparr>vx_index = i2, vx_position = (8, 0, 6)\<rparr> = 10"
  "distance euclid_vertex (0, 0, 0) \<lparr>vx_index = i3, vx_position = (8, 15, 0)\<rparr> = 17"
  "distance euclid_vertex (0, 0, 0) \<lparr>vx_index = i4, vx_position = (8, 6, 24)\<rparr> = 26"
  "distance euclid_vertex (0, 0, 0) \<lparr>vx_index = i5, vx_position = (1, 0, 0)\<rparr> = 1"
  by (simp_all add: distance_def euclid_vertex_def norm3_def)

lemma wall_consistent:
  "kd_consistent (pointToObject (xform euclid)) (metricL2_triangle euclid)
     (kdtree (updateKDTree euclid wall_model)) (0, 0, 0)"
  by (simp add: wall_tree kd_consistent_def euclid_fields toObject_def wall_distances)

lemma wall_scan:
  "face_scan euclid (kdtree (updateKDTree euclid wall_model)) (0, 0, 0) 100 = (Some 0, Some 8)"
  by (simp add: wall_tree face_scan_def linear_scan_def euclid_fields toObject_def nn_test_def
      initial_best_def wall_distances)

lemma stray_tree:
  "kdtree (updateKDTree euclid stray_model) =
     \<lparr>kd_elems = [tri (8, 0, 0) (8, 6, 0) (8, 0, 6) 0 0],
      kd_root = Some (Leaf (Box (8, 0, 0) (8, 6, 6)) [0]),
      kd_trans = None\<rparr>"
proof -
  have "\<not> valid_kdtree stray_model" "mesh_group stray_model = Some stray_mesh"
    "transform stray_model = None" "kd_trans (kdtree stray_model) = None"
    by (simp_all add: example_models model_ops)
  from updateKDTree_fresh [OF this(1,2), of euclid] this(3,4) show ?thesis
    by (simp add: stray_mesh_def euclid_fields tri_fields build_eval)
qed

lemma stray_vertex_tree:
  "\<exists>s1. updateVertexKDTree euclid stray_model = Inr s1 \<and>
     vertex_kdtree s1 =
       \<lparr>kd_elems = mg_vertices stray_mesh,
        kd_root = Some (Inner (Box (1, 0, 0) (8, 6, 6)) 0 8
                    (Inner (Box (1, 0, 0) (8, 0, 0)) 0 8
                       (Leaf (Box (1, 0, 0) (1, 0, 0)) [0]) (Leaf (Box (8, 0, 0) (8, 0, 0)) [1]))
                    (Inner (Box (8, 0, 0) (8, 6, 6)) 1 6
                       (Leaf (Box (8, 0, 6) (8, 0, 6)) [3]) (Leaf (Box (8, 6, 0) (8, 6, 0)) [2]))),
        kd_trans = None\<rparr>"
proof -
  have "\<not> valid_vertex_kdtree stray_model" "mesh_group stray_model = Some stray_mesh"
    "transform stray_model = None" "kd_trans (vertex_kdtree stray_model) = None"
    by (simp_all add: example_models model_ops)
  from updateVertexKDTree_fresh [OF this(1,2), of euclid] this(3,4) show ?thesis
    by (simp add: stray_mesh_def euclid_fields build_eval)
       (simp add: numeral_2_eq_2 numeral_3_eq_3)
qed

lemma stray_boxes:
  "lowerBound euclid_vertex (0, 0, 0) (Box (1, 0, 0) (8, 6, 6)) = 1"
  "lowerBound euclid_vertex (0, 0, 0) (Box (1, 0, 0) (8, 0, 0)) = 1"
  "lowerBound euclid_vertex (0, 0, 0) (Box (8, 0, 0) (8, 6, 6)) = 8"
  "lowerBound euclid_vertex (0, 0, 0) (Box (1, 0, 0) (1, 0, 0)) = 1"
  "lowerBound euclid_vertex (0, 0, 0) (Box (8, 0, 0) (8, 0, 0)) = 8"
  "lowerBound euclid_triangle (0, 0, 0) (Box (8, 0, 0) (8, 6, 6)) = 8"
  by (simp_all add: euclid_vertex_def euclid_triangle_def norm3_def excess_def)

lemma stray_closest:
  "closestPoints euclid_triangle (0, 0, 0) (tri (8, 0, 0) (8, 6, 0) (8, 0, 6) m f) =
     (8, (0, 0, 0), (8, 0, 0))"
  "closestPoints euclid_vertex (0, 0, 0) \<lparr>vx_index = i, vx_position = (1, 0, 0)\<rparr> =
     (1, (0, 0, 0), (1, 0, 0))"
  by (simp_all add: euclid_triangle_def euclid_vertex_def closest_on_triangle_def tri_fields
      norm3_def Let_def)

lemma stray_vertex_query:
  assumes "vertex_kdtree s1 =
       \<lparr>kd_elems = mg_vertices stray_mesh,
        kd_root = Some (Inner (Box (1, 0, 0) (8, 6, 6)) 0 8
                    (Inner (Box (1, 0, 0) (8, 0, 0)) 0 8
                       (Leaf (Box (1, 0, 0) (1, 0, 0)) [0]) (Leaf (Box (8, 0, 0) (8, 0, 0)) [1]))
                    (Inner (Box (8, 0, 0) (8, 6, 6)) 1 6
                       (Leaf (Box (8, 0, 6) (8, 0, 6)) [3]) (Leaf (Box (8, 6, 0) (8, 6, 0)) [2]))),
        kd_trans = None\<rparr>"
  shows "closestElement (xform euclid) (metricL2_vertex euclid) (vertex_kdtree s1) (0, 0, 0) 100 =
           (0, Some 1, Some (1, 0, 0))"
  by (simp add: assms closestElement_def stray_mesh_def euclid_fields toObject_def toWorld_def
      initial_best_def nn_test_def distance_def stray_boxes stray_closest)

lemma stray_face_query:
  "closestElement (xform euclid) (metricL2_triangle euclid) (kdtree (updateKDTree euclid stray_model))
     (0, 0, 0) 1 = (- 1, None, None)"
  "closestElement (xform euclid) (metricL2_triangle euclid) (kdtree (updateKDTree euclid stray_model))
     (0, 0, 0) 100 = (0, Some 8, Some (8, 0, 0))"
  by (simp_all add: stray_tree closestElement_def euclid_fields toObject_def toWorld_def
      initial_best_def nn_test_def distance_def stray_boxes stray_closest)

lemma stray_scan:
  "face_scan euclid (kdtree (updateKDTree euclid stray_model)) (0, 0, 0) 100 = (Some 0, Some 8)"
  by (simp add: stray_tree face_scan_def linear_scan_def euclid_fields toObject_def nn_test_def
      initial_best_def distance_def stray_closest)

lemma fold_tree:
  "kdtree (updateKDTree euclid fold_model) =
     \<lparr>kd_elems = [tri (8, 0, 0) (8, 6, 0) (8, 0, 6) 0 0, tri (8, 0, 0) (8, 0, 6) (8, - 6, 0) 0 1],
      kd_root = Some (Inner (Box (8, - 6, 0) (8, 6, 6)) 1 2
                  (Leaf (Box (8, - 6, 0) (8, 0, 6)) [1]) (Leaf (Box (8, 0, 0) (8, 6, 6)) [0])),
      kd_trans = None\<rparr>"
proof -
  have "\<not> valid_kdtree fold_model" "mesh_group fold_model = Some fold_mesh"
    "transform fold_model = None" "kd_trans (kdtree fold_model) = None"
    by (simp_all add: example_models model_ops)
  from updateKDTree_fresh [OF this(1,2), of euclid] this(3,4) show ?thesis
    by (simp add: fold_mesh_def euclid_fields tri_fields build_eval)
qed

lemma fold_vertex_tree:
  "\<exists>s1. updateVertexKDTree euclid fold_model = Inr s1 \<and>
     vertex_kdtree s1 =
       \<lparr>kd_elems = mg_vertices fold_mesh,
        kd_root = Some (Inner (Box (8, - 6, 0) (8, 6, 6)) 1 0
                    (Inner (Box (8, - 6, 0) (8, 0, 0)) 1 0
                       (Leaf (Box (8, - 6, 0) (8, - 6, 0)) [3]) (Leaf (Box (8, 0, 0) (8, 0, 0)) [0]))
                    (Inner (Box (8, 0, 0) (8, 6, 6)) 1 6
                       (Leaf (Box (8, 0, 6) (8, 0, 6)) [2]) (Leaf (Box (8, 6, 0) (8, 6, 0)) [1]))),
        kd_trans = None\<rparr>"
proof -
  have "\<not> valid_vertex_kdtree fold_model" "mesh_group fold_model = Some fold_mesh"
    "transform fold_model = None" "kd_trans (vertex_kdtree fold_model) = None"
    by (simp_all add: example_models model_ops)
  from updateVertexKDTree_fresh [OF this(1,2), of euclid] this(3,4) show ?thesis
    by (simp add: fold_mesh_def euclid_fields build_eval)
       (simp add: numeral_2_eq_2 numeral_3_eq_3)
qed

lemma fold_boxes:
  "lowerBound euclid_vertex (0, 0, 0) (Box (8, - 6, 0) (8, 6, 6)) = 8"
  "lowerBound euclid_vertex (0, 0, 0) (Box (8, - 6, 0) (8, 0, 0)) = 8"
  "lowerBound euclid_vertex (0, 0, 0) (Box (8, 0, 0) (8, 6, 6)) = 8"
  "lowerBound euclid_vertex (0, 0, 0) (Box (8, - 6, 0) (8, - 6, 0)) = 10"
  "lowerBound euclid_vertex (0, 0, 0) (Box (8, 0, 0) (8, 0, 0)) = 8"
  "lowerBound euclid_vertex (0, 0, 0) (Box (8, 0, 6) (8, 0, 6)) = 10"
  "lowerBound euclid_vertex (0, 0, 0) (Box (8, 6, 0) (8, 6, 0)) = 10"
  "lowerBound euclid_triangle (0, 0, 0) (Box (8, - 6, 0) (8, 6, 6)) = 8"
  "lowerBound euclid_triangle (0, 0, 0) (Box (8, - 6, 0) (8, 0, 6)) = 8"
  "lowerBound euclid_triangle (0, 0, 0) (Box (8, 0, 0) (8, 6, 6)) = 8"
  by (simp_all add: euclid_vertex_def euclid_triangle_def norm3_def excess_def)

lemma fold_closest:
  "closestPoints euclid_triangle (0, 0, 0) (tri (8, 0, 0) (8, 6, 0) (8, 0, 6) m f) =
     (8, (0, 0, 0), (8, 0, 0))"
  "closestPoints euclid_triangle (0, 0, 0) (tri (8, 0, 0) (8, 0, 6) (8, - 6, 0) m f) =
     (8, (0, 0, 0), (8, 0, 0))"
  "closestPoints euclid_vertex (0, 0, 0) \<lparr>vx_index = i, vx_position = (8, 0, 0)\<rparr> =
     (8, (0, 0, 0), (8, 0, 0))"
  by (simp_all add: euclid_triangle_def euclid_vertex_def closest_on_triangle_def tri_fields
      norm3_def Let_def)

lemma fold_vertex_query:
  assumes "vertex_kdtree s1 =
       \<lparr>kd_elems = mg_vertices fold_mesh,
        kd_root = Some (Inner (Box (8, - 6, 0) (8, 6, 6)) 1 0
                    (Inner (Box (8, - 6, 0) (8, 0, 0)) 1 0
                       (Leaf (Box (8, - 6, 0) (8, - 6, 0)) [3]) (Leaf (Box (8, 0, 0) (8, 0, 0)) [0]))
                    (Inner (Box (8, 0, 0) (8, 6, 6)) 1 6
                       (Leaf (Box (8, 0, 6) (8, 0, 6)) [2]) (Leaf (Box (8, 6, 0) (8, 6, 0)) [1]))),
        kd_trans = None\<rparr>"
  shows "closestElement (xform euclid) (metricL2_vertex euclid) (vertex_kdtree s1) (0, 0, 0) 100 =
           (0, Some 8, Some (8, 0, 0))"
  by (simp add: assms closestElement_def fold_mesh_def euclid_fields toObject_def toWorld_def
      initial_best_def nn_test_def distance_def fold_boxes fold_closest)

lemma fold_face_query:
  "closestElement (xform euclid) (metricL2_triangle euclid) (kdtree (updateKDTree euclid fold_model))
     (0, 0, 0) 8 = (1, Some 8, Some (8, 0, 0))"
  "closestElement (xform euclid) (metricL2_triangle euclid) (kdtree (updateKDTree euclid fold_model))
     (0, 0, 0) 100 = (1, Some 8, Some (8, 0, 0))"
  by (simp_all add: fold_tree closestElement_def euclid_fields toObject_def toWorld_def
      initial_best_def nn_test_def distance_def fold_boxes fold_closest)

lemma fold_scan:
  "face_scan euclid (kdtree (updateKDTree euclid fold_model)) (0, 0, 0) 100 = (Some 0, Some 8)"
  by (simp add: fold_tree face_scan_def linear_scan_def euclid_fields toObject_def nn_test_def
      initial_best_def distance_def fold_closest)

text \<open>
  On equal distances the first primitive in traversal order stays, which need not be the
  one of least index: from the origin both triangles of \<open>fold_mesh\<close> are at distance 8,
  every vertex belongs to a face, \<^verbatim>\<open>closestPoint\<close> returns triangle 1, with and without
  acceleration, and the scan in index order finds triangle 0.
\<close>

lemma fold_tie:
  "map_sum id (cp_index \<circ> fst) (closestPoint euclid (0, 0, 0) 100 True fold_model) = Inr 1 \<and>
   map_sum id (cp_min_dist \<circ> fst) (closestPoint euclid (0, 0, 0) 100 True fold_model) = Inr (Some 8) \<and>
   map_sum id (cp_index \<circ> fst) (closestPoint euclid (0, 0, 0) 100 False fold_model) = Inr 1 \<and>
   face_scan euclid (kdtree (updateKDTree euclid fold_model)) (0, 0, 0) 100 = (Some 0, Some 8)"
proof -
  have ne: "\<not> isEmpty fold_model"
    by (simp add: isEmpty_def fold_mesh_def example_models model_ops)
  from fold_vertex_tree obtain s1 where s1: "updateVertexKDTree euclid fold_model = Inr s1"
    and vt: "vertex_kdtree s1 =
       \<lparr>kd_elems = mg_vertices fold_mesh,
        kd_root = Some (Inner (Box (8, - 6, 0) (8, 6, 6)) 1 0
                    (Inner (Box (8, - 6, 0) (8, 0, 0)) 1 0
                       (Leaf (Box (8, - 6, 0) (8, - 6, 0)) [3]) (Leaf (Box (8, 0, 0) (8, 0, 0)) [0]))
                    (Inner (Box (8, 0, 0) (8, 6, 6)) 1 6
                       (Leaf (Box (8, 0, 6) (8, 0, 6)) [2]) (Leaf (Box (8, 6, 0) (8, 6, 0)) [1]))),
        kd_trans = None\<rparr>" by blast
  have fast: "map_sum id (cp_index \<circ> fst) (closestPoint euclid (0, 0, 0) 100 True fold_model) = Inr 1 \<and>
      map_sum id (cp_min_dist \<circ> fst) (closestPoint euclid (0, 0, 0) 100 True fold_model) = Inr (Some 8)"
    using closestPoint_face_answer [OF ne tightenBound_vertex [OF s1], of "(0, 0, 0)" 100]
    by (simp add: fold_vertex_query [OF vt] kdtree_after_vertex [OF s1] face_answer_def
        euclid_cast fold_face_query) (simp add: fold_tree)
  have plain: "map_sum id (cp_index \<circ> fst) (closestPoint euclid (0, 0, 0) 100 False fold_model) = Inr 1"
    using closestPoint_face_answer [OF ne tightenBound_plain, of euclid "(0, 0, 0)" 100]
    by (simp add: face_answer_def euclid_cast fold_face_query) (simp add: fold_tree)
  from fast plain fold_scan show ?thesis by blast
qed

text \<open>
  A conversion to \<^verbatim>\<open>Real\<close> that rounds down can put the tightened bound below the distance
  of the face the anchor belongs to: with \<open>floor3\<close> the anchor at distance 8 gives the
  bound 6, and \<^verbatim>\<open>closestPoint\<close> finds nothing with acceleration and triangle 1 without.
\<close>

lemma fold_face_query_6:
  "closestElement (xform euclid) (metricL2_triangle euclid) (kdtree (updateKDTree euclid fold_model))
     (0, 0, 0) 6 = (- 1, None, None)"
  by (simp_all add: fold_tree closestElement_def euclid_fields toObject_def toWorld_def
      initial_best_def nn_test_def distance_def fold_boxes fold_closest)

lemma fold_rounded_down:
  "map_sum id fst (closestPoint (rounding floor3) (0, 0, 0) 100 True fold_model) = Inr cp_none \<and>
   map_sum id (cp_index \<circ> fst) (closestPoint (rounding floor3) (0, 0, 0) 100 False fold_model) =
     Inr 1"
proof -
  have ne: "\<not> isEmpty fold_model"
    by (simp add: isEmpty_def fold_mesh_def example_models model_ops)
  from fold_vertex_tree obtain s1 where s1: "updateVertexKDTree euclid fold_model = Inr s1"
    and vt: "vertex_kdtree s1 =
       \<lparr>kd_elems = mg_vertices fold_mesh,
        kd_root = Some (Inner (Box (8, - 6, 0) (8, 6, 6)) 1 0
                    (Inner (Box (8, - 6, 0) (8, 0, 0)) 1 0
                       (Leaf (Box (8, - 6, 0) (8, - 6, 0)) [3]) (Leaf (Box (8, 0, 0) (8, 0, 0)) [0]))
                    (Inner (Box (8, 0, 0) (8, 6, 6)) 1 6
                       (Leaf (Box (8, 0, 6) (8, 0, 6)) [2]) (Leaf (Box (8, 6, 0) (8, 6, 0)) [1]))),
        kd_trans = None\<rparr>" by blast
  have s1c: "updateVertexKDTree (rounding floor3) fold_model = Inr s1"
    using s1 by (simp add: rounding_updateVertexKDTree)
  have fast: "map_sum id fst (closestPoint (rounding floor3) (0, 0, 0) 100 True fold_model) =
      Inr cp_none"
    using closestPoint_face_answer [OF ne tightenBound_vertex [OF s1c], of "(0, 0, 0)" 100]
    by (simp add: rounding_fields rounding_updateKDTree fold_vertex_query [OF vt]
        kdtree_after_vertex [OF s1] face_answer_def rounded fold_face_query_6)
  have plain: "map_sum id (cp_index \<circ> fst)
      (closestPoint (rounding floor3) (0, 0, 0) 100 False fold_model) = Inr 1"
    using closestPoint_face_answer [OF ne tightenBound_plain, of "rounding floor3" "(0, 0, 0)" 100]
    by (simp add: rounding_fields rounding_updateKDTree face_answer_def fold_face_query)
       (simp add: fold_tree)
  from fast plain show ?thesis by blast
qed

lemma far_tree:
  "kdtree (updateKDTree euclid far_model) =
     \<lparr>kd_elems = [tri (8, 3, 4) (8, 5, 12) (8, 8, 15) 0 7],
      kd_root = Some (Leaf (Box (8, 3, 4) (8, 8, 15)) [0]),
      kd_trans = None\<rparr>"
proof -
  have "\<not> valid_kdtree far_model" "mesh_group far_model = Some far_mesh"
    "transform far_model = None" "kd_trans (kdtree far_model) = None"
    by (simp_all add: example_models model_ops)
  from updateKDTree_fresh [OF this(1,2), of euclid] this(3,4) show ?thesis
    by (simp add: far_mesh_def euclid_fields tri_fields build_eval)
qed

lemma far_box: "ray_box_time axis_ray (Box (8, 3, 4) (8, 8, 15)) = - 1"
  by (simp add: slab_def axis_ray_def)

lemma far_corners:
  "closestPoints corner_ray_metric axis_ray (tri (8, 3, 4) (8, 5, 12) (8, 8, 15) m f) =
     (5, (8, 0, 0), (8, 3, 4))"
  by (simp add: corner_ray_metric_def ray_point_distance_def ray_param_def getPoint_def
      axis_ray_def tri_fields norm3_def Let_def)

lemma far_lower: "lowerBound corner_ray_metric r bb = 0"
  by (simp add: corner_ray_metric_def)

lemma axis_ray_fields: "origin axis_ray = (0, 0, 0)" "direction axis_ray = (1, 0, 0)"
  by (simp_all add: axis_ray_def)

lemma far_exact:
  "rayStructureIntersection translation_ops triangle_tester (kdtree (updateKDTree euclid far_model))
     axis_ray (- 1) = no_intersection"
  by (simp add: far_tree rayStructureIntersection_def euclid_fields triangle_tester_def
      toObject_def initial_best_def ray_prune_def far_box del: ray_box_time.simps)

lemma far_near:
  "closestPair translation_ops corner_ray_metric triangle_tester
     (kdtree (updateKDTree euclid far_model)) axis_ray (- 1) True =
     \<lparr>pair_valid = True, pair_query_point = (8, 0, 0), pair_target_point = (8, 3, 4),
      pair_target_index = 0, pair_distance = 5\<rparr>"
  by (simp add: far_tree closestPair_def kd_rayIntersects_def euclid_fields triangle_tester_def
      toObject_def toWorld_def initial_best_def ray_prune_def nn_test_def distance_def far_box
      far_corners far_lower del: ray_box_time.simps)

lemma far_elems:
  "kd_elems (kdtree (updateKDTree euclid far_model)) = [tri (8, 3, 4) (8, 5, 12) (8, 8, 15) 0 7]"
  by (simp add: far_tree)

lemma far_pick:
  "map_sum id fst (pick euclid axis_ray far_model) = Inr 8 \<and>
   map_sum id (sample_face_index \<circ> picked_sample \<circ> snd) (pick euclid axis_ray far_model) = Inr 7 \<and>
   map_sum id (sample_position \<circ> picked_sample \<circ> snd) (pick euclid axis_ray far_model) =
     Inr (8, 3, 4)"
  by (simp add: pick_def rayIntersection_state euclid_fields far_exact far_near far_elems
      no_intersection_def tri_fields normalized_def norm3_def axis_ray_fields Let_def)

lemma cloud_reachable: "reachable euclid cloud_model"
proof -
  have e: "cloud_model =
      (invalidateAll Model_new)\<lparr>mesh_group := map_option id (mesh_group (Model_new :: Vector3 Model)),
        point_cloud := Some \<lparr>pc_name = ''cloud'', pc_isEmpty = False\<rparr>\<rparr>"
    by (simp add: cloud_model_def Model_new_def model_ops)
  show ?thesis by (subst e) (rule r_load_points [OF r_new])
qed

lemma wall_reachable: "reachable euclid wall_model"
proof -
  have e: "wall_model =
      (invalidateAll Model_new)\<lparr>mesh_group := Some wall_mesh,
        point_cloud := map_option id (point_cloud (Model_new :: Vector3 Model))\<rparr>"
    by (simp add: wall_model_def Model_new_def model_ops)
  show ?thesis by (subst e) (rule r_load_mesh [OF r_new])
qed

lemma far_reachable: "reachable euclid far_model"
proof -
  have e: "far_model =
      (invalidateAll Model_new)\<lparr>mesh_group := Some far_mesh,
        point_cloud := map_option id (point_cloud (Model_new :: Vector3 Model))\<rparr>"
    by (simp add: far_model_def Model_new_def model_ops)
  show ?thesis by (subst e) (rule r_load_mesh [OF r_new])
qed

lemma far_valid_pick:
  "map_sum id (valid_pick \<circ> snd) (pick euclid axis_ray far_model) = Inr True"
  by (simp add: pick_def rayIntersection_state euclid_fields far_exact far_near far_elems
      no_intersection_def tri_fields normalized_def norm3_def axis_ray_fields Let_def)

lemma picked_far_state:
  "pick euclid axis_ray far_model = Inr (8, picked_far)" "valid_pick picked_far"
  "mesh_group picked_far = Some far_mesh"
proof -
  from far_pick obtain s where s: "pick euclid axis_ray far_model = Inr (8, s)"
    by (cases "pick euclid axis_ray far_model") auto
  then show a: "pick euclid axis_ray far_model = Inr (8, picked_far)"
    by (simp add: picked_far_def)
  show "valid_pick picked_far" using far_valid_pick a by simp
  show "mesh_group picked_far = Some far_mesh"
    using pick_frame(1) [OF a] by (simp add: example_models model_ops)
qed

lemma cleared_far_state:
  "reachable euclid cleared_far" "valid_pick cleared_far"
  "kd_root (kdtree (updateKDTree euclid cleared_far)) = None"
proof -
  have "reachable euclid picked_far" using r_pick [OF far_reachable picked_far_state(1)] .
  then show "reachable euclid cleared_far" unfolding cleared_far_def by (rule r_clear)
  show "valid_pick cleared_far" using picked_far_state(2) by (simp add: cleared_far_def model_ops)
  have "\<not> valid_kdtree cleared_far" "mesh_group cleared_far = Some (no_geometry far_mesh)"
    using picked_far_state(3) by (simp_all add: cleared_far_def model_ops)
  from updateKDTree_fresh [OF this, of euclid] show
    "kd_root (kdtree (updateKDTree euclid cleared_far)) = None"
    by (simp add: no_geometry_def)
qed

lemma cloud_pick:
  "\<not> isec_valid (exact_hit euclid axis_ray cloud_model) \<and>
   \<not> pair_valid (near_miss euclid axis_ray cloud_model)"
proof -
  have "mesh_group cloud_model = None" "\<not> valid_kdtree cloud_model"
    by (simp_all add: cloud_model_def Model_new_def model_ops)
  then show ?thesis by (rule no_mesh_pick)
qed

section \<open>The claims\<close>

subsection \<open>Two-tier closest point\<close>


text \<open>
  C1 (as amended): let the model be non-empty with a mesh group (so that the vertex
  kd-tree can be updated), let the hierarchy of each valid kd-tree hold the indices of
  its primitives, let the metric's lower bounds be consistent with the face hierarchy for
  the query, and let every anchor's distance, converted to \<^verbatim>\<open>Real\<close>, be non-negative, within
  the bound if the distance is, and at least the distance of some primitive. Then
  \<^verbatim>\<open>closestPoint\<close> with \<open>accelerate_with_vertices\<close> returns the index, the distance, the
  point and the normal that it returns without acceleration, and does not fail. When the
  brute-force scan over all primitives finds nothing within the bound, so does
  \<^verbatim>\<open>closestPoint\<close>; when the scan finds a primitive, \<^verbatim>\<open>closestPoint\<close> returns a primitive at
  the distance the scan found, converted to \<^verbatim>\<open>Real\<close>, and the index the scan found if no
  other primitive is at that distance.
\<close>

theorem accelerated_closestPoint:
  assumes ne: "\<not> isEmpty s" and v: "updateVertexKDTree E s = Inr s1"
    and wf: "valid_kdtree s \<longrightarrow> kd_wf (kdtree s)"
    and vwf: "valid_vertex_kdtree s \<longrightarrow> kd_wf (vertex_kdtree s)"
    and cons: "kd_consistent (pointToObject (xform E)) (metricL2_triangle E)
                 (kdtree (updateKDTree E s)) query"
    and anch: "anchored E (vertex_kdtree s1) (kdtree (updateKDTree E s)) query bound"
  shows "\<exists>r. closestPoint E query bound False s = Inr (r, updateKDTree E s) \<and>
             closestPoint E query bound True s = Inr (r, updateKDTree E s1) \<and>
             (case face_scan E (kdtree (updateKDTree E s)) query bound of
                (None, l) \<Rightarrow> r = cp_none
              | (Some i, l) \<Rightarrow>
                  0 \<le> cp_index r \<and> nat (cp_index r) < length (kd_elems (kdtree (updateKDTree E s))) \<and>
                  cp_min_dist r = map_option (castReal E) l \<and>
                  l = Some (face_distance E (kdtree (updateKDTree E s)) query (nat (cp_index r))) \<and>
                  ((\<forall>j<length (kd_elems (kdtree (updateKDTree E s))).
                      face_distance E (kdtree (updateKDTree E s)) query j =
                      face_distance E (kdtree (updateKDTree E s)) query i \<longrightarrow> j = i)
                   \<longrightarrow> cp_index r = int i))"
proof -
  let ?X = "xform E" and ?MF = "metricL2_triangle E" and ?MV = "metricL2_vertex E"
  let ?kd = "kdtree (updateKDTree E s)" and ?vkd = "vertex_kdtree s1"
  let ?q = "toObject (pointToObject ?X) (kd_trans ?kd) query"
  let ?qv = "toObject (pointToObject ?X) (kd_trans ?vkd) query"
  have kwf: "kd_wf ?kd" using kd_wf_updateKDTree [OF wf] .
  have vkwf: "kd_wf ?vkd" using kd_wf_updateVertexKDTree [OF vwf v] .
  have kd1: "kdtree (updateKDTree E s1) = ?kd" using kdtree_after_vertex [OF v] .
  let ?ve = "closestElement ?X ?MV ?vkd query bound"
  let ?b = "if 0 \<le> fst ?ve then castReal E (case fst (snd ?ve) of None \<Rightarrow> 0 | Some d \<Rightarrow> d)
            else bound"
  have same: "closestElement ?X ?MF ?kd query ?b = closestElement ?X ?MF ?kd query bound"
  proof (cases "0 \<le> fst ?ve")
    case False
    then show ?thesis by simp
  next
    case True
    from closestElement_found [OF vkwf True]
    obtain i where i: "i < length (kd_elems ?vkd)"
      "fst (snd ?ve) = Some (distance ?MV ?qv (kd_elems ?vkd ! i))"
      "improves (distance ?MV ?qv (kd_elems ?vkd ! i)) (initial_best bound)" by blast
    let ?dv = "distance ?MV ?qv (kd_elems ?vkd ! i)"
    let ?bv = "castReal E ?dv"
    have mem: "kd_elems ?vkd ! i \<in> set (kd_elems ?vkd)" using i(1) by simp
    have nn: "0 \<le> ?bv"
      and le: "0 \<le> bound \<and> ?dv \<le> bound \<longrightarrow> ?bv \<le> bound"
      and ex: "\<exists>f\<in>set (kd_elems ?kd). distance ?MF ?q f \<le> ?bv"
      using anch mem
      by (auto simp add: anchored_def anchor_bound_def anchor_distance_def list_all_iff
          list_ex_iff)
    from ex obtain j where "j < length (kd_elems ?kd)" "distance ?MF ?q (kd_elems ?kd ! j) \<le> ?bv"
      by (auto simp add: in_set_conv_nth)
    then have near: "\<exists>j<length (kd_elems ?kd). distance ?MF ?q (kd_elems ?kd ! j) \<le> ?bv" by blast
    have within: "improves ?bv (initial_best bound)"
      using i(3) le by (auto simp add: improves_initial)
    from tight_bound_same [OF kwf cons within nn near] show ?thesis using True i(2) by simp
  qed
  have plain: "closestPoint E query bound False s =
      map_sum id (\<lambda>r. (r, updateKDTree E s)) (face_answer E ?kd query bound)"
    using closestPoint_face_answer [OF ne tightenBound_plain] .
  have fast: "closestPoint E query bound True s =
      map_sum id (\<lambda>r. (r, updateKDTree E s1)) (face_answer E ?kd query bound)"
    using closestPoint_face_answer [OF ne tightenBound_vertex [OF v], of query bound] same kd1
    by (simp add: face_answer_def)
  from closestElement_scan [OF kwf cons, of bound]
  have "\<exists>r. face_answer E ?kd query bound = Inr r \<and>
    (case face_scan E ?kd query bound of
       (None, l) \<Rightarrow> r = cp_none
     | (Some i, l) \<Rightarrow>
         0 \<le> cp_index r \<and> nat (cp_index r) < length (kd_elems ?kd) \<and>
         cp_min_dist r = map_option (castReal E) l \<and>
         l = Some (face_distance E ?kd query (nat (cp_index r))) \<and>
         ((\<forall>j<length (kd_elems ?kd).
             face_distance E ?kd query j = face_distance E ?kd query i \<longrightarrow> j = i)
          \<longrightarrow> cp_index r = int i))"
    by (auto simp add: face_answer_def face_scan_def face_distance_def Let_def
        split: prod.splits option.splits)
  then show ?thesis using plain fast by auto
qed

theorem accelerated_closestPoint_witness:
  "kd_consistent (pointToObject (xform (rounding ceiling3))) (metricL2_triangle (rounding ceiling3))
     (kdtree (updateKDTree (rounding ceiling3) wall_model)) (0, 0, 0) \<and>
   face_scan (rounding ceiling3) (kdtree (updateKDTree (rounding ceiling3) wall_model)) (0, 0, 0) 100 =
     (Some 0, Some 8) \<and>
   map_sum id (cp_index \<circ> fst) (closestPoint (rounding ceiling3) (0, 0, 0) 100 True wall_model) =
     Inr 0 \<and>
   map_sum id (cp_min_dist \<circ> fst) (closestPoint (rounding ceiling3) (0, 0, 0) 100 True wall_model) =
     Inr (Some 9) \<and>
   map_sum id fst (closestPoint (rounding ceiling3) (0, 0, 0) 100 True wall_model) =
   map_sum id fst (closestPoint (rounding ceiling3) (0, 0, 0) 100 False wall_model)"
proof -
  let ?E = "rounding ceiling3"
  let ?kd = "kdtree (updateKDTree ?E wall_model)"
  have ne: "\<not> isEmpty wall_model"
    by (simp add: isEmpty_def wall_mesh_def example_models model_ops)
  have st: "\<not> valid_vertex_kdtree wall_model" "mesh_group wall_model = Some wall_mesh"
    "transform wall_model = None" "kd_trans (vertex_kdtree wall_model) = None"
    "\<not> valid_kdtree wall_model"
    by (simp_all add: example_models model_ops)
  from updateVertexKDTree_fresh [OF st(1,2), of ?E]
  obtain s1 where s1: "updateVertexKDTree ?E wall_model = Inr s1"
    and vk: "kd_elems (vertex_kdtree s1) = mg_vertices wall_mesh"
      "kd_trans (vertex_kdtree s1) = None"
    using st(3,4) by auto
  have wf: "valid_kdtree wall_model \<longrightarrow> kd_wf (kdtree wall_model)" using st(5) by simp
  have vwf: "valid_vertex_kdtree wall_model \<longrightarrow> kd_wf (vertex_kdtree wall_model)"
    using st(1) by simp
  have cons: "kd_consistent (pointToObject (xform ?E)) (metricL2_triangle ?E) ?kd (0, 0, 0)"
    using wall_consistent by (simp add: rounding_fields rounding_updateKDTree)
  have scan: "face_scan ?E ?kd (0, 0, 0) 100 = (Some 0, Some 8)"
    using wall_scan by (simp add: face_scan_def rounding_fields rounding_updateKDTree)
  have an: "anchored ?E (vertex_kdtree s1) ?kd (0, 0, 0) 100"
    by (simp add: anchored_def anchor_bound_def anchor_distance_def vk rounding_fields
        rounding_updateKDTree wall_tree wall_mesh_def euclid_fields toObject_def wall_distances
        wall_vertex_distances rounded)
  have uniq: "\<forall>j<length (kd_elems ?kd).
      face_distance ?E ?kd (0, 0, 0) j = face_distance ?E ?kd (0, 0, 0) 0 \<longrightarrow> j = 0"
    by (simp add: rounding_fields rounding_updateKDTree wall_tree face_distance_def euclid_fields
        toObject_def wall_distances less_Suc_eq numeral_2_eq_2)
  from accelerated_closestPoint [OF ne s1 wf vwf cons an]
  obtain r where r: "closestPoint ?E (0, 0, 0) 100 False wall_model = Inr (r, updateKDTree ?E wall_model)"
    "closestPoint ?E (0, 0, 0) 100 True wall_model = Inr (r, updateKDTree ?E s1)"
    "cp_min_dist r = Some 9"
    "(\<forall>j<length (kd_elems ?kd).
        face_distance ?E ?kd (0, 0, 0) j = face_distance ?E ?kd (0, 0, 0) 0 \<longrightarrow> j = 0)
      \<longrightarrow> cp_index r = 0"
    by (auto simp add: scan rounding_fields rounded)
  then show ?thesis using uniq cons scan by simp
qed

text \<open>
  C1 as stated fails: a vertex that belongs to no face tightens the bound below the
  distance of every face. From the origin the nearest vertex of \<open>stray_mesh\<close> is at
  distance 1 and its only triangle at distance 8: with acceleration \<^verbatim>\<open>closestPoint\<close>
  returns \<open>-1\<close>, while the brute-force scan, like \<^verbatim>\<open>closestPoint\<close> without acceleration,
  finds triangle 0 at distance 8.
\<close>

theorem accelerated_closestPoint_counterexample:
  "map_sum id fst (closestPoint euclid (0, 0, 0) 100 True stray_model) = Inr cp_none \<and>
   face_scan euclid (kdtree (updateKDTree euclid stray_model)) (0, 0, 0) 100 = (Some 0, Some 8) \<and>
   map_sum id (cp_index \<circ> fst) (closestPoint euclid (0, 0, 0) 100 False stray_model) = Inr 0"
proof -
  have ne: "\<not> isEmpty stray_model"
    by (simp add: isEmpty_def stray_mesh_def example_models model_ops)
  from stray_vertex_tree obtain s1 where s1: "updateVertexKDTree euclid stray_model = Inr s1"
    and vt: "vertex_kdtree s1 =
       \<lparr>kd_elems = mg_vertices stray_mesh,
        kd_root = Some (Inner (Box (1, 0, 0) (8, 6, 6)) 0 8
                    (Inner (Box (1, 0, 0) (8, 0, 0)) 0 8
                       (Leaf (Box (1, 0, 0) (1, 0, 0)) [0]) (Leaf (Box (8, 0, 0) (8, 0, 0)) [1]))
                    (Inner (Box (8, 0, 0) (8, 6, 6)) 1 6
                       (Leaf (Box (8, 0, 6) (8, 0, 6)) [3]) (Leaf (Box (8, 6, 0) (8, 6, 0)) [2]))),
        kd_trans = None\<rparr>" by blast
  have fast: "map_sum id fst (closestPoint euclid (0, 0, 0) 100 True stray_model) = Inr cp_none"
    using closestPoint_face_answer [OF ne tightenBound_vertex [OF s1], of "(0, 0, 0)" 100]
    by (simp add: stray_vertex_query [OF vt] kdtree_after_vertex [OF s1] face_answer_def
        euclid_cast stray_face_query)
  have plain: "map_sum id (cp_index \<circ> fst) (closestPoint euclid (0, 0, 0) 100 False stray_model) = Inr 0"
    using closestPoint_face_answer [OF ne tightenBound_plain, of euclid "(0, 0, 0)" 100]
    by (simp add: face_answer_def euclid_cast stray_face_query) (simp add: stray_tree)
  from fast plain stray_scan show ?thesis by blast
qed

subsection \<open>Nearest ray hit\<close>


text \<open>
  C2: let the hierarchy of the face kd-tree hold the indices of its primitives and let
  the ray tester be consistent with it for the ray. If some primitive is hit at a time
  within \<open>[0, max_time]\<close>, \<^verbatim>\<open>rayIntersection\<close> returns a valid result whose element is a
  primitive hit at that result's time, which lies within \<open>[0, max_time]\<close> and is the
  least hit time of all primitives; otherwise it returns the invalid result.
\<close>

theorem rayIntersection_nearest:
  assumes "valid_kdtree s \<longrightarrow> kd_wf (kdtree s)"
    and "kd_ray_consistent (xform E) (rayTester E) (kdtree (updateKDTree E s)) ray"
  shows "let (isec, s1) = rayIntersection E ray max_time s;
             n = length (kd_elems (kdtree s1))
         in s1 = updateKDTree E s \<and>
            (if \<exists>j<n. in_time max_time (hit_time E (kdtree s1) ray j)
             then isec_valid isec \<and>
                  (\<exists>i<n. isec_element isec = int i \<and>
                     isec_time isec = hit_time E (kdtree s1) ray i \<and>
                     in_time max_time (isec_time isec) \<and>
                     (\<forall>j<n. 0 \<le> hit_time E (kdtree s1) ray j \<longrightarrow>
                          isec_time isec \<le> hit_time E (kdtree s1) ray j))
             else isec = no_intersection \<and> \<not> isec_valid isec)"
proof -
  let ?kd = "kdtree (updateKDTree E s)"
  let ?r = "toObject (rayToObject (xform E)) (kd_trans ?kd) ray"
  have wf: "kd_wf ?kd" using kd_wf_updateKDTree [OF assms(1)] .
  show ?thesis
  proof (cases "kd_root ?kd")
    case None
    then have "kd_elems ?kd = []" using wf by (simp add: kd_wf_def)
    then show ?thesis using None
      by (simp add: rayIntersection_def getKDTree_def recompute_if_invalid_default_def
          rayStructureIntersection_def no_intersection_def)
  next
    case (Some n)
    have c: "ray_consistent (rayTester E) (kd_elems ?kd) ?r n"
      using assms(2) Some by (simp add: kd_ray_consistent_def)
    have w: "set (node_indices n) = set [0..<length (kd_elems ?kd)]"
      using wf Some by (simp add: kd_wf_def)
    from ray_root_result [OF c w, of max_time] show ?thesis
      using Some
      by (auto simp add: rayIntersection_def getKDTree_def recompute_if_invalid_default_def
          rayStructureIntersection_def no_intersection_def hit_time_def Let_def
          split: prod.splits option.splits)
  qed
qed

theorem rayIntersection_nearest_witness:
  "kd_ray_consistent (xform euclid) (rayTester euclid) (kdtree (updateKDTree euclid square_model))
     down_ray \<and>
   isec_valid (fst (rayIntersection euclid down_ray 10 square_model)) \<and>
   isec_time (fst (rayIntersection euclid down_ray 10 square_model)) = 5"
proof -
  let ?kd = "kdtree (updateKDTree euclid square_model)"
  let ?isec = "rayStructureIntersection (xform euclid) (rayTester euclid) ?kd down_ray 10"
  have v: "valid_kdtree square_model \<longrightarrow> kd_wf (kdtree square_model)"
    by (simp add: example_models model_ops)
  have r: "rayIntersection euclid down_ray 10 square_model = (?isec, updateKDTree euclid square_model)"
    by (rule rayIntersection_state)
  have ex: "\<exists>j<length (kd_elems ?kd). in_time 10 (hit_time euclid ?kd down_ray j)"
    using square_hits by (intro exI [of _ 0]) (simp add: in_time_def)
  have all: "\<forall>j<length (kd_elems ?kd). hit_time euclid ?kd down_ray j = 5"
    using square_hits by (auto simp add: less_Suc_eq numeral_2_eq_2)
  have "isec_valid ?isec \<and>
        (\<exists>i<length (kd_elems ?kd). isec_time ?isec = hit_time euclid ?kd down_ray i)"
    using rayIntersection_nearest [OF v square_ray_consistent, of 10] ex
    by (simp add: r Let_def) blast
  then show ?thesis using all square_ray_consistent by (auto simp add: r)
qed

subsection \<open>Lazy rebuild\<close>

text \<open>
  C3 (as amended): \<^verbatim>\<open>rayIntersects\<close>, \<^verbatim>\<open>rayIntersectionTime\<close> and \<^verbatim>\<open>rayIntersection\<close> in
  every state, and \<^verbatim>\<open>closestPoint\<close> on a non-empty model when it returns, rebuild the face
  kd-tree exactly when its flag is not set, and leave the flag set; with acceleration
  \<^verbatim>\<open>closestPoint\<close> does the same for the vertex kd-tree. Any positive number of
  invalidations rebuilds nothing, and the next query rebuilds once; a query after that
  rebuilds nothing.
\<close>

theorem lazy_rebuild:
  "rebuilt s (snd (rayIntersects E ray max_time s)) \<and>
   rebuilt s (snd (rayIntersectionTime E ray max_time s)) \<and>
   rebuilt s (snd (rayIntersection E ray max_time s)) \<and>
   (\<not> isEmpty s \<and> closestPoint E query bound acc s = Inr (r, s') \<longrightarrow> rebuilt s s') \<and>
   (\<not> isEmpty s \<and> closestPoint E query bound True s = Inr (r, s') \<longrightarrow> vertex_rebuilt s s') \<and>
   (0 < n \<longrightarrow>
      \<not> valid_kdtree ((invalidateKDTree ^^ n) s) \<and>
      kdtree_rebuilds ((invalidateKDTree ^^ n) s) = kdtree_rebuilds s \<and>
      kdtree_rebuilds (snd (rayIntersection E ray max_time ((invalidateKDTree ^^ n) s))) =
        kdtree_rebuilds s + 1 \<and>
      kdtree_rebuilds (snd (rayIntersection E ray' max_time'
          (snd (rayIntersection E ray max_time ((invalidateKDTree ^^ n) s))))) =
        kdtree_rebuilds s + 1)"
proof -
  have q: "rebuilt s (snd (rayIntersects E ray max_time s)) \<and>
     rebuilt s (snd (rayIntersectionTime E ray max_time s)) \<and>
     rebuilt s (snd (rayIntersection E ray max_time s))"
    using rebuilt_updateKDTree [of s E] by (simp add: ray_queries Let_def)
  have c: "\<not> isEmpty s \<and> closestPoint E query bound acc s = Inr (r, s') \<longrightarrow> rebuilt s s'"
    using closestPoint_state by blast
  have d: "\<not> isEmpty s \<and> closestPoint E query bound True s = Inr (r, s') \<longrightarrow> vertex_rebuilt s s'"
    using closestPoint_vertex_state by blast
  have i: "0 < n \<longrightarrow>
      \<not> valid_kdtree ((invalidateKDTree ^^ n) s) \<and>
      kdtree_rebuilds ((invalidateKDTree ^^ n) s) = kdtree_rebuilds s \<and>
      kdtree_rebuilds (snd (rayIntersection E ray max_time ((invalidateKDTree ^^ n) s))) =
        kdtree_rebuilds s + 1 \<and>
      kdtree_rebuilds (snd (rayIntersection E ray' max_time'
          (snd (rayIntersection E ray max_time ((invalidateKDTree ^^ n) s))))) =
        kdtree_rebuilds s + 1"
  proof
    assume n: "0 < n"
    let ?s = "s\<lparr>valid_kdtree := False\<rparr>"
    have a: "rebuilt ?s (updateKDTree E ?s)" by (rule rebuilt_updateKDTree)
    have b: "rebuilt (updateKDTree E ?s) (updateKDTree E (updateKDTree E ?s))"
      by (rule rebuilt_updateKDTree)
    show "\<not> valid_kdtree ((invalidateKDTree ^^ n) s) \<and>
      kdtree_rebuilds ((invalidateKDTree ^^ n) s) = kdtree_rebuilds s \<and>
      kdtree_rebuilds (snd (rayIntersection E ray max_time ((invalidateKDTree ^^ n) s))) =
        kdtree_rebuilds s + 1 \<and>
      kdtree_rebuilds (snd (rayIntersection E ray' max_time'
          (snd (rayIntersection E ray max_time ((invalidateKDTree ^^ n) s))))) =
        kdtree_rebuilds s + 1"
      using a b by (simp add: funpow_invalidate [OF n] ray_queries Let_def rebuilt_def)
  qed
  from q c d i show ?thesis by blast
qed

theorem lazy_rebuild_witness:
  "rebuilt square_model (snd (rayIntersects euclid down_ray 10 square_model)) \<and>
   \<not> valid_kdtree ((invalidateKDTree ^^ 3) square_model) \<and>
   kdtree_rebuilds (snd (rayIntersection euclid down_ray 10 ((invalidateKDTree ^^ 3) square_model))) = 1 \<and>
   kdtree_rebuilds (snd (rayIntersection euclid axis_ray 10
      (snd (rayIntersection euclid down_ray 10 ((invalidateKDTree ^^ 3) square_model))))) = 1 \<and>
   \<not> isEmpty wall_model \<and>
   map_sum id (rebuilt wall_model \<circ> snd) (closestPoint euclid (0, 0, 0) 100 True wall_model) = Inr True \<and>
   map_sum id (vertex_rebuilt wall_model \<circ> snd) (closestPoint euclid (0, 0, 0) 100 True wall_model) =
     Inr True"
proof -
  have z: "kdtree_rebuilds square_model = 0" by (simp add: example_models model_ops)
  have ne: "\<not> isEmpty wall_model"
    by (simp add: isEmpty_def wall_mesh_def example_models model_ops)
  have "mesh_group wall_model \<noteq> None" by (simp add: example_models model_ops)
  from closestPoint_returns [OF reachable_sound [OF wall_reachable], of True] this
  obtain r s' where c: "closestPoint euclid (0, 0, 0) 100 True wall_model = Inr (r, s')" by blast
  from lazy_rebuild [where s = square_model and E = euclid and ray = down_ray and max_time = 10
      and n = 3 and ray' = axis_ray and max_time' = 10] z
  have a: "rebuilt square_model (snd (rayIntersects euclid down_ray 10 square_model)) \<and>
   \<not> valid_kdtree ((invalidateKDTree ^^ 3) square_model) \<and>
   kdtree_rebuilds (snd (rayIntersection euclid down_ray 10 ((invalidateKDTree ^^ 3) square_model))) = 1 \<and>
   kdtree_rebuilds (snd (rayIntersection euclid axis_ray 10
      (snd (rayIntersection euclid down_ray 10 ((invalidateKDTree ^^ 3) square_model))))) = 1"
    by simp
  from lazy_rebuild [where s = wall_model and E = euclid and query = "(0, 0, 0)" and bound = 100
      and acc = True and r = r and s' = s'] ne c
  have "rebuilt wall_model s' \<and> vertex_rebuilt wall_model s'" by blast
  then show ?thesis using a ne c by simp
qed

text \<open>
  C3 as stated fails for \<^verbatim>\<open>closestPoint\<close>, which first asks \<^verbatim>\<open>isEmpty()\<close>: on an empty
  model whose flag is not set it answers without a rebuild and leaves the flag unset.
\<close>

theorem lazy_rebuild_counterexample:
  "\<not> valid_kdtree (invalidateAll (Model_new :: Vector3 Model)) \<and>
   closestPoint euclid (0, 0, 0) 10 False (invalidateAll Model_new) =
     Inr (cp_none, invalidateAll Model_new)"
  by (simp add: closestPoint_def isEmpty_def Model_new_def model_ops)

subsection \<open>Empty models\<close>

text \<open>
  C4: on an empty model (no mesh group or an empty one, and no point cloud or an empty
  one) \<^verbatim>\<open>closestPoint\<close> is not an error: for every query point, bound and acceleration
  setting it returns \<open>-1\<close>, writes none of its outputs and leaves the model as it was.
\<close>

theorem closestPoint_empty:
  assumes "isEmpty s"
  shows "closestPoint E query bound acc s = Inr (cp_none, s) \<and> cp_index cp_none = - 1 \<and>
    cp_min_dist cp_none = None \<and> cp_closest_pt cp_none = None \<and>
    cp_closest_pt_normal cp_none = None"
  using assms by (simp add: closestPoint_def cp_none_def)

theorem closestPoint_empty_witness:
  "isEmpty (Model_new :: Vector3 Model) \<and>
   closestPoint euclid (1, 2, 3) 10 True Model_new = Inr (cp_none, Model_new)"
proof -
  have e: "isEmpty (Model_new :: Vector3 Model)"
    by (simp add: isEmpty_def Model_new_def)
  from closestPoint_empty [OF e] e show ?thesis by blast
qed

subsection \<open>Picking\<close>


text \<open>
  C5: let the hierarchy of the face kd-tree, if valid, hold the indices of its
  primitives. \<^verbatim>\<open>pick\<close> is its body with the kd-tree's closest-pair query as \<open>query\<close>. When
  the exact intersection is valid, the result of \<^verbatim>\<open>pick\<close> is the same whatever the
  closest-pair query would answer: \<^verbatim>\<open>pick\<close> returns the intersection's time and records the
  point of the ray at that time and the mesh and face of the intersection's element. When
  the exact intersection is invalid, the result depends on the closest-pair query only
  through its answer for the ray, the bound \<open>-1\<close> and \<open>onlyIfNoHit = true\<close>: a valid pair
  with a non-negative projection makes \<^verbatim>\<open>pick\<close> return the projection and record the
  pair's target point and the mesh and face of its target; otherwise \<^verbatim>\<open>pick\<close> returns the
  negative projection or \<open>-1\<close> and only the kd-tree is updated.
\<close>

theorem pick_fallback:
  assumes "valid_kdtree s \<longrightarrow> kd_wf (kdtree s)"
  shows "pick E ray s = pick_with (closestPair (xform E) (metricL2_ray E) (rayTester E)) E ray s \<and>
    (if isec_valid (exact_hit E ray s)
     then pick_with query E ray s = pick E ray s \<and>
          (\<exists>s'. pick E ray s = Inr (isec_time (exact_hit E ray s), s') \<and>
             valid_pick s' \<and> kdtree s' = kdtree (updateKDTree E s) \<and>
             0 \<le> isec_element (exact_hit E ray s) \<and>
             nat (isec_element (exact_hit E ray s)) < length (kd_elems (kdtree s')) \<and>
             sample_position (picked_sample s') = getPoint ray (isec_time (exact_hit E ray s)) \<and>
             sample_mesh (picked_sample s') =
               Some (tri_mesh (kd_elems (kdtree s') ! nat (isec_element (exact_hit E ray s)))) \<and>
             sample_face_index (picked_sample s') =
               tri_face_index (kd_elems (kdtree s') ! nat (isec_element (exact_hit E ray s))))
     else (query (kdtree (updateKDTree E s)) ray (- 1) True = near_miss E ray s \<longrightarrow>
             pick_with query E ray s = pick E ray s) \<and>
          (if pair_valid (near_miss E ray s) \<and> 0 \<le> projection ray (near_miss E ray s)
           then \<exists>s'. pick E ray s = Inr (projection ray (near_miss E ray s), s') \<and>
                  valid_pick s' \<and> kdtree s' = kdtree (updateKDTree E s) \<and>
                  0 \<le> pair_target_index (near_miss E ray s) \<and>
                  nat (pair_target_index (near_miss E ray s)) < length (kd_elems (kdtree s')) \<and>
                  sample_position (picked_sample s') = pair_target_point (near_miss E ray s) \<and>
                  sample_mesh (picked_sample s') =
                    Some (tri_mesh (kd_elems (kdtree s') ! nat (pair_target_index (near_miss E ray s)))) \<and>
                  sample_face_index (picked_sample s') =
                    tri_face_index (kd_elems (kdtree s') ! nat (pair_target_index (near_miss E ray s)))
           else pick E ray s =
                  Inr (if pair_valid (near_miss E ray s) then projection ray (near_miss E ray s)
                       else - 1,
                       updateKDTree E s)))"
proof -
  let ?kd = "kdtree (updateKDTree E s)"
  have wf: "kd_wf ?kd" using kd_wf_updateKDTree [OF assms] .
  have link: "pick E ray s =
      pick_with (closestPair (xform E) (metricL2_ray E) (rayTester E)) E ray s"
    by (rule pick_pick_with)
  show ?thesis
  proof (cases "isec_valid (exact_hit E ray s)")
    case True
    then have v: "isec_valid (rayStructureIntersection (xform E) (rayTester E) ?kd ray
        (default_max_time E))"
      by (simp add: exact_hit_def rayIntersection_state)
    from isec_element_range [OF wf v]
    have r: "0 \<le> isec_element (exact_hit E ray s)"
      "nat (isec_element (exact_hit E ray s)) < length (kd_elems ?kd)"
      by (simp_all add: exact_hit_def rayIntersection_state)
    have a: "pick_with query E ray s = pick E ray s"
      using True by (simp add: pick_def pick_with_def exact_hit_def rayIntersection_state Let_def)
    have b: "\<exists>s'. pick E ray s = Inr (isec_time (exact_hit E ray s), s') \<and>
             valid_pick s' \<and> kdtree s' = ?kd \<and>
             0 \<le> isec_element (exact_hit E ray s) \<and>
             nat (isec_element (exact_hit E ray s)) < length (kd_elems (kdtree s')) \<and>
             sample_position (picked_sample s') = getPoint ray (isec_time (exact_hit E ray s)) \<and>
             sample_mesh (picked_sample s') =
               Some (tri_mesh (kd_elems (kdtree s') ! nat (isec_element (exact_hit E ray s)))) \<and>
             sample_face_index (picked_sample s') =
               tri_face_index (kd_elems (kdtree s') ! nat (isec_element (exact_hit E ray s)))"
      using True r by (simp add: pick_def exact_hit_def rayIntersection_state Let_def)
    from link a b True show ?thesis by simp
  next
    case False
    have a: "query ?kd ray (- 1) True = near_miss E ray s \<longrightarrow>
        pick_with query E ray s = pick E ray s"
      using False
      by (simp add: pick_def pick_with_def exact_hit_def near_miss_def rayIntersection_state
          Let_def)
    have b: "if pair_valid (near_miss E ray s) \<and> 0 \<le> projection ray (near_miss E ray s)
           then \<exists>s'. pick E ray s = Inr (projection ray (near_miss E ray s), s') \<and>
                  valid_pick s' \<and> kdtree s' = ?kd \<and>
                  0 \<le> pair_target_index (near_miss E ray s) \<and>
                  nat (pair_target_index (near_miss E ray s)) < length (kd_elems (kdtree s')) \<and>
                  sample_position (picked_sample s') = pair_target_point (near_miss E ray s) \<and>
                  sample_mesh (picked_sample s') =
                    Some (tri_mesh (kd_elems (kdtree s') ! nat (pair_target_index (near_miss E ray s)))) \<and>
                  sample_face_index (picked_sample s') =
                    tri_face_index (kd_elems (kdtree s') ! nat (pair_target_index (near_miss E ray s)))
           else pick E ray s =
                  Inr (if pair_valid (near_miss E ray s) then projection ray (near_miss E ray s)
                       else - 1,
                       updateKDTree E s)"
    proof (cases "pair_valid (near_miss E ray s)")
      case p: True
      from pair_index_range [OF wf, of "xform E" "metricL2_ray E" "rayTester E" ray "- 1" True] p
      have r: "0 \<le> pair_target_index (near_miss E ray s)"
        "nat (pair_target_index (near_miss E ray s)) < length (kd_elems ?kd)"
        by (simp_all add: near_miss_def)
      show ?thesis
        using False p r
        by (simp add: pick_def exact_hit_def near_miss_def projection_def rayIntersection_state
            Let_def)
    next
      case p: False
      show ?thesis
        using False p
        by (simp add: pick_def exact_hit_def near_miss_def projection_def rayIntersection_state
            Let_def)
    qed
    from link a b False show ?thesis by simp
  qed
qed

theorem pick_fallback_witness:
  "isec_valid (exact_hit euclid down_ray square_model) \<and>
   pick_with (\<lambda>kd r b f. \<lparr>pair_valid = True, pair_query_point = (0, 0, 0),
                            pair_target_point = (0, 0, 0), pair_target_index = 0,
                            pair_distance = 0\<rparr>) euclid down_ray square_model =
     pick euclid down_ray square_model \<and>
   map_sum id fst (pick euclid down_ray square_model) = Inr 5 \<and>
   map_sum id (valid_pick \<circ> snd) (pick euclid down_ray square_model) = Inr True \<and>
   \<not> isec_valid (exact_hit euclid axis_ray far_model) \<and>
   pair_valid (near_miss euclid axis_ray far_model) \<and>
   projection axis_ray (near_miss euclid axis_ray far_model) = 8 \<and>
   pick_with (\<lambda>kd r b f. if b = - 1 \<and> f then near_miss euclid axis_ray far_model else no_pair)
     euclid axis_ray far_model = pick euclid axis_ray far_model \<and>
   map_sum id fst (pick euclid axis_ray far_model) = Inr 8 \<and>
   map_sum id (valid_pick \<circ> snd) (pick euclid axis_ray far_model) = Inr True \<and>
   map_sum id (sample_face_index \<circ> picked_sample \<circ> snd) (pick euclid axis_ray far_model) = Inr 7 \<and>
   \<not> isec_valid (exact_hit euclid axis_ray cloud_model) \<and>
   \<not> pair_valid (near_miss euclid axis_ray cloud_model) \<and>
   pick euclid axis_ray cloud_model = Inr (- 1, updateKDTree euclid cloud_model)"
proof -
  let ?always = "(\<lambda>kd r b f. \<lparr>pair_valid = True, pair_query_point = (0, 0, 0),
      pair_target_point = (0, 0, 0), pair_target_index = 0, pair_distance = 0\<rparr>)
      :: (Triangle, Vector3) KDTreeN \<Rightarrow> Ray3 \<Rightarrow> Real \<Rightarrow> bool \<Rightarrow> NeighborPair"
  let ?only = "(\<lambda>kd r b f. if b = - 1 \<and> f then near_miss euclid axis_ray far_model else no_pair)
      :: (Triangle, Vector3) KDTreeN \<Rightarrow> Ray3 \<Rightarrow> Real \<Rightarrow> bool \<Rightarrow> NeighborPair"
  have wf: "valid_kdtree square_model \<longrightarrow> kd_wf (kdtree square_model)"
    "valid_kdtree far_model \<longrightarrow> kd_wf (kdtree far_model)"
    "valid_kdtree cloud_model \<longrightarrow> kd_wf (kdtree cloud_model)"
    by (simp_all add: example_models model_ops)
  have v: "isec_valid (exact_hit euclid down_ray square_model)"
    by (simp add: exact_hit_def rayIntersection_state euclid_fields square_exact)
  have n: "\<not> isec_valid (exact_hit euclid axis_ray far_model)"
    by (simp add: exact_hit_def rayIntersection_state euclid_fields far_exact no_intersection_def)
  have p: "pair_valid (near_miss euclid axis_ray far_model) \<and>
           projection axis_ray (near_miss euclid axis_ray far_model) = 8"
    by (simp add: near_miss_def euclid_fields far_near projection_def normalized_def norm3_def
        axis_ray_fields)
  from pick_fallback [OF wf(1), of euclid down_ray ?always, THEN conjunct2] v
  have a: "pick_with ?always euclid down_ray square_model = pick euclid down_ray square_model \<and>
      (\<exists>s'. pick euclid down_ray square_model =
               Inr (isec_time (exact_hit euclid down_ray square_model), s') \<and> valid_pick s')"
    by auto
  have t: "isec_time (exact_hit euclid down_ray square_model) = 5"
    by (simp add: exact_hit_def rayIntersection_state euclid_fields square_exact)
  from pick_fallback [OF wf(2), of euclid axis_ray ?only, THEN conjunct2] n p
  have b: "pick_with ?only euclid axis_ray far_model = pick euclid axis_ray far_model \<and>
      (\<exists>s'. pick euclid axis_ray far_model = Inr (8, s') \<and> valid_pick s')"
    by auto
  from pick_fallback [OF wf(3), of euclid axis_ray, THEN conjunct2] cloud_pick
  have c: "pick euclid axis_ray cloud_model = Inr (- 1, updateKDTree euclid cloud_model)" by simp
  from a b c v n p t far_pick cloud_pick show ?thesis by auto
qed

subsection \<open>Transforms\<close>

text \<open>
  C6: \<^verbatim>\<open>setTransform\<close> and \<^verbatim>\<open>clearTransform\<close> change only the stored affine transform.
  In every model state they leave both validity flags, the primitives and the hierarchy
  of both kd-trees and the number of rebuilds as they were; with the transforms erased
  (\<open>strip_transform\<close>) the state after is the state before.
\<close>

theorem transform_frame:
  "valid_kdtree (setTransform tr s) = valid_kdtree s \<and>
   valid_vertex_kdtree (setTransform tr s) = valid_vertex_kdtree s \<and>
   kd_elems (kdtree (setTransform tr s)) = kd_elems (kdtree s) \<and>
   kd_root (kdtree (setTransform tr s)) = kd_root (kdtree s) \<and>
   kd_elems (vertex_kdtree (setTransform tr s)) = kd_elems (vertex_kdtree s) \<and>
   kd_root (vertex_kdtree (setTransform tr s)) = kd_root (vertex_kdtree s) \<and>
   kdtree_rebuilds (setTransform tr s) = kdtree_rebuilds s \<and>
   vertex_kdtree_rebuilds (setTransform tr s) = vertex_kdtree_rebuilds s \<and>
   strip_transform (setTransform tr s) = strip_transform s \<and>
   valid_kdtree (clearTransform s) = valid_kdtree s \<and>
   valid_vertex_kdtree (clearTransform s) = valid_vertex_kdtree s \<and>
   kd_elems (kdtree (clearTransform s)) = kd_elems (kdtree s) \<and>
   kd_root (kdtree (clearTransform s)) = kd_root (kdtree s) \<and>
   kd_elems (vertex_kdtree (clearTransform s)) = kd_elems (vertex_kdtree s) \<and>
   kd_root (vertex_kdtree (clearTransform s)) = kd_root (vertex_kdtree s) \<and>
   kdtree_rebuilds (clearTransform s) = kdtree_rebuilds s \<and>
   vertex_kdtree_rebuilds (clearTransform s) = vertex_kdtree_rebuilds s \<and>
   strip_transform (clearTransform s) = strip_transform s"
  by (simp add: model_ops strip_transform_def Let_def)

text \<open>
  C7: on a model without a transform (whose valid kd-trees store none either),
  \<^verbatim>\<open>setTransform(T)\<close> followed by \<^verbatim>\<open>clearTransform()\<close> restores the state, so that a query
  then gives the result, and the state, that it gives on the model as it was, for all
  five queries. (In every state the two calls leave what \<^verbatim>\<open>clearTransform()\<close> alone
  leaves: \<open>set_then_clear\<close>.)
\<close>

theorem transform_roundtrip:
  assumes "transform s = None" and "transforms_agree s"
  shows "clearTransform (setTransform tr s) = s \<and>
         rayIntersects E ray max_time (clearTransform (setTransform tr s)) =
           rayIntersects E ray max_time s \<and>
         rayIntersectionTime E ray max_time (clearTransform (setTransform tr s)) =
           rayIntersectionTime E ray max_time s \<and>
         rayIntersection E ray max_time (clearTransform (setTransform tr s)) =
           rayIntersection E ray max_time s \<and>
         closestPoint E query bound acc (clearTransform (setTransform tr s)) =
           closestPoint E query bound acc s \<and>
         pick E ray (clearTransform (setTransform tr s)) = pick E ray s"
  using assms by (simp add: clear_after_set)

theorem transform_roundtrip_witness:
  "transform (updateKDTree euclid square_model) = None \<and>
   transforms_agree (updateKDTree euclid square_model) \<and>
   closestPoint euclid (0, 0, 2) 5 False
     (clearTransform (setTransform (1, 2, 3) (updateKDTree euclid square_model))) =
   closestPoint euclid (0, 0, 2) 5 False (updateKDTree euclid square_model)"
  using transform_roundtrip [of "updateKDTree euclid square_model"] square_agree by blast

subsection \<open>The unguarded mesh group\<close>


text \<open>
  C8: in every reachable state, \<^verbatim>\<open>closestPoint\<close> with \<open>accelerate_with_vertices\<close> on a
  non-empty model without a mesh group dereferences the null pointer; with a mesh group
  \<^verbatim>\<open>updateVertexKDTree\<close> returns and so does \<^verbatim>\<open>closestPoint\<close>; without acceleration
  \<^verbatim>\<open>closestPoint\<close> returns in either case.
\<close>

theorem vertex_path_null:
  assumes "reachable E s"
  shows "(mesh_group s = None \<and> \<not> isEmpty s \<longrightarrow>
            closestPoint E query bound True s = Inl NullDereference) \<and>
         (mesh_group s \<noteq> None \<longrightarrow>
            (\<exists>s1. updateVertexKDTree E s = Inr s1) \<and>
            (\<exists>r s'. closestPoint E query bound True s = Inr (r, s'))) \<and>
         (\<exists>r s'. closestPoint E query bound False s = Inr (r, s'))"
proof -
  have snd: "sound_state s" using assms by (rule reachable_sound)
  have p1: "mesh_group s = None \<and> \<not> isEmpty s \<longrightarrow>
            closestPoint E query bound True s = Inl NullDereference"
  proof
    assume a: "mesh_group s = None \<and> \<not> isEmpty s"
    then have "point_cloud s \<noteq> None" by (auto simp add: isEmpty_def split: option.splits)
    then have "\<not> valid_vertex_kdtree s" using a snd by (simp add: sound_state_def)
    then have "updateVertexKDTree E s = Inl NullDereference"
      using a by (simp add: updateVertexKDTree_def Let_def)
    then show "closestPoint E query bound True s = Inl NullDereference"
      using a by (simp add: closestPoint_def tightenBound_def)
  qed
  have p2: "mesh_group s \<noteq> None \<longrightarrow>
            (\<exists>s1. updateVertexKDTree E s = Inr s1) \<and>
            (\<exists>r s'. closestPoint E query bound True s = Inr (r, s'))"
    using updateVertexKDTree_mesh [of s E] closestPoint_returns [OF snd, of True E query bound]
    by blast
  have p3: "\<exists>r s'. closestPoint E query bound False s = Inr (r, s')"
    using closestPoint_returns [OF snd, of False] by simp
  from p1 p2 p3 show ?thesis by blast
qed

theorem vertex_path_null_witness:
  "reachable euclid cloud_model \<and>
   closestPoint euclid (0, 0, 0) 100 True cloud_model = Inl NullDereference \<and>
   reachable euclid wall_model \<and>
   closestPoint euclid (0, 0, 0) 100 True wall_model \<noteq> Inl NullDereference"
proof -
  have c: "mesh_group cloud_model = None \<and> \<not> isEmpty cloud_model"
    by (simp add: cloud_model_def Model_new_def model_ops isEmpty_def)
  have w: "mesh_group wall_model \<noteq> None"
    by (simp add: wall_model_def Model_new_def model_ops)
  from vertex_path_null [OF cloud_reachable, of "(0, 0, 0)" 100] c
  have 1: "closestPoint euclid (0, 0, 0) 100 True cloud_model = Inl NullDereference" by blast
  from vertex_path_null [OF wall_reachable, of "(0, 0, 0)" 100] w
  have 2: "closestPoint euclid (0, 0, 0) 100 True wall_model \<noteq> Inl NullDereference" by auto
  from 1 2 cloud_reachable wall_reachable show ?thesis by blast
qed

subsection \<open>Transforms of valid kd-trees\<close>

text \<open>
  C9 (as amended): that every valid kd-tree stores the model's transform is preserved by
  \<^verbatim>\<open>setTransform\<close>, \<^verbatim>\<open>clearTransform\<close> and the three invalidations; by \<^verbatim>\<open>updateKDTree\<close>
  when the kd-tree is valid already, or the model has a mesh group and a transform, or
  the kd-tree stores what the model has (so also when neither has a transform); and by
  \<^verbatim>\<open>updateVertexKDTree\<close>, when it returns, if the kd-tree is valid already, or the model
  has a transform, or the kd-tree stores what the model has.
\<close>

theorem transforms_agree_preserved:
  assumes "transforms_agree s"
  shows "transforms_agree (setTransform tr s) \<and> transforms_agree (clearTransform s) \<and>
    transforms_agree (invalidateKDTree s) \<and> transforms_agree (invalidateVertexKDTree s) \<and>
    transforms_agree (invalidateAll s) \<and>
    (valid_kdtree s \<or> mesh_group s \<noteq> None \<and> transform s \<noteq> None \<or>
     kd_trans (kdtree s) = transform s \<longrightarrow>
       transforms_agree (updateKDTree E s)) \<and>
    (valid_vertex_kdtree s \<or> transform s \<noteq> None \<or>
     kd_trans (vertex_kdtree s) = transform s \<longrightarrow>
       (\<forall>s'. updateVertexKDTree E s = Inr s' \<longrightarrow> transforms_agree s'))"
  using assms
  by (auto simp add: transforms_agree_def model_ops updateKDTree_def updateVertexKDTree_def
      Let_def kd_init_def kd_init_from_def kd_add_def kd_clear_def split: option.splits if_splits)

theorem transforms_agree_preserved_witness:
  "transforms_agree (setTransform (1, 0, 0) wall_model) \<and>
   transforms_agree (clearTransform (setTransform (1, 0, 0) wall_model)) \<and>
   transforms_agree (updateKDTree euclid (setTransform (1, 0, 0) wall_model)) \<and>
   map_sum id transforms_agree (updateVertexKDTree euclid (setTransform (1, 0, 0) wall_model)) =
     Inr True \<and>
   transforms_agree wall_model \<and> transform wall_model = None \<and>
   kd_trans (kdtree wall_model) = None \<and> kd_trans (vertex_kdtree wall_model) = None \<and>
   transforms_agree (updateKDTree euclid wall_model) \<and>
   map_sum id transforms_agree (updateVertexKDTree euclid wall_model) = Inr True \<and>
   valid_kdtree (updateKDTree euclid wall_model) \<and>
   transforms_agree (updateKDTree euclid (updateKDTree euclid wall_model)) \<and>
   transforms_agree (updateKDTree euclid cloud_model)"
proof -
  let ?s = "setTransform (1, 0, 0) wall_model"
  have a: "transforms_agree ?s"
    by (simp add: transforms_agree_def wall_model_def Model_new_def model_ops)
  have m: "mesh_group ?s \<noteq> None \<and> transform ?s \<noteq> None"
    by (simp add: wall_model_def Model_new_def model_ops)
  then obtain s1 where s1: "updateVertexKDTree euclid ?s = Inr s1"
    using updateVertexKDTree_mesh by blast
  from transforms_agree_preserved [OF a, of "(1, 0, 0)" euclid] m a s1
  have 1: "transforms_agree ?s \<and> transforms_agree (clearTransform ?s) \<and>
    transforms_agree (updateKDTree euclid ?s) \<and>
    map_sum id transforms_agree (updateVertexKDTree euclid ?s) = Inr True" by simp
  have w: "transforms_agree wall_model" "transform wall_model = None"
    "kd_trans (kdtree wall_model) = None" "kd_trans (vertex_kdtree wall_model) = None"
    "mesh_group wall_model \<noteq> None"
    by (simp_all add: transforms_agree_def example_models model_ops)
  then obtain s2 where s2: "updateVertexKDTree euclid wall_model = Inr s2"
    using updateVertexKDTree_mesh by blast
  from transforms_agree_preserved [OF w(1), of "(1, 0, 0)" euclid] w s2
  have 2: "transforms_agree (updateKDTree euclid wall_model) \<and>
    map_sum id transforms_agree (updateVertexKDTree euclid wall_model) = Inr True" by simp
  have c: "transforms_agree cloud_model" "kd_trans (kdtree cloud_model) = transform cloud_model"
    by (simp_all add: transforms_agree_def example_models model_ops)
  from transforms_agree_preserved [OF c(1), of "(1, 0, 0)" euclid] c(2)
  have 3: "transforms_agree (updateKDTree euclid cloud_model)" by simp
  have v: "valid_kdtree (updateKDTree euclid wall_model)"
    using rebuilt_updateKDTree [of wall_model euclid] by (simp add: rebuilt_def)
  from transforms_agree_preserved [of "updateKDTree euclid wall_model" "(1, 0, 0)" euclid] 2 v
  have 4: "transforms_agree (updateKDTree euclid (updateKDTree euclid wall_model))" by simp
  from 1 2 3 4 v w show ?thesis by simp
qed

text \<open>
  C9 as stated fails: \<^verbatim>\<open>updateKDTree\<close> applies the transform inside the branch that
  needs a mesh group. On a point cloud with a transform set while the flag was unset, it
  sets the flag and the kd-tree stores no transform.
\<close>

theorem transforms_agree_counterexample:
  "transforms_agree (setTransform (1, 0, 0) cloud_model) \<and>
   \<not> transforms_agree (updateKDTree euclid (setTransform (1, 0, 0) cloud_model))"
  by (simp add: transforms_agree_def cloud_model_def Model_new_def model_ops updateKDTree_def
      Let_def kd_clear_def kd_new_def)

subsection \<open>A pick that finds nothing\<close>


text \<open>
  C10: when the exact intersection is invalid and the closest-pair query gives no valid
  pair with a non-negative projection, \<^verbatim>\<open>pick\<close> returns a negative time and leaves
  \<open>valid_pick\<close> and \<open>picked_sample\<close> as they were. Whenever \<^verbatim>\<open>pick\<close> returns, a pick that
  was valid stays valid; \<^verbatim>\<open>invalidatePick\<close> unsets the flag.
\<close>

theorem pick_nothing:
  "(\<not> isec_valid (exact_hit E ray s) \<and>
    \<not> (pair_valid (near_miss E ray s) \<and> 0 \<le> projection ray (near_miss E ray s)) \<longrightarrow>
      (\<exists>t. pick E ray s = Inr (t, updateKDTree E s) \<and> t < 0) \<and>
      valid_pick (updateKDTree E s) = valid_pick s \<and>
      picked_sample (updateKDTree E s) = picked_sample s) \<and>
   (pick E ray s = Inr (t', s') \<and> valid_pick s \<longrightarrow> valid_pick s') \<and>
   \<not> valid_pick (invalidatePick s)"
proof -
  have a: "\<not> isec_valid (exact_hit E ray s) \<and>
    \<not> (pair_valid (near_miss E ray s) \<and> 0 \<le> projection ray (near_miss E ray s)) \<longrightarrow>
      (\<exists>t. pick E ray s = Inr (t, updateKDTree E s) \<and> t < 0) \<and>
      valid_pick (updateKDTree E s) = valid_pick s \<and>
      picked_sample (updateKDTree E s) = picked_sample s"
    by (auto simp add: pick_def exact_hit_def near_miss_def projection_def rayIntersection_state
        updateKDTree_pick_frame Let_def)
  have b: "pick E ray s = Inr (t', s') \<and> valid_pick s \<longrightarrow> valid_pick s'"
    by (auto simp add: pick_def rayIntersection_state updateKDTree_pick_frame Let_def
        split: if_splits)
  show ?thesis using a b by (simp add: invalidatePick_def)
qed

theorem pick_nothing_witness:
  "reachable euclid cleared_far \<and> valid_pick cleared_far \<and>
   \<not> isec_valid (exact_hit euclid axis_ray cleared_far) \<and>
   \<not> pair_valid (near_miss euclid axis_ray cleared_far) \<and>
   map_sum id (\<lambda>p. fst p < 0) (pick euclid axis_ray cleared_far) = Inr True \<and>
   map_sum id (valid_pick \<circ> snd) (pick euclid axis_ray cleared_far) = Inr True \<and>
   map_sum id (picked_sample \<circ> snd) (pick euclid axis_ray cleared_far) =
     Inr (picked_sample cleared_far) \<and>
   \<not> valid_pick (invalidatePick cleared_far)"
proof -
  let ?s = cleared_far
  from empty_index_pick [OF cleared_far_state(3), of axis_ray]
  have n: "\<not> isec_valid (exact_hit euclid axis_ray ?s) \<and> \<not> pair_valid (near_miss euclid axis_ray ?s)" .
  from pick_nothing [of euclid axis_ray ?s] n
  obtain t where t: "pick euclid axis_ray ?s = Inr (t, updateKDTree euclid ?s)" "t < 0"
    "picked_sample (updateKDTree euclid ?s) = picked_sample ?s" by blast
  from pick_nothing [of euclid axis_ray ?s t "updateKDTree euclid ?s"] t(1) cleared_far_state(2)
  have "valid_pick (updateKDTree euclid ?s)" "\<not> valid_pick (invalidatePick ?s)" by simp_all
  then show ?thesis using n t cleared_far_state by simp
qed

end
